theory Spec2Isabelle
  imports Main "HOL-Library.Word" "HOL-Library.AList" "HOL-Library.List_Lexorder"
begin

unbundle bit_operations_syntax

section \<open>The lending order book state of tomox (state\_lendingbook.go)\<close>

text \<open>
  A shallow embedding of \<^verbatim>\<open>src/tomox/lending_state/state_lendingbook.go\<close>.
  Every method of \<^verbatim>\<open>lendingExchangeState\<close> becomes a function that takes the receiver's
  value and returns the updated one. A method that can panic returns a value of
  \<open>panic + _\<close>. Go maps used as caches are association lists read with \<open>map_of\<close> and
  written with \<open>AList.update\<close>; a \<^verbatim>\<open>range\<close> loop visits the list in order. The
  dirty maps \<^verbatim>\<open>map[common.Hash]struct{}\<close> are sets.
\<close>

subsection \<open>Hashes, bytes, errors\<close>

type_synonym byte = "8 word"
type_synonym bytes = "byte list"

text \<open>\<^verbatim>\<open>common.Hash\<close> is \<^verbatim>\<open>[32]byte\<close>; the 256-bit word is the array read big-endian.\<close>
type_synonym hash = "256 word"

text \<open>The slice \<^verbatim>\<open>h[:]\<close> of a hash: its 32 bytes, most significant first.\<close>
definition hashBytes :: "hash \<Rightarrow> bytes" where
  "hashBytes h = map (\<lambda>i. ucast (drop_bit (8 * (31 - i)) h)) [0..<32]"

text \<open>Modelled from the spec: \<^verbatim>\<open>common.BytesToHash\<close> (package common, not under src) turns
  a byte string into the fixed-width 256-bit hash-shaped value: the bytes are read big-endian,
  a longer string keeps its last 32 bytes.\<close>
definition BytesToHash :: "bytes \<Rightarrow> hash" where
  "BytesToHash b = foldl (\<lambda>acc x. push_bit 8 acc + ucast x) 0 b"

text \<open>Modelled from the spec: \<^verbatim>\<open>common.BigToHash(new(big.Int).SetUint64(n))\<close> (package common,
  not under src) serialises the unsigned number into the fixed 256-bit width, big-endian.\<close>
definition BigToHash_SetUint64 :: "64 word \<Rightarrow> hash" where
  "BigToHash_SetUint64 n = ucast n"

text \<open>Modelled from the spec: the package-level \<^verbatim>\<open>EmptyHash\<close> (declared outside this file) is
  the empty-hash sentinel, the zero value of \<^verbatim>\<open>common.Hash\<close>.\<close>
definition EmptyHash :: hash where
  "EmptyHash = 0"

text \<open>Modelled from the spec: \<^verbatim>\<open>common.EmptyHash(h)\<close> (package common, not under src) is the
  test for the empty hash, the spec's empty-hash sentinel and this package's \<^verbatim>\<open>EmptyHash\<close>:
  the zero value, which is also the root that this file opens an empty trie with. The test
  looks at the hash alone. The hash that an empty trie reports and the package-level
  \<^verbatim>\<open>EmptyRoot\<close> that the commit callbacks compare with are given by the database below;
  they are the zero hash only if the database makes them so.\<close>
definition common_EmptyHash :: "hash \<Rightarrow> bool" where
  "common_EmptyHash h \<longleftrightarrow> h = EmptyHash"

text \<open>Go \<^verbatim>\<open>error\<close> values. \<open>TrieFault\<close> is an error of the trie or of the key-value store
  beneath it; the other two are the \<^verbatim>\<open>fmt.Errorf\<close> wrappers of this file.\<close>
datatype error =
    TrieFault nat
  | CodecError nat
  | CantCreateLendingsTrie error
  | CantCreateBidsTrie error

datatype panic =
    NilDereference
  | CantEncodeOrderList hash error

subsection \<open>The trie capability\<close>

text \<open>Modelled from the spec: the \<^verbatim>\<open>database.Trie\<close> interface is not under src. The spec
  gives it as a sorted key/value map with \<open>get(key) -> bytes|absent\<close>,
  \<open>update(key, bytes) -> ok|error\<close>, \<open>delete(key) -> ok|error\<close>, \<open>hash() -> root\<close>,
  \<open>commit(leafCallback) -> (root, error)\<close> and the two extremal queries, keys compared
  as raw byte strings. A handle is its leaves plus the data that decides which calls fail:
  \<open>keyFault\<close> for the calls on one key, \<open>trieFault\<close> for the extremal queries and commit.
  A failing call leaves the leaves as they are.\<close>
record trie =
  leaves :: "(bytes \<times> bytes) list"
  keyFault :: "bytes \<Rightarrow> error option"
  trieFault :: "error option"

definition TryGet :: "trie \<Rightarrow> bytes \<Rightarrow> bytes \<times> error option" where
  "TryGet t k =
     (case keyFault t k of
        Some e \<Rightarrow> ([], Some e)
      | None \<Rightarrow> (case map_of (leaves t) k of None \<Rightarrow> ([], None) | Some v \<Rightarrow> (v, None)))"

definition TryUpdate :: "trie \<Rightarrow> bytes \<Rightarrow> bytes \<Rightarrow> trie \<times> error option" where
  "TryUpdate t k v =
     (case keyFault t k of
        Some e \<Rightarrow> (t, Some e)
      | None \<Rightarrow> (t\<lparr>leaves := AList.update k v (leaves t)\<rparr>, None))"

definition TryDelete :: "trie \<Rightarrow> bytes \<Rightarrow> trie \<times> error option" where
  "TryDelete t k =
     (case keyFault t k of
        Some e \<Rightarrow> (t, Some e)
      | None \<Rightarrow> (t\<lparr>leaves := AList.delete k (leaves t)\<rparr>, None))"

text \<open>The smallest and the largest key of a list of keys, byte-lexicographically.\<close>
fun leftmost :: "bytes list \<Rightarrow> bytes option" where
  "leftmost [] = None"
| "leftmost (k # ks) = (case leftmost ks of None \<Rightarrow> Some k | Some m \<Rightarrow> Some (if k \<le> m then k else m))"

fun rightmost :: "bytes list \<Rightarrow> bytes option" where
  "rightmost [] = None"
| "rightmost (k # ks) = (case rightmost ks of None \<Rightarrow> Some k | Some m \<Rightarrow> Some (if m \<le> k then k else m))"

text \<open>An absent answer is the triple of two empty byte strings and no error.\<close>
definition TryGetBestLeftKeyAndValue :: "trie \<Rightarrow> bytes \<times> bytes \<times> error option" where
  "TryGetBestLeftKeyAndValue t =
     (case trieFault t of
        Some e \<Rightarrow> ([], [], Some e)
      | None \<Rightarrow>
          (case leftmost (map fst (leaves t)) of
             None \<Rightarrow> ([], [], None)
           | Some k \<Rightarrow> (k, (case map_of (leaves t) k of None \<Rightarrow> [] | Some v \<Rightarrow> v), None)))"

definition TryGetBestRightKeyAndValue :: "trie \<Rightarrow> bytes \<times> bytes \<times> error option" where
  "TryGetBestRightKeyAndValue t =
     (case trieFault t of
        Some e \<Rightarrow> ([], [], Some e)
      | None \<Rightarrow>
          (case rightmost (map fst (leaves t)) of
             None \<Rightarrow> ([], [], None)
           | Some k \<Rightarrow> (k, (case map_of (leaves t) k of None \<Rightarrow> [] | Some v \<Rightarrow> v), None)))"

definition emptyTrie :: trie where
  "emptyTrie = \<lparr>leaves = [], keyFault = (\<lambda>_. None), trieFault = None\<rparr>"

subsection \<open>Records stored in the tries\<close>

text \<open>\<^verbatim>\<open>lendingObject\<close>: the persisted root record of one order book.\<close>
record lendingObject =
  Nonce :: "64 word"
  InvestingRoot :: hash
  BorrowingRoot :: hash
  LendingItemRoot :: hash
  LiquidationTimeRoot :: hash

text \<open>Modelled from the spec: \<^verbatim>\<open>itemList\<close> (declared outside this file) is the root hash of
  the nested trie plus scalar summary fields; this file reads only \<^verbatim>\<open>Root\<close>.\<close>
record itemList =
  Root :: hash
  Summary :: nat

text \<open>The zero value \<^verbatim>\<open>itemList{}\<close>.\<close>
definition itemList_zero :: itemList where
  "itemList_zero = \<lparr>Root = 0, Summary = 0\<rparr>"

text \<open>Modelled from the spec: \<^verbatim>\<open>LendingItem\<close> (declared outside this file) is the full order
  record; this file reads only \<^verbatim>\<open>OrderID\<close>, the other scalar fields are kept as one value.\<close>
record LendingItem =
  OrderID :: "64 word"
  Fields :: nat

subsection \<open>Sub-state objects and their callbacks\<close>

text \<open>An address of a \<^verbatim>\<open>lendingExchangeState\<close> on the heap.\<close>
type_synonym ref = nat

text \<open>The four dirty-marking methods. A method value such as \<^verbatim>\<open>self.MarkBorrowingDirty\<close>
  is the pair of the receiver's address and the method.\<close>
datatype markMethod = MarkInvestingDirty_m | MarkBorrowingDirty_m | MarkLendingItemDirty_m
  | MarkLiquidationTimeDirty_m

type_synonym dirtyCallback = "ref \<times> markMethod"

datatype orderType = INVESTING | BORROWING

record itemListState =
  il_orderType :: orderType
  il_lendingBook :: hash
  price :: hash
  il_data :: itemList
  il_onDirty :: "dirtyCallback option"

record liquidationTimeState =
  lt_lendingBook :: hash
  lt_time :: hash
  lt_data :: itemList
  lt_onDirty :: "dirtyCallback option"

record lendingItemState =
  li_lendingBook :: hash
  li_orderId :: hash
  li_data :: LendingItem
  li_onDirty :: "dirtyCallback option"

text \<open>Modelled from the spec: the three constructors (declared outside this file) wrap the
  decoded or supplied record in a new sub-state object bound to the dirty-marking callback
  they are given. The argument order is that of the call sites in this file, without the
  \<^verbatim>\<open>*LendingStateDB\<close> back-pointer.\<close>
definition newItemListState ::
  "orderType \<Rightarrow> hash \<Rightarrow> hash \<Rightarrow> itemList \<Rightarrow> dirtyCallback option \<Rightarrow> itemListState" where
  "newItemListState ty book rate d cb =
     \<lparr>il_orderType = ty, il_lendingBook = book, price = rate, il_data = d, il_onDirty = cb\<rparr>"

definition newLiquidationTimeState ::
  "hash \<Rightarrow> hash \<Rightarrow> itemList \<Rightarrow> dirtyCallback option \<Rightarrow> liquidationTimeState" where
  "newLiquidationTimeState book time d cb =
     \<lparr>lt_lendingBook = book, lt_time = time, lt_data = d, lt_onDirty = cb\<rparr>"

definition newLendinItemState ::
  "hash \<Rightarrow> hash \<Rightarrow> LendingItem \<Rightarrow> dirtyCallback option \<Rightarrow> lendingItemState" where
  "newLendinItemState book orderId d cb =
     \<lparr>li_lendingBook = book, li_orderId = orderId, li_data = d, li_onDirty = cb\<rparr>"

text \<open>Modelled from the spec: the sub-states' \<^verbatim>\<open>deepCopy\<close> (declared outside this file)
  copies the object and binds the copy to the callback it is given.\<close>
definition itemListState_deepCopy :: "itemListState \<Rightarrow> dirtyCallback option \<Rightarrow> itemListState" where
  "itemListState_deepCopy obj cb =
     newItemListState (il_orderType obj) (il_lendingBook obj) (price obj) (il_data obj) cb"

definition liquidationTimeState_deepCopy ::
  "liquidationTimeState \<Rightarrow> dirtyCallback option \<Rightarrow> liquidationTimeState" where
  "liquidationTimeState_deepCopy obj cb =
     newLiquidationTimeState (lt_lendingBook obj) (lt_time obj) (lt_data obj) cb"

definition lendingItemState_deepCopy ::
  "lendingItemState \<Rightarrow> dirtyCallback option \<Rightarrow> lendingItemState" where
  "lendingItemState_deepCopy obj cb =
     newLendinItemState (li_lendingBook obj) (li_orderId obj) (li_data obj) cb"

subsection \<open>The collaborators reached through \<^verbatim>\<open>db\<close>\<close>

text \<open>The \<^verbatim>\<open>database.Database\<close> handle, the RLP codec and the methods of the sub-state
  types are code of the repository outside this file. The model's \<open>db\<close> argument carries
  them as parameters: what \<^verbatim>\<open>OpenStorageTrie\<close> finds under an owner and a root, the hash
  of a trie's content, \<^verbatim>\<open>rlp.DecodeBytes\<close> and \<^verbatim>\<open>rlp.EncodeToBytes\<close> at the types used
  here, the sub-states' \<^verbatim>\<open>empty()\<close> and \<^verbatim>\<open>updateRoot(db)\<close>, and the package-level
  \<^verbatim>\<open>EmptyRoot\<close>.\<close>
record database =
  storage :: "hash \<Rightarrow> hash \<Rightarrow> trie option"
  hashOf :: "(bytes \<rightharpoonup> bytes) \<Rightarrow> hash"
  EmptyRoot :: hash
  DecodeItemList :: "bytes \<Rightarrow> error + itemList"
  DecodeLendingItem :: "bytes \<Rightarrow> error + LendingItem"
  EncodeItemListState :: "itemListState \<Rightarrow> error + bytes"
  EncodeLiquidationTimeState :: "liquidationTimeState \<Rightarrow> error + bytes"
  EncodeLendingItemState :: "lendingItemState \<Rightarrow> error + bytes"
  itemListState_empty :: "itemListState \<Rightarrow> bool"
  liquidationTimeState_empty :: "liquidationTimeState \<Rightarrow> bool"
  lendingItemState_empty :: "lendingItemState \<Rightarrow> bool"
  itemListState_updateRoot :: "itemListState \<Rightarrow> itemListState"
  liquidationTimeState_updateRoot :: "liquidationTimeState \<Rightarrow> liquidationTimeState"

text \<open>Modelled from the spec: \<open>openNestedTrie(ownerKey, rootHash) -> Trie|error\<close>; the
  empty hash opens an empty trie, another root opens what the store holds under it and
  fails when the root cannot be found. A failing call returns a nil trie.\<close>
definition OpenStorageTrie :: "database \<Rightarrow> hash \<Rightarrow> hash \<Rightarrow> trie option \<times> error option" where
  "OpenStorageTrie db owner root =
     (if root = EmptyHash then (Some emptyTrie, None)
      else (case storage db owner root of
              Some t \<Rightarrow> (Some t, None)
            | None \<Rightarrow> (None, Some (TrieFault 0))))"

text \<open>Modelled from the spec: \<open>cloneTrie(Trie) -> Trie\<close> gives an independent handle on the
  same content; handles are values here, so the clone is the value.\<close>
definition CopyTrie :: "trie \<Rightarrow> trie" where
  "CopyTrie t = t"

text \<open>\<^verbatim>\<open>Trie.Hash()\<close>: the root hash, a function of the key/value content.\<close>
definition Trie_Hash :: "database \<Rightarrow> trie \<Rightarrow> hash" where
  "Trie_Hash db t = hashOf db (map_of (leaves t))"

subsection \<open>The exchange state\<close>

text \<open>What an object has done to the world outside it, oldest first: calls of the
  owner-level callback, log lines, calls of \<^verbatim>\<open>Trie.Commit\<close> and of
  \<^verbatim>\<open>TrieDB().Reference(child, parent)\<close>.\<close>
datatype effect =
    OnDirty nat hash
  | LogError string
  | LogDebug string
  | CommitCalled
  | Reference hash hash

text \<open>The struct \<^verbatim>\<open>lendingExchangeState\<close>. The back-pointer \<^verbatim>\<open>db *LendingStateDB\<close> is
  left out (this file only passes it on). \<open>onDirty\<close> holds the identity of the owner's
  closure, \<open>None\<close> for nil. \<open>effects\<close> is not a field of the struct: it records the
  calls the object has made to its collaborators.\<close>
record lendingExchangeState =
  lendingBook :: hash
  data :: lendingObject
  dbErr :: "error option"
  investingTrie :: "trie option"
  borrowingTrie :: "trie option"
  lendingTrie :: "trie option"
  liquidationTimeTrie :: "trie option"
  liquidationTimeStates :: "(hash \<times> liquidationTimeState) list"
  liquidationTimestatesDirty :: "hash set"
  investingStates :: "(hash \<times> itemListState) list"
  investingStatesDirty :: "hash set"
  borrowingStates :: "(hash \<times> itemListState) list"
  borrowingStatesDirty :: "hash set"
  lendingItemStates :: "(hash \<times> lendingItemState) list"
  lendingItemStatesDirty :: "hash set"
  onDirty :: "nat option"
  effects :: "effect list"

definition empty :: "lendingExchangeState \<Rightarrow> bool" where
  "empty s \<longleftrightarrow>
     Nonce (data s) = 0 \<and> common_EmptyHash (InvestingRoot (data s))
       \<and> common_EmptyHash (BorrowingRoot (data s))"

definition newStateExchanges :: "hash \<Rightarrow> lendingObject \<Rightarrow> nat option \<Rightarrow> lendingExchangeState" where
  "newStateExchanges h d cb =
     \<lparr>lendingBook = h, data = d, dbErr = None,
      investingTrie = None, borrowingTrie = None, lendingTrie = None, liquidationTimeTrie = None,
      liquidationTimeStates = [], liquidationTimestatesDirty = {},
      investingStates = [], investingStatesDirty = {},
      borrowingStates = [], borrowingStatesDirty = {},
      lendingItemStates = [], lendingItemStatesDirty = {},
      onDirty = cb, effects = []\<rparr>"

text \<open>\<^verbatim>\<open>setError\<close> remembers the first non-nil error it is called with.\<close>
definition setError :: "lendingExchangeState \<Rightarrow> error option \<Rightarrow> lendingExchangeState" where
  "setError self err = (if dbErr self = None then self\<lparr>dbErr := err\<rparr> else self)"

definition Hash :: "lendingExchangeState \<Rightarrow> hash" where
  "Hash self = lendingBook self"

text \<open>The shared tail \<^verbatim>\<open>if self.onDirty != nil { self.onDirty(h); self.onDirty = nil }\<close>.\<close>
definition fireOnDirty :: "lendingExchangeState \<Rightarrow> hash \<Rightarrow> lendingExchangeState" where
  "fireOnDirty self h =
     (case onDirty self of
        None \<Rightarrow> self
      | Some cb \<Rightarrow> self\<lparr>onDirty := None, effects := effects self @ [OnDirty cb h]\<rparr>)"

subsection \<open>Get Trie\<close>

definition getLendingItemTrie :: "database \<Rightarrow> lendingExchangeState \<Rightarrow> lendingExchangeState \<times> trie option" where
  "getLendingItemTrie db self =
     (let self1 =
        (if lendingTrie self = None then
           (case OpenStorageTrie db (lendingBook self) (LendingItemRoot (data self)) of
              (t, None) \<Rightarrow> self\<lparr>lendingTrie := t\<rparr>
            | (t, Some err) \<Rightarrow>
                setError (self\<lparr>lendingTrie := fst (OpenStorageTrie db (lendingBook self) EmptyHash)\<rparr>)
                  (Some (CantCreateLendingsTrie err)))
         else self)
      in (self1, lendingTrie self1))"

definition getInvestingTrie :: "database \<Rightarrow> lendingExchangeState \<Rightarrow> lendingExchangeState \<times> trie option" where
  "getInvestingTrie db self =
     (let self1 =
        (if investingTrie self = None then
           (case OpenStorageTrie db (lendingBook self) (InvestingRoot (data self)) of
              (t, None) \<Rightarrow> self\<lparr>investingTrie := t\<rparr>
            | (t, Some err) \<Rightarrow>
                setError (self\<lparr>investingTrie := fst (OpenStorageTrie db (lendingBook self) EmptyHash)\<rparr>)
                  (Some (CantCreateLendingsTrie err)))
         else self)
      in (self1, investingTrie self1))"

definition getBorrowingTrie :: "database \<Rightarrow> lendingExchangeState \<Rightarrow> lendingExchangeState \<times> trie option" where
  "getBorrowingTrie db self =
     (let self1 =
        (if borrowingTrie self = None then
           (case OpenStorageTrie db (lendingBook self) (BorrowingRoot (data self)) of
              (t, None) \<Rightarrow> self\<lparr>borrowingTrie := t\<rparr>
            | (t, Some err) \<Rightarrow>
                setError (self\<lparr>borrowingTrie := fst (OpenStorageTrie db (lendingBook self) EmptyHash)\<rparr>)
                  (Some (CantCreateBidsTrie err)))
         else self)
      in (self1, borrowingTrie self1))"

definition getLiquidationTimeTrie :: "database \<Rightarrow> lendingExchangeState \<Rightarrow> lendingExchangeState \<times> trie option" where
  "getLiquidationTimeTrie db self =
     (let self1 =
        (if liquidationTimeTrie self = None then
           (case OpenStorageTrie db (lendingBook self) (LiquidationTimeRoot (data self)) of
              (t, None) \<Rightarrow> self\<lparr>liquidationTimeTrie := t\<rparr>
            | (t, Some err) \<Rightarrow>
                setError (self\<lparr>liquidationTimeTrie := fst (OpenStorageTrie db (lendingBook self) EmptyHash)\<rparr>)
                  (Some (CantCreateBidsTrie err)))
         else self)
      in (self1, liquidationTimeTrie self1))"

subsection \<open>Get State\<close>

text \<open>The getters take the receiver's address \<open>p\<close>: the sub-state object they build is bound
  to a method value of the receiver. The result is the updated receiver and the returned
  pointer, \<open>None\<close> for nil.\<close>

definition getBorrowingOrderList ::
  "database \<Rightarrow> ref \<Rightarrow> lendingExchangeState \<Rightarrow> hash
     \<Rightarrow> panic + (lendingExchangeState \<times> itemListState option)" where
  "getBorrowingOrderList db p self rate =
     (case map_of (borrowingStates self) rate of
        Some obj \<Rightarrow> Inr (self, Some obj)
      | None \<Rightarrow>
          (case getBorrowingTrie db self of
             (self1, None) \<Rightarrow> Inl NilDereference
           | (self1, Some tr) \<Rightarrow>
               (case TryGet tr (hashBytes rate) of
                  (enc, err) \<Rightarrow>
                    if length enc = 0 then Inr (setError self1 err, None)
                    else
                      (case DecodeItemList db enc of
                         Inl e \<Rightarrow>
                           Inr (self1\<lparr>effects := effects self1
                                  @ [LogError ''Failed to decode state order list object'']\<rparr>, None)
                       | Inr d \<Rightarrow>
                           (let obj = newItemListState BORROWING (lendingBook self1) rate d
                                        (Some (p, MarkBorrowingDirty_m))
                            in Inr (self1\<lparr>borrowingStates :=
                                       AList.update rate obj (borrowingStates self1)\<rparr>,
                                    Some obj))))))"

definition getInvestingOrderList ::
  "database \<Rightarrow> ref \<Rightarrow> lendingExchangeState \<Rightarrow> hash
     \<Rightarrow> panic + (lendingExchangeState \<times> itemListState option)" where
  "getInvestingOrderList db p self rate =
     (case map_of (investingStates self) rate of
        Some obj \<Rightarrow> Inr (self, Some obj)
      | None \<Rightarrow>
          (case getInvestingTrie db self of
             (self1, None) \<Rightarrow> Inl NilDereference
           | (self1, Some tr) \<Rightarrow>
               (case TryGet tr (hashBytes rate) of
                  (enc, err) \<Rightarrow>
                    if length enc = 0 then Inr (setError self1 err, None)
                    else
                      (case DecodeItemList db enc of
                         Inl e \<Rightarrow>
                           Inr (self1\<lparr>effects := effects self1
                                  @ [LogError ''Failed to decode state order list object'']\<rparr>, None)
                       | Inr d \<Rightarrow>
                           (let obj = newItemListState INVESTING (lendingBook self1) rate d
                                        (Some (p, MarkBorrowingDirty_m))
                            in Inr (self1\<lparr>investingStates :=
                                       AList.update rate obj (investingStates self1)\<rparr>,
                                    Some obj))))))"

definition getLiquidationTimeOrderList ::
  "database \<Rightarrow> ref \<Rightarrow> lendingExchangeState \<Rightarrow> hash
     \<Rightarrow> panic + (lendingExchangeState \<times> liquidationTimeState option)" where
  "getLiquidationTimeOrderList db p self time =
     (case map_of (liquidationTimeStates self) time of
        Some obj \<Rightarrow> Inr (self, Some obj)
      | None \<Rightarrow>
          (case getLiquidationTimeTrie db self of
             (self1, None) \<Rightarrow> Inl NilDereference
           | (self1, Some tr) \<Rightarrow>
               (case TryGet tr (hashBytes time) of
                  (enc, err) \<Rightarrow>
                    if length enc = 0 then Inr (setError self1 err, None)
                    else
                      (case DecodeItemList db enc of
                         Inl e \<Rightarrow>
                           Inr (self1\<lparr>effects := effects self1
                                  @ [LogError ''Failed to decode state liquidation time'']\<rparr>, None)
                       | Inr d \<Rightarrow>
                           (let obj = newLiquidationTimeState (lendingBook self1) time d
                                        (Some (p, MarkInvestingDirty_m))
                            in Inr (self1\<lparr>liquidationTimeStates :=
                                       AList.update time obj (liquidationTimeStates self1)\<rparr>,
                                    Some obj))))))"

definition getLendingItem ::
  "database \<Rightarrow> ref \<Rightarrow> lendingExchangeState \<Rightarrow> hash
     \<Rightarrow> panic + (lendingExchangeState \<times> lendingItemState option)" where
  "getLendingItem db p self lendingId =
     (case map_of (lendingItemStates self) lendingId of
        Some obj \<Rightarrow> Inr (self, Some obj)
      | None \<Rightarrow>
          (case getLendingItemTrie db self of
             (self1, None) \<Rightarrow> Inl NilDereference
           | (self1, Some tr) \<Rightarrow>
               (case TryGet tr (hashBytes lendingId) of
                  (enc, err) \<Rightarrow>
                    if length enc = 0 then Inr (setError self1 err, None)
                    else
                      (case DecodeLendingItem db enc of
                         Inl e \<Rightarrow>
                           Inr (self1\<lparr>effects := effects self1
                                  @ [LogError ''Failed to decode state lending item'']\<rparr>, None)
                       | Inr d \<Rightarrow>
                           (let obj = newLendinItemState (lendingBook self1) lendingId d
                                        (Some (p, MarkLendingItemDirty_m))
                            in Inr (self1\<lparr>lendingItemStates :=
                                       AList.update lendingId obj (lendingItemStates self1)\<rparr>,
                                    Some obj))))))"

subsection \<open>Update Trie\<close>

text \<open>A \<^verbatim>\<open>range\<close> loop whose body can panic: the entries in order, stopping at a panic.\<close>
fun forEach :: "('a \<Rightarrow> 's \<Rightarrow> panic + 's) \<Rightarrow> 'a list \<Rightarrow> 's \<Rightarrow> panic + 's" where
  "forEach body [] s = Inr s"
| "forEach body (x # xs) s = (case body x s of Inl e \<Rightarrow> Inl e | Inr s' \<Rightarrow> forEach body xs s')"

text \<open>\<^verbatim>\<open>v, _ := rlp.EncodeToBytes(x)\<close>: the error is dropped, the bytes are then nil.\<close>
definition bytesOrNil :: "error + bytes \<Rightarrow> bytes" where
  "bytesOrNil r = (case r of Inl e \<Rightarrow> [] | Inr v \<Rightarrow> v)"

text \<open>The loop bodies. The local \<^verbatim>\<open>tr\<close> is the handle held in the receiver's trie field.\<close>

definition updateLendingTimeTrie_body ::
  "database \<Rightarrow> hash \<times> lendingItemState \<Rightarrow> lendingExchangeState \<Rightarrow> panic + lendingExchangeState" where
  "updateLendingTimeTrie_body db entry self =
     (case entry of (lendingId, lendingItem) \<Rightarrow>
        if lendingId \<in> lendingItemStatesDirty self then
          (let self1 = self\<lparr>lendingItemStatesDirty := lendingItemStatesDirty self - {lendingId}\<rparr>
           in case lendingTrie self1 of
                None \<Rightarrow> Inl NilDereference
              | Some tr \<Rightarrow>
                  if lendingItemState_empty db lendingItem then
                    (case TryDelete tr (hashBytes lendingId) of
                       (tr', err) \<Rightarrow> Inr (setError (self1\<lparr>lendingTrie := Some tr'\<rparr>) err))
                  else
                    (case TryUpdate tr (hashBytes lendingId)
                            (bytesOrNil (EncodeLendingItemState db lendingItem)) of
                       (tr', err) \<Rightarrow> Inr (setError (self1\<lparr>lendingTrie := Some tr'\<rparr>) err)))
        else Inr self)"

definition updateLendingTimeTrie :: "database \<Rightarrow> lendingExchangeState \<Rightarrow> panic + lendingExchangeState" where
  "updateLendingTimeTrie db self =
     (case getLendingItemTrie db self of
        (self1, tr) \<Rightarrow> forEach (updateLendingTimeTrie_body db) (lendingItemStates self1) self1)"

definition updateBorrowingTrie_body ::
  "database \<Rightarrow> hash \<times> itemListState \<Rightarrow> lendingExchangeState \<Rightarrow> panic + lendingExchangeState" where
  "updateBorrowingTrie_body db entry self =
     (case entry of (rate, orderList) \<Rightarrow>
        if rate \<in> borrowingStatesDirty self then
          (let self1 = self\<lparr>borrowingStatesDirty := borrowingStatesDirty self - {rate}\<rparr>
           in case borrowingTrie self1 of
                None \<Rightarrow> Inl NilDereference
              | Some tr \<Rightarrow>
                  if itemListState_empty db orderList then
                    (case TryDelete tr (hashBytes rate) of
                       (tr', err) \<Rightarrow> Inr (setError (self1\<lparr>borrowingTrie := Some tr'\<rparr>) err))
                  else
                    (let orderList' = itemListState_updateRoot db orderList;
                         self2 = self1\<lparr>borrowingStates :=
                                   AList.update rate orderList' (borrowingStates self1)\<rparr>
                     in case TryUpdate tr (hashBytes rate)
                               (bytesOrNil (EncodeItemListState db orderList')) of
                          (tr', err) \<Rightarrow> Inr (setError (self2\<lparr>borrowingTrie := Some tr'\<rparr>) err)))
        else Inr self)"

definition updateBorrowingTrie :: "database \<Rightarrow> lendingExchangeState \<Rightarrow> panic + lendingExchangeState" where
  "updateBorrowingTrie db self =
     (case getBorrowingTrie db self of
        (self1, tr) \<Rightarrow> forEach (updateBorrowingTrie_body db) (borrowingStates self1) self1)"

definition updateInvestingTrie_body ::
  "database \<Rightarrow> hash \<times> itemListState \<Rightarrow> lendingExchangeState \<Rightarrow> panic + lendingExchangeState" where
  "updateInvestingTrie_body db entry self =
     (case entry of (rate, orderList) \<Rightarrow>
        if rate \<in> investingStatesDirty self then
          (let self1 = self\<lparr>investingStatesDirty := investingStatesDirty self - {rate}\<rparr>
           in case investingTrie self1 of
                None \<Rightarrow> Inl NilDereference
              | Some tr \<Rightarrow>
                  if itemListState_empty db orderList then
                    (case TryDelete tr (hashBytes rate) of
                       (tr', err) \<Rightarrow> Inr (setError (self1\<lparr>investingTrie := Some tr'\<rparr>) err))
                  else
                    (let orderList' = itemListState_updateRoot db orderList;
                         self2 = self1\<lparr>investingStates :=
                                   AList.update rate orderList' (investingStates self1)\<rparr>
                     in case TryUpdate tr (hashBytes rate)
                               (bytesOrNil (EncodeItemListState db orderList')) of
                          (tr', err) \<Rightarrow> Inr (setError (self2\<lparr>investingTrie := Some tr'\<rparr>) err)))
        else Inr self)"

definition updateInvestingTrie :: "database \<Rightarrow> lendingExchangeState \<Rightarrow> panic + lendingExchangeState" where
  "updateInvestingTrie db self =
     (case getInvestingTrie db self of
        (self1, tr) \<Rightarrow> forEach (updateInvestingTrie_body db) (investingStates self1) self1)"

definition updateLiquidationTimeTrie_body ::
  "database \<Rightarrow> hash \<times> liquidationTimeState \<Rightarrow> lendingExchangeState \<Rightarrow> panic + lendingExchangeState" where
  "updateLiquidationTimeTrie_body db entry self =
     (case entry of (time, itemList) \<Rightarrow>
        if time \<in> liquidationTimestatesDirty self then
          (let self1 = self\<lparr>liquidationTimestatesDirty := liquidationTimestatesDirty self - {time}\<rparr>
           in case liquidationTimeTrie self1 of
                None \<Rightarrow> Inl NilDereference
              | Some tr \<Rightarrow>
                  if liquidationTimeState_empty db itemList then
                    (case TryDelete tr (hashBytes time) of
                       (tr', err) \<Rightarrow> Inr (setError (self1\<lparr>liquidationTimeTrie := Some tr'\<rparr>) err))
                  else
                    (let itemList' = liquidationTimeState_updateRoot db itemList;
                         self2 = self1\<lparr>liquidationTimeStates :=
                                   AList.update time itemList' (liquidationTimeStates self1)\<rparr>
                     in case TryUpdate tr (hashBytes time)
                               (bytesOrNil (EncodeLiquidationTimeState db itemList')) of
                          (tr', err) \<Rightarrow> Inr (setError (self2\<lparr>liquidationTimeTrie := Some tr'\<rparr>) err)))
        else Inr self)"

definition updateLiquidationTimeTrie :: "database \<Rightarrow> lendingExchangeState \<Rightarrow> panic + lendingExchangeState" where
  "updateLiquidationTimeTrie db self =
     (case getLiquidationTimeTrie db self of
        (self1, tr) \<Rightarrow>
          forEach (updateLiquidationTimeTrie_body db) (liquidationTimeStates self1) self1)"

subsection \<open>Update Root\<close>

definition updateOrderRoot :: "database \<Rightarrow> lendingExchangeState \<Rightarrow> panic + lendingExchangeState" where
  "updateOrderRoot db self =
     (case updateLendingTimeTrie db self of
        Inl e \<Rightarrow> Inl e
      | Inr self1 \<Rightarrow>
          (case lendingTrie self1 of
             None \<Rightarrow> Inl NilDereference
           | Some tr \<Rightarrow> Inr (self1\<lparr>data := (data self1)\<lparr>LendingItemRoot := Trie_Hash db tr\<rparr>\<rparr>)))"

definition updateInvestingRoot ::
  "database \<Rightarrow> lendingExchangeState \<Rightarrow> panic + (lendingExchangeState \<times> error option)" where
  "updateInvestingRoot db self =
     (case updateInvestingTrie db self of
        Inl e \<Rightarrow> Inl e
      | Inr self1 \<Rightarrow>
          if dbErr self1 \<noteq> None then Inr (self1, dbErr self1)
          else
            (case investingTrie self1 of
               None \<Rightarrow> Inl NilDereference
             | Some tr \<Rightarrow>
                 Inr (self1\<lparr>data := (data self1)\<lparr>InvestingRoot := Trie_Hash db tr\<rparr>\<rparr>, None)))"

definition updateBorrowingRoot :: "database \<Rightarrow> lendingExchangeState \<Rightarrow> panic + lendingExchangeState" where
  "updateBorrowingRoot db self =
     (case updateBorrowingTrie db self of
        Inl e \<Rightarrow> Inl e
      | Inr self1 \<Rightarrow>
          (case borrowingTrie self1 of
             None \<Rightarrow> Inl NilDereference
           | Some tr \<Rightarrow> Inr (self1\<lparr>data := (data self1)\<lparr>BorrowingRoot := Trie_Hash db tr\<rparr>\<rparr>)))"

definition updateLiquidationTimeRoot :: "database \<Rightarrow> lendingExchangeState \<Rightarrow> panic + lendingExchangeState" where
  "updateLiquidationTimeRoot db self =
     (case updateLiquidationTimeTrie db self of
        Inl e \<Rightarrow> Inl e
      | Inr self1 \<Rightarrow>
          (case liquidationTimeTrie self1 of
             None \<Rightarrow> Inl NilDereference
           | Some tr \<Rightarrow>
               Inr (self1\<lparr>data := (data self1)\<lparr>LiquidationTimeRoot := Trie_Hash db tr\<rparr>\<rparr>)))"

subsection \<open>Commit Trie\<close>

text \<open>Modelled from the spec: \<open>commit(leafCallback) -> (root, error)\<close>. A commit that
  succeeds returns the root hash and has called the callback on every leaf; the node that
  holds a leaf is not modelled, the parent handed to the callback is the root. A commit
  that fails returns the zero hash and the error. The handle keeps its content.\<close>
definition Trie_Commit ::
  "database \<Rightarrow> trie \<Rightarrow> (bytes \<Rightarrow> hash \<Rightarrow> effect list) \<Rightarrow> hash \<times> error option \<times> effect list" where
  "Trie_Commit db t onleaf =
     (case trieFault t of
        Some e \<Rightarrow> (0, Some e, [CommitCalled])
      | None \<Rightarrow>
          (Trie_Hash db t, None,
           CommitCalled # concat (map (\<lambda>kv. onleaf (snd kv) (Trie_Hash db t)) (leaves t))))"

text \<open>The leaf callback that the investing, borrowing and liquidation commits pass.\<close>
definition referenceLeaf :: "database \<Rightarrow> bytes \<Rightarrow> hash \<Rightarrow> effect list" where
  "referenceLeaf db leaf parent =
     (case DecodeItemList db leaf of
        Inl e \<Rightarrow> []
      | Inr orderList \<Rightarrow>
          if Root orderList \<noteq> EmptyRoot db then [Reference (Root orderList) parent] else [])"

definition CommitLendingItemTrie ::
  "database \<Rightarrow> lendingExchangeState \<Rightarrow> panic + (lendingExchangeState \<times> error option)" where
  "CommitLendingItemTrie db self =
     (case updateLendingTimeTrie db self of
        Inl e \<Rightarrow> Inl e
      | Inr self1 \<Rightarrow>
          if dbErr self1 \<noteq> None then Inr (self1, dbErr self1)
          else
            (case lendingTrie self1 of
               None \<Rightarrow> Inl NilDereference
             | Some tr \<Rightarrow>
                 (case Trie_Commit db tr (\<lambda>leaf parent. []) of
                    (root, err, effs) \<Rightarrow>
                      (let self2 = self1\<lparr>effects := effects self1 @ effs\<rparr>
                       in if err = None
                          then Inr (self2\<lparr>data := (data self2)\<lparr>LendingItemRoot := root\<rparr>\<rparr>, err)
                          else Inr (self2, err)))))"

definition CommitInvestingTrie ::
  "database \<Rightarrow> lendingExchangeState \<Rightarrow> panic + (lendingExchangeState \<times> error option)" where
  "CommitInvestingTrie db self =
     (case updateInvestingTrie db self of
        Inl e \<Rightarrow> Inl e
      | Inr self1 \<Rightarrow>
          if dbErr self1 \<noteq> None then Inr (self1, dbErr self1)
          else
            (case investingTrie self1 of
               None \<Rightarrow> Inl NilDereference
             | Some tr \<Rightarrow>
                 (case Trie_Commit db tr (referenceLeaf db) of
                    (root, err, effs) \<Rightarrow>
                      (let self2 = self1\<lparr>effects := effects self1 @ effs\<rparr>
                       in if err = None
                          then Inr (self2\<lparr>data := (data self2)\<lparr>InvestingRoot := root\<rparr>\<rparr>, err)
                          else Inr (self2, err)))))"

definition CommitBorrowingTrie ::
  "database \<Rightarrow> lendingExchangeState \<Rightarrow> panic + (lendingExchangeState \<times> error option)" where
  "CommitBorrowingTrie db self =
     (case updateBorrowingTrie db self of
        Inl e \<Rightarrow> Inl e
      | Inr self1 \<Rightarrow>
          if dbErr self1 \<noteq> None then Inr (self1, dbErr self1)
          else
            (case borrowingTrie self1 of
               None \<Rightarrow> Inl NilDereference
             | Some tr \<Rightarrow>
                 (case Trie_Commit db tr (referenceLeaf db) of
                    (root, err, effs) \<Rightarrow>
                      (let self2 = self1\<lparr>effects := effects self1 @ effs\<rparr>
                       in if err = None
                          then Inr (self2\<lparr>data := (data self2)\<lparr>BorrowingRoot := root\<rparr>\<rparr>, err)
                          else Inr (self2, err)))))"

definition CommitLiquidationTimeTrie ::
  "database \<Rightarrow> lendingExchangeState \<Rightarrow> panic + (lendingExchangeState \<times> error option)" where
  "CommitLiquidationTimeTrie db self =
     (case updateLiquidationTimeTrie db self of
        Inl e \<Rightarrow> Inl e
      | Inr self1 \<Rightarrow>
          if dbErr self1 \<noteq> None then Inr (self1, dbErr self1)
          else
            (case liquidationTimeTrie self1 of
               None \<Rightarrow> Inl NilDereference
             | Some tr \<Rightarrow>
                 (case Trie_Commit db tr (referenceLeaf db) of
                    (root, err, effs) \<Rightarrow>
                      (let self2 = self1\<lparr>effects := effects self1 @ effs\<rparr>
                       in if err = None
                          then Inr (self2\<lparr>data := (data self2)\<lparr>LiquidationTimeRoot := root\<rparr>\<rparr>, err)
                          else Inr (self2, err)))))"

subsection \<open>Get Trie Data\<close>

definition getBestInvestingRate ::
  "database \<Rightarrow> lendingExchangeState \<Rightarrow> panic + (lendingExchangeState \<times> hash)" where
  "getBestInvestingRate db self =
     (case getInvestingTrie db self of
        (self1, None) \<Rightarrow> Inl NilDereference
      | (self1, Some trie) \<Rightarrow>
          (case TryGetBestLeftKeyAndValue trie of
             (encKey, encValue, err) \<Rightarrow>
               if err \<noteq> None then
                 Inr (self1\<lparr>effects := effects self1 @ [LogError ''Failed find best investing rate'']\<rparr>,
                      EmptyHash)
               else if length encKey = 0 \<or> length encValue = 0 then
                 Inr (self1\<lparr>effects := effects self1 @ [LogDebug ''Not found get best investing rate'']\<rparr>,
                      EmptyHash)
               else
                 (case DecodeItemList db encValue of
                    Inl e \<Rightarrow>
                      Inr (self1\<lparr>effects := effects self1
                             @ [LogError ''Failed to decode state get best investing rate'']\<rparr>,
                           EmptyHash)
                  | Inr d \<Rightarrow> Inr (self1, BytesToHash encKey))))"

definition getBestBorrowingRate ::
  "database \<Rightarrow> lendingExchangeState \<Rightarrow> panic + (lendingExchangeState \<times> hash)" where
  "getBestBorrowingRate db self =
     (case getBorrowingTrie db self of
        (self1, None) \<Rightarrow> Inl NilDereference
      | (self1, Some trie) \<Rightarrow>
          (case TryGetBestRightKeyAndValue trie of
             (encKey, encValue, err) \<Rightarrow>
               if err \<noteq> None then
                 Inr (self1\<lparr>effects := effects self1 @ [LogError ''Failed find best price bid trie '']\<rparr>,
                      EmptyHash)
               else if length encKey = 0 \<or> length encValue = 0 then
                 Inr (self1\<lparr>effects := effects self1 @ [LogDebug ''Not found get best bid trie'']\<rparr>,
                      EmptyHash)
               else
                 (case DecodeItemList db encValue of
                    Inl e \<Rightarrow>
                      Inr (self1\<lparr>effects := effects self1
                             @ [LogError ''Failed to decode state get best bid trie'']\<rparr>,
                           EmptyHash)
                  | Inr d \<Rightarrow> Inr (self1, BytesToHash encKey))))"

definition getLowestLiquidationTime ::
  "database \<Rightarrow> ref \<Rightarrow> lendingExchangeState
     \<Rightarrow> panic + (lendingExchangeState \<times> hash \<times> liquidationTimeState option)" where
  "getLowestLiquidationTime db p self =
     (case getLiquidationTimeTrie db self of
        (self1, None) \<Rightarrow> Inl NilDereference
      | (self1, Some trie) \<Rightarrow>
          (case TryGetBestLeftKeyAndValue trie of
             (encKey, encValue, err) \<Rightarrow>
               if err \<noteq> None then
                 Inr (self1\<lparr>effects := effects self1
                        @ [LogError ''Failed find best liquidation time trie '']\<rparr>, EmptyHash, None)
               else if length encKey = 0 \<or> length encValue = 0 then
                 Inr (self1\<lparr>effects := effects self1
                        @ [LogDebug ''Not found get liquidation time trie'']\<rparr>, EmptyHash, None)
               else
                 (case DecodeItemList db encValue of
                    Inl e \<Rightarrow>
                      Inr (self1\<lparr>effects := effects self1
                             @ [LogError ''Failed to decode state get liquidation time trie'']\<rparr>,
                           EmptyHash, None)
                  | Inr d \<Rightarrow>
                      (let pr = BytesToHash encKey;
                           obj = newLiquidationTimeState (lendingBook self1) pr d
                                   (Some (p, MarkLiquidationTimeDirty_m))
                       in Inr (self1\<lparr>liquidationTimeStates :=
                                  AList.update pr obj (liquidationTimeStates self1)\<rparr>,
                               pr, Some obj)))))"

subsection \<open>deepCopy, nonce, remove, create, mark\<close>

text \<open>\<^verbatim>\<open>deepCopy\<close> returns the new object; \<open>p\<close> is the address of the receiver, the original,
  whose method values the source hands to the copied sub-states. Each \<^verbatim>\<open>range\<close> loop
  fills the fresh map of the copy with one entry per entry of the original.\<close>
definition deepCopy :: "ref \<Rightarrow> lendingExchangeState \<Rightarrow> nat option \<Rightarrow> lendingExchangeState" where
  "deepCopy p self onDirty' =
     (let stateExchanges = newStateExchanges (lendingBook self) (data self) onDirty'
      in stateExchanges
           \<lparr>investingTrie := map_option CopyTrie (investingTrie self),
            borrowingTrie := map_option CopyTrie (borrowingTrie self),
            lendingTrie := map_option CopyTrie (lendingTrie self),
            borrowingStates :=
              map (\<lambda>kv. (fst kv, itemListState_deepCopy (snd kv) (Some (p, MarkBorrowingDirty_m))))
                (borrowingStates self),
            borrowingStatesDirty := borrowingStatesDirty self,
            investingStates :=
              map (\<lambda>kv. (fst kv, itemListState_deepCopy (snd kv) (Some (p, MarkInvestingDirty_m))))
                (investingStates self),
            investingStatesDirty := investingStatesDirty self,
            lendingItemStates :=
              map (\<lambda>kv. (fst kv, lendingItemState_deepCopy (snd kv) (Some (p, MarkLendingItemDirty_m))))
                (lendingItemStates self),
            lendingItemStatesDirty := lendingItemStatesDirty self,
            liquidationTimeStates :=
              map (\<lambda>kv. (fst kv,
                     liquidationTimeState_deepCopy (snd kv) (Some (p, MarkLiquidationTimeDirty_m))))
                (liquidationTimeStates self),
            liquidationTimestatesDirty := liquidationTimestatesDirty self\<rparr>)"

definition setNonce :: "lendingExchangeState \<Rightarrow> 64 word \<Rightarrow> lendingExchangeState" where
  "setNonce self nonce = fireOnDirty (self\<lparr>data := (data self)\<lparr>Nonce := nonce\<rparr>\<rparr>) (Hash self)"

definition SetNonce :: "lendingExchangeState \<Rightarrow> 64 word \<Rightarrow> lendingExchangeState" where
  "SetNonce self nonce = setNonce self nonce"

definition removeInvestingOrderList ::
  "database \<Rightarrow> lendingExchangeState \<Rightarrow> itemListState option \<Rightarrow> panic + lendingExchangeState" where
  "removeInvestingOrderList db self stateOrderList =
     (case stateOrderList of
        None \<Rightarrow> Inl NilDereference
      | Some ol \<Rightarrow>
          (case investingTrie self of
             None \<Rightarrow> Inl NilDereference
           | Some tr \<Rightarrow>
               (case TryDelete tr (hashBytes (price ol)) of
                  (tr', err) \<Rightarrow> Inr (setError (self\<lparr>investingTrie := Some tr'\<rparr>) err))))"

definition removeBorrowingOrderList ::
  "database \<Rightarrow> lendingExchangeState \<Rightarrow> itemListState option \<Rightarrow> panic + lendingExchangeState" where
  "removeBorrowingOrderList db self stateOrderList =
     (case stateOrderList of
        None \<Rightarrow> Inl NilDereference
      | Some ol \<Rightarrow>
          (case borrowingTrie self of
             None \<Rightarrow> Inl NilDereference
           | Some tr \<Rightarrow>
               (case TryDelete tr (hashBytes (price ol)) of
                  (tr', err) \<Rightarrow> Inr (setError (self\<lparr>borrowingTrie := Some tr'\<rparr>) err))))"

definition createInvestingOrderList ::
  "database \<Rightarrow> ref \<Rightarrow> lendingExchangeState \<Rightarrow> hash \<Rightarrow> panic + (lendingExchangeState \<times> itemListState)" where
  "createInvestingOrderList db p self pr =
     (let newobj = newItemListState INVESTING (lendingBook self) pr itemList_zero
                     (Some (p, MarkInvestingDirty_m));
          self1 = self\<lparr>investingStates := AList.update pr newobj (investingStates self),
                       investingStatesDirty := insert pr (investingStatesDirty self)\<rparr>
      in case EncodeItemListState db newobj of
           Inl err \<Rightarrow> Inl (CantEncodeOrderList pr err)
         | Inr d \<Rightarrow>
             (case investingTrie self1 of
                None \<Rightarrow> Inl NilDereference
              | Some tr \<Rightarrow>
                  (case TryUpdate tr (hashBytes pr) d of
                     (tr', err) \<Rightarrow>
                       (let self2 = setError (self1\<lparr>investingTrie := Some tr'\<rparr>) err
                        in Inr (fireOnDirty self2 (Hash self2), newobj)))))"

definition MarkBorrowingDirty :: "lendingExchangeState \<Rightarrow> hash \<Rightarrow> lendingExchangeState" where
  "MarkBorrowingDirty self pr =
     (let self1 = self\<lparr>borrowingStatesDirty := insert pr (borrowingStatesDirty self)\<rparr>
      in fireOnDirty self1 (Hash self1))"

definition MarkInvestingDirty :: "lendingExchangeState \<Rightarrow> hash \<Rightarrow> lendingExchangeState" where
  "MarkInvestingDirty self pr =
     (let self1 = self\<lparr>investingStatesDirty := insert pr (investingStatesDirty self)\<rparr>
      in fireOnDirty self1 (Hash self1))"

definition MarkLendingItemDirty :: "lendingExchangeState \<Rightarrow> hash \<Rightarrow> lendingExchangeState" where
  "MarkLendingItemDirty self orderId =
     (let self1 = self\<lparr>lendingItemStatesDirty := insert orderId (lendingItemStatesDirty self)\<rparr>
      in fireOnDirty self1 (Hash self1))"

definition MarkLiquidationTimeDirty :: "lendingExchangeState \<Rightarrow> hash \<Rightarrow> lendingExchangeState" where
  "MarkLiquidationTimeDirty self orderId =
     (let self1 = self\<lparr>liquidationTimestatesDirty := insert orderId (liquidationTimestatesDirty self)\<rparr>
      in fireOnDirty self1 (Hash self1))"

definition createBorrowingOrderList ::
  "database \<Rightarrow> ref \<Rightarrow> lendingExchangeState \<Rightarrow> hash \<Rightarrow> panic + (lendingExchangeState \<times> itemListState)" where
  "createBorrowingOrderList db p self pr =
     (let newobj = newItemListState BORROWING (lendingBook self) pr itemList_zero
                     (Some (p, MarkBorrowingDirty_m));
          self1 = self\<lparr>borrowingStates := AList.update pr newobj (borrowingStates self),
                       borrowingStatesDirty := insert pr (borrowingStatesDirty self)\<rparr>
      in case EncodeItemListState db newobj of
           Inl err \<Rightarrow> Inl (CantEncodeOrderList pr err)
         | Inr d \<Rightarrow>
             (case borrowingTrie self1 of
                None \<Rightarrow> Inl NilDereference
              | Some tr \<Rightarrow>
                  (case TryUpdate tr (hashBytes pr) d of
                     (tr', err) \<Rightarrow>
                       (let self2 = setError (self1\<lparr>borrowingTrie := Some tr'\<rparr>) err
                        in Inr (fireOnDirty self2 (Hash self2), newobj)))))"

definition createLendingItem ::
  "database \<Rightarrow> ref \<Rightarrow> lendingExchangeState \<Rightarrow> hash \<Rightarrow> LendingItem
     \<Rightarrow> lendingExchangeState \<times> lendingItemState" where
  "createLendingItem db p self orderId order =
     (let newobj = newLendinItemState (lendingBook self) orderId order
                     (Some (p, MarkLendingItemDirty_m));
          orderIdHash = BigToHash_SetUint64 (OrderID order);
          self1 = self\<lparr>lendingItemStates := AList.update orderIdHash newobj (lendingItemStates self),
                       lendingItemStatesDirty := insert orderIdHash (lendingItemStatesDirty self)\<rparr>
      in (fireOnDirty self1 (lendingBook self1), newobj))"

definition createLiquidationTime ::
  "database \<Rightarrow> ref \<Rightarrow> lendingExchangeState \<Rightarrow> hash
     \<Rightarrow> lendingExchangeState \<times> liquidationTimeState" where
  "createLiquidationTime db p self time =
     (let newobj = newLiquidationTimeState time (lendingBook self) itemList_zero
                     (Some (p, MarkLendingItemDirty_m))
      in (self\<lparr>liquidationTimeStates := AList.update time newobj (liquidationTimeStates self),
               lendingItemStatesDirty := insert time (lendingItemStatesDirty self)\<rparr>,
          newobj))"

subsection \<open>The heap: calling a method value, mutating a sub-state object\<close>

text \<open>Exchange states live at addresses; a sub-state object names its parent by the
  address inside its callback.\<close>
type_synonym heap = "ref \<Rightarrow> lendingExchangeState option"

definition callMark :: "markMethod \<Rightarrow> lendingExchangeState \<Rightarrow> hash \<Rightarrow> lendingExchangeState" where
  "callMark m self h =
     (case m of
        MarkInvestingDirty_m \<Rightarrow> MarkInvestingDirty self h
      | MarkBorrowingDirty_m \<Rightarrow> MarkBorrowingDirty self h
      | MarkLendingItemDirty_m \<Rightarrow> MarkLendingItemDirty self h
      | MarkLiquidationTimeDirty_m \<Rightarrow> MarkLiquidationTimeDirty self h)"

text \<open>Calling the method value \<open>(q, m)\<close> runs method \<open>m\<close> on the object at \<open>q\<close>.\<close>
definition invoke :: "heap \<Rightarrow> dirtyCallback \<Rightarrow> hash \<Rightarrow> heap" where
  "invoke \<sigma> cb h =
     (case \<sigma> (fst cb) of
        None \<Rightarrow> \<sigma>
      | Some s \<Rightarrow> \<sigma>(fst cb \<mapsto> callMark (snd cb) s h))"

text \<open>Modelled from the spec: the mutators of the sub-state types are declared outside this
  file. A sub-state object supports in-place mutation with the dirty-notification contract
  of its parent: the mutation stores the new payload, and the first one calls the object's
  callback with the object's own key and clears the callback. The three functions below
  mutate the object cached under key \<open>k\<close> in one collection of the exchange at \<open>q\<close>.\<close>
definition mutateInvesting :: "heap \<Rightarrow> ref \<Rightarrow> hash \<Rightarrow> itemList \<Rightarrow> heap" where
  "mutateInvesting \<sigma> q k d =
     (case \<sigma> q of
        None \<Rightarrow> \<sigma>
      | Some s \<Rightarrow>
          (case map_of (investingStates s) k of
             None \<Rightarrow> \<sigma>
           | Some obj \<Rightarrow>
               (let \<sigma>1 = \<sigma>(q \<mapsto> s\<lparr>investingStates :=
                           AList.update k (obj\<lparr>il_data := d, il_onDirty := None\<rparr>) (investingStates s)\<rparr>)
                in case il_onDirty obj of
                     None \<Rightarrow> \<sigma>1
                   | Some cb \<Rightarrow> invoke \<sigma>1 cb (price obj))))"

definition mutateBorrowing :: "heap \<Rightarrow> ref \<Rightarrow> hash \<Rightarrow> itemList \<Rightarrow> heap" where
  "mutateBorrowing \<sigma> q k d =
     (case \<sigma> q of
        None \<Rightarrow> \<sigma>
      | Some s \<Rightarrow>
          (case map_of (borrowingStates s) k of
             None \<Rightarrow> \<sigma>
           | Some obj \<Rightarrow>
               (let \<sigma>1 = \<sigma>(q \<mapsto> s\<lparr>borrowingStates :=
                           AList.update k (obj\<lparr>il_data := d, il_onDirty := None\<rparr>) (borrowingStates s)\<rparr>)
                in case il_onDirty obj of
                     None \<Rightarrow> \<sigma>1
                   | Some cb \<Rightarrow> invoke \<sigma>1 cb (price obj))))"

definition mutateLiquidationTime :: "heap \<Rightarrow> ref \<Rightarrow> hash \<Rightarrow> itemList \<Rightarrow> heap" where
  "mutateLiquidationTime \<sigma> q k d =
     (case \<sigma> q of
        None \<Rightarrow> \<sigma>
      | Some s \<Rightarrow>
          (case map_of (liquidationTimeStates s) k of
             None \<Rightarrow> \<sigma>
           | Some obj \<Rightarrow>
               (let \<sigma>1 = \<sigma>(q \<mapsto> s\<lparr>liquidationTimeStates :=
                           AList.update k (obj\<lparr>lt_data := d, lt_onDirty := None\<rparr>)
                             (liquidationTimeStates s)\<rparr>)
                in case lt_onDirty obj of
                     None \<Rightarrow> \<sigma>1
                   | Some cb \<Rightarrow> invoke \<sigma>1 cb (lt_time obj))))"

section \<open>Example inputs\<close>

text \<open>Concrete collaborators, tries and order books at which the theorems below are
  instantiated.\<close>

definition exItemList :: itemList where
  "exItemList = \<lparr>Root = 0, Summary = 1\<rparr>"

definition exLendingItem :: LendingItem where
  "exLendingItem = \<lparr>OrderID = 5, Fields = 1\<rparr>"

text \<open>Collaborators with no stored tries; content with no leaf under key 2, the empty trie's
  among it, hashes to 86, which is also \<^verbatim>\<open>EmptyRoot\<close>; \<open>[1]\<close> is the only byte string that
  decodes, and the encoder rejects an order list priced 9.\<close>
definition exDb :: database where
  "exDb = \<lparr>storage = (\<lambda>owner root. None),
           hashOf = (\<lambda>m. case m (hashBytes 2) of None \<Rightarrow> 86 | Some v \<Rightarrow> BytesToHash v),
           EmptyRoot = 86,
           DecodeItemList = (\<lambda>b. if b = [1] then Inr exItemList else Inl (CodecError 0)),
           DecodeLendingItem = (\<lambda>b. if b = [1] then Inr exLendingItem else Inl (CodecError 0)),
           EncodeItemListState =
             (\<lambda>obj. if price obj = 9 then Inl (CodecError 1)
                    else Inr [of_nat (Summary (il_data obj))]),
           EncodeLiquidationTimeState = (\<lambda>obj. Inr [of_nat (Summary (lt_data obj))]),
           EncodeLendingItemState = (\<lambda>obj. Inr [of_nat (Fields (li_data obj))]),
           itemListState_empty = (\<lambda>obj. Summary (il_data obj) = 0),
           liquidationTimeState_empty = (\<lambda>obj. Summary (lt_data obj) = 0),
           lendingItemState_empty = (\<lambda>obj. Fields (li_data obj) = 0),
           itemListState_updateRoot = (\<lambda>obj. obj),
           liquidationTimeState_updateRoot = (\<lambda>obj. obj)\<rparr>"

text \<open>A trie with a leaf under key 2 that decodes and a leaf under key 3 that does not.\<close>
definition exTrie :: trie where
  "exTrie = \<lparr>leaves = [(hashBytes 2, [1]), (hashBytes 3, [9])],
             keyFault = (\<lambda>k. None), trieFault = None\<rparr>"

definition exBorrowingObj :: itemListState where
  "exBorrowingObj = newItemListState BORROWING 10 1 exItemList (Some (0, MarkBorrowingDirty_m))"

definition exInvestingObj :: itemListState where
  "exInvestingObj = newItemListState INVESTING 10 1 exItemList (Some (0, MarkInvestingDirty_m))"

definition exLiquidationObj :: liquidationTimeState where
  "exLiquidationObj = newLiquidationTimeState 10 1 exItemList (Some (0, MarkLiquidationTimeDirty_m))"

definition exLendingObj :: lendingItemState where
  "exLendingObj = newLendinItemState 10 1 exLendingItem (Some (0, MarkLendingItemDirty_m))"

text \<open>An order book with its four tries open and one live object under key 1 in each
  cache.\<close>
definition exState :: lendingExchangeState where
  "exState =
     \<lparr>lendingBook = 10,
      data = \<lparr>Nonce = 0, InvestingRoot = 0, BorrowingRoot = 0, LendingItemRoot = 0,
               LiquidationTimeRoot = 0\<rparr>,
      dbErr = None,
      investingTrie = Some exTrie, borrowingTrie = Some exTrie, lendingTrie = Some exTrie,
      liquidationTimeTrie = Some exTrie,
      liquidationTimeStates = [(1, exLiquidationObj)], liquidationTimestatesDirty = {},
      investingStates = [(1, exInvestingObj)], investingStatesDirty = {},
      borrowingStates = [(1, exBorrowingObj)], borrowingStatesDirty = {},
      lendingItemStates = [(1, exLendingObj)], lendingItemStatesDirty = {},
      onDirty = Some 1, effects = []\<rparr>"

text \<open>A trie that refuses every read and write of a key, and an order book over it with
  key 1 dirty in every collection.\<close>
definition exFaultyTrie :: trie where
  "exFaultyTrie = \<lparr>leaves = [(hashBytes 2, [1])], keyFault = (\<lambda>k. Some (TrieFault 7)),
                   trieFault = None\<rparr>"

definition exFaulty :: lendingExchangeState where
  "exFaulty = exState
     \<lparr>investingTrie := Some exFaultyTrie, borrowingTrie := Some exFaultyTrie,
      lendingTrie := Some exFaultyTrie, liquidationTimeTrie := Some exFaultyTrie,
      liquidationTimestatesDirty := {1}, investingStatesDirty := {1},
      borrowingStatesDirty := {1}, lendingItemStatesDirty := {1}\<rparr>"

text \<open>The objects that the investing and the liquidation-time getters build for key 2 of
  the example order book at address 0, a new payload, and a heap holding one order book at
  address 0.\<close>
definition exLoadedInvestingObj :: itemListState where
  "exLoadedInvestingObj = newItemListState INVESTING 10 2 exItemList (Some (0, MarkBorrowingDirty_m))"

definition exLoadedLiquidationObj :: liquidationTimeState where
  "exLoadedLiquidationObj = newLiquidationTimeState 10 2 exItemList (Some (0, MarkInvestingDirty_m))"

definition exNewPayload :: itemList where
  "exNewPayload = \<lparr>Root = 0, Summary = 5\<rparr>"

definition exHeap :: "lendingExchangeState \<Rightarrow> heap" where
  "exHeap s = (\<lambda>q. if q = 0 then Some s else None)"

text \<open>The example order book after its investing list at rate 2 has been loaded and
  mutated.\<close>
definition exAfterInvestingMutation :: lendingExchangeState where
  "exAfterInvestingMutation = exState
     \<lparr>investingStates :=
        [(1, exInvestingObj), (2, exLoadedInvestingObj\<lparr>il_data := exNewPayload, il_onDirty := None\<rparr>)],
      borrowingStatesDirty := {2}, onDirty := None, effects := [OnDirty 1 10]\<rparr>"

text \<open>The example order book with key 1 dirty in every collection, and the trie after the
  flush has written the object cached under key 1.\<close>
definition exDirty :: lendingExchangeState where
  "exDirty = exState
     \<lparr>liquidationTimestatesDirty := {1}, investingStatesDirty := {1},
      borrowingStatesDirty := {1}, lendingItemStatesDirty := {1}\<rparr>"

definition exFlushedTrie :: trie where
  "exFlushedTrie = exTrie\<lparr>leaves := [(hashBytes 2, [1]), (hashBytes 3, [9]), (hashBytes 1, [1])]\<rparr>"


text \<open>A new order book over roots that the example store does not hold; none of its tries
  is open yet.\<close>
definition exUnopened :: lendingExchangeState where
  "exUnopened = newStateExchanges 10
     \<lparr>Nonce = 3, InvestingRoot = 7, BorrowingRoot = 7, LendingItemRoot = 7,
      LiquidationTimeRoot = 7\<rparr> (Some 1)"

text \<open>A new order book with nonce 0 and zero roots, and the same order book after
  \<^verbatim>\<open>updateInvestingRoot\<close> and \<^verbatim>\<open>updateBorrowingRoot\<close> have opened its two empty tries and
  stored their hash in the root fields.\<close>
definition exFresh :: lendingExchangeState where
  "exFresh = newStateExchanges 10
     \<lparr>Nonce = 0, InvestingRoot = 0, BorrowingRoot = 0, LendingItemRoot = 0,
      LiquidationTimeRoot = 0\<rparr> (Some 1)"

definition exFreshInvestingFlushed :: lendingExchangeState where
  "exFreshInvestingFlushed = exFresh
     \<lparr>data := (data exFresh)\<lparr>InvestingRoot := 86\<rparr>, investingTrie := Some emptyTrie\<rparr>"

definition exFreshFlushed :: lendingExchangeState where
  "exFreshFlushed = exFresh
     \<lparr>data := (data exFresh)\<lparr>InvestingRoot := 86, BorrowingRoot := 86\<rparr>,
      investingTrie := Some emptyTrie, borrowingTrie := Some emptyTrie\<rparr>"
section \<open>Hashes and their bytes\<close>

lemma length_hashBytes: "length (hashBytes h) = 32"
  by (simp add: hashBytes_def)

lemma bit_horner_step:
  "bit (push_bit 8 (w::hash) + ucast (x::byte)) n \<longleftrightarrow>
     n < 256 \<and> (if n < 8 then bit x n else bit w (n - 8))"
proof -
  have "push_bit 8 w + ucast x = push_bit 8 w OR ucast x"
    by (rule disjunctive_add) (auto simp: bit_simps bit_word_ucast_iff dest: bit_imp_le_length)
  then show ?thesis
    by (auto simp: bit_simps bit_word_ucast_iff dest: bit_imp_le_length)
qed

lemma bit_foldl_horner:
  "bit (foldl (\<lambda>acc x. push_bit 8 acc + ucast x) (a::hash) (bs :: byte list)) n \<longleftrightarrow>
     n < 256 \<and> (if n < 8 * length bs then bit (rev bs ! (n div 8)) (n mod 8)
                 else bit a (n - 8 * length bs))"
proof (induction bs arbitrary: n rule: rev_induct)
  case Nil
  then show ?case by (auto dest: bit_imp_le_length)
next
  case (snoc x xs)
  show ?case
  proof (cases "n < 8")
    case True
    then show ?thesis by (simp add: bit_horner_step)
  next
    case False
    then have d: "n div 8 = Suc ((n - 8) div 8)" and m: "n mod 8 = (n - 8) mod 8"
      by (simp_all add: le_div_geq le_mod_geq)
    from False show ?thesis
      by (auto simp: bit_horner_step snoc.IH d m)
  qed
qed

lemma BytesToHash_hashBytes: "BytesToHash (hashBytes h) = h"
proof (rule bit_word_eqI)
  fix n assume n: "n < LENGTH(256)"
  then have n256: "n < 256" by simp
  then have j: "n div 8 < 32" by simp
  have "rev (hashBytes h) ! (n div 8) = hashBytes h ! (31 - n div 8)"
    using j by (simp add: rev_nth length_hashBytes)
  also have "\<dots> = ucast (drop_bit (8 * (n div 8)) h)"
  proof -
    have "[0..<32] ! (31 - n div 8) = 0 + (31 - n div 8)"
      by (rule nth_upt) simp
    with j show ?thesis by (simp add: hashBytes_def)
  qed
  finally have r: "rev (hashBytes h) ! (n div 8) = (ucast (drop_bit (8 * (n div 8)) h) :: byte)" .
  have "n mod 8 < 256"
    by (rule less_trans [of _ 8]) simp_all
  then have "bit (ucast (drop_bit (8 * (n div 8)) h) :: byte) (n mod 8) \<longleftrightarrow> bit h n"
    by (simp add: bit_word_ucast_iff bit_simps)
  with n256 r show "bit (BytesToHash (hashBytes h)) n \<longleftrightarrow> bit h n"
    by (simp add: BytesToHash_def bit_foldl_horner length_hashBytes)
qed

lemma hashBytes_inj: "hashBytes a = hashBytes b \<longleftrightarrow> a = b"
  by (metis BytesToHash_hashBytes)

text \<open>The byte-lexicographic order on the 32 bytes of two hashes is the numeric order on
  the hashes. The fold below is the number that a byte string denotes, big-endian.\<close>

lemma foldl_val_Cons:
  "foldl (\<lambda>a x. a * 256 + unat x) a (xs :: byte list)
     = a * 256 ^ length xs + foldl (\<lambda>a x. a * 256 + unat x) 0 xs"
proof (induction xs arbitrary: a)
  case Nil
  then show ?case by simp
next
  case (Cons x xs)
  have "foldl (\<lambda>a x. a * 256 + unat x) a (x # xs)
      = (a * 256 + unat x) * 256 ^ length xs + foldl (\<lambda>a x. a * 256 + unat x) 0 xs"
    using Cons.IH [of "a * 256 + unat x"] by simp
  moreover have "foldl (\<lambda>a x. a * 256 + unat x) 0 (x # xs)
      = unat x * 256 ^ length xs + foldl (\<lambda>a x. a * 256 + unat x) 0 xs"
    using Cons.IH [of "unat x"] by simp
  ultimately show ?case
    by (simp add: algebra_simps)
qed

lemma val_bound:
  "foldl (\<lambda>a x. a * 256 + unat x) 0 (xs :: byte list) < 256 ^ length xs"
proof (induction xs rule: rev_induct)
  case Nil
  then show ?case by simp
next
  case (snoc x xs)
  have "unat x < 256"
    using unsigned_less [of x] by simp
  with snoc show ?case
    by simp
qed

lemma lex_iff_val:
  assumes "length xs = length ys"
  shows "(xs :: byte list) < ys \<longleftrightarrow>
     foldl (\<lambda>a x. a * 256 + unat x) 0 xs < foldl (\<lambda>a x. a * 256 + unat x) 0 ys"
  using assms
proof (induction xs ys rule: list_induct2)
  case Nil
  then show ?case by simp
next
  case (Cons x xs y ys)
  let ?v = "foldl (\<lambda>a x. a * 256 + unat x) 0"
  have vx: "?v (x # xs) = unat x * 256 ^ length xs + ?v xs"
    using foldl_val_Cons [of "unat x" xs] by simp
  have vy: "?v (y # ys) = unat y * 256 ^ length xs + ?v ys"
    using foldl_val_Cons [of "unat y" ys] Cons.hyps by simp
  have bx: "?v xs < 256 ^ length xs" by (rule val_bound)
  have by': "?v ys < 256 ^ length xs" using val_bound [of ys] Cons.hyps by simp
  consider "x < y" | "x = y" | "y < x" by (rule linorder_cases)
  then show ?case
  proof cases
    case 1
    then have "unat x + 1 \<le> unat y" by (simp add: word_less_nat_alt)
    then have "(unat x + 1) * 256 ^ length xs \<le> unat y * 256 ^ length xs"
      by (rule mult_le_mono1)
    with bx have "?v (x # xs) < ?v (y # ys)"
      unfolding vx vy by (simp add: algebra_simps)
    with 1 show ?thesis by simp
  next
    case 2
    with Cons.IH show ?thesis unfolding vx vy by simp
  next
    case 3
    then have "unat y + 1 \<le> unat x" by (simp add: word_less_nat_alt)
    then have "(unat y + 1) * 256 ^ length xs \<le> unat x * 256 ^ length xs"
      by (rule mult_le_mono1)
    with by' have "?v (y # ys) < ?v (x # xs)"
      unfolding vx vy by (simp add: algebra_simps)
    with 3 show ?thesis by auto
  qed
qed

lemma modstep: "((v mod M) * 256 + u) mod M = (v * 256 + u) mod (M::nat)"
  by (metis mod_add_left_eq mod_mult_left_eq)

lemma unat_BytesToHash:
  "unat (BytesToHash xs) = foldl (\<lambda>a x. a * 256 + unat x) 0 xs mod 2 ^ 256"
proof (induction xs rule: rev_induct)
  case Nil
  then show ?case by (simp add: BytesToHash_def)
next
  case (snoc x xs)
  let ?v = "foldl (\<lambda>a x. a * 256 + unat x) 0"
  have u: "unat (ucast x :: hash) = unat x"
  proof -
    have "unat x < 2 ^ LENGTH(8)" by (rule unsigned_less)
    also have "\<dots> < (2::nat) ^ 256" by simp
    finally have "take_bit 256 (unat x) = unat x"
      by (simp only: take_bit_nat_eq_self)
    moreover have "unat (ucast x :: hash) = take_bit LENGTH(256) (unat x)"
      by (rule unsigned_ucast_eq)
    ultimately show ?thesis by simp
  qed
  have "BytesToHash (xs @ [x]) = BytesToHash xs * 256 + ucast x"
    by (simp add: BytesToHash_def push_bit_eq_mult)
  then have "unat (BytesToHash (xs @ [x])) = (unat (BytesToHash xs) * 256 + unat x) mod 2 ^ 256"
    by (simp add: unat_word_ariths u mod_simps)
  also have "\<dots> = (?v xs * 256 + unat x) mod 2 ^ 256"
    unfolding snoc.IH by (rule modstep)
  finally show ?case by simp
qed

lemma hashBytes_less_iff: "hashBytes a < hashBytes b \<longleftrightarrow> a < b"
proof -
  let ?v = "foldl (\<lambda>a x. a * 256 + unat x) 0"
  have v: "?v (hashBytes h) = unat h" for h
  proof -
    have "?v (hashBytes h) < 256 ^ 32"
      using val_bound [of "hashBytes h"] by (simp add: length_hashBytes)
    also have "(256::nat) ^ 32 = 2 ^ 256" by simp
    finally have "?v (hashBytes h) mod 2 ^ 256 = ?v (hashBytes h)" by simp
    with unat_BytesToHash [of "hashBytes h"] show ?thesis
      by (simp add: BytesToHash_hashBytes)
  qed
  have "hashBytes a < hashBytes b \<longleftrightarrow> ?v (hashBytes a) < ?v (hashBytes b)"
    by (rule lex_iff_val) (simp add: length_hashBytes)
  then show ?thesis
    by (simp add: v word_less_nat_alt)
qed

lemma hashBytes_le_iff: "hashBytes a \<le> hashBytes b \<longleftrightarrow> a \<le> b"
  unfolding le_less by (simp add: hashBytes_less_iff hashBytes_inj)

section \<open>What the shared tails leave alone\<close>

lemma setError_fields:
  "lendingBook (setError s e) = lendingBook s"
  "data (setError s e) = data s"
  "investingTrie (setError s e) = investingTrie s"
  "borrowingTrie (setError s e) = borrowingTrie s"
  "lendingTrie (setError s e) = lendingTrie s"
  "liquidationTimeTrie (setError s e) = liquidationTimeTrie s"
  "liquidationTimeStates (setError s e) = liquidationTimeStates s"
  "liquidationTimestatesDirty (setError s e) = liquidationTimestatesDirty s"
  "investingStates (setError s e) = investingStates s"
  "investingStatesDirty (setError s e) = investingStatesDirty s"
  "borrowingStates (setError s e) = borrowingStates s"
  "borrowingStatesDirty (setError s e) = borrowingStatesDirty s"
  "lendingItemStates (setError s e) = lendingItemStates s"
  "lendingItemStatesDirty (setError s e) = lendingItemStatesDirty s"
  "onDirty (setError s e) = onDirty s"
  "effects (setError s e) = effects s"
  by (simp_all add: setError_def)

lemma fireOnDirty_fields:
  "lendingBook (fireOnDirty s h) = lendingBook s"
  "data (fireOnDirty s h) = data s"
  "dbErr (fireOnDirty s h) = dbErr s"
  "investingTrie (fireOnDirty s h) = investingTrie s"
  "borrowingTrie (fireOnDirty s h) = borrowingTrie s"
  "lendingTrie (fireOnDirty s h) = lendingTrie s"
  "liquidationTimeTrie (fireOnDirty s h) = liquidationTimeTrie s"
  "liquidationTimeStates (fireOnDirty s h) = liquidationTimeStates s"
  "liquidationTimestatesDirty (fireOnDirty s h) = liquidationTimestatesDirty s"
  "investingStates (fireOnDirty s h) = investingStates s"
  "investingStatesDirty (fireOnDirty s h) = investingStatesDirty s"
  "borrowingStates (fireOnDirty s h) = borrowingStates s"
  "borrowingStatesDirty (fireOnDirty s h) = borrowingStatesDirty s"
  "lendingItemStates (fireOnDirty s h) = lendingItemStates s"
  "lendingItemStatesDirty (fireOnDirty s h) = lendingItemStatesDirty s"
  by (simp_all add: fireOnDirty_def split: option.splits)

section \<open>Opening the tries\<close>

lemma OpenStorageTrie_cases:
  "(\<exists>t. OpenStorageTrie db b r = (Some t, None)) \<or> (\<exists>e. OpenStorageTrie db b r = (None, Some e))"
  by (simp add: OpenStorageTrie_def split: option.splits)

lemma OpenStorageTrie_EmptyHash: "OpenStorageTrie db b EmptyHash = (Some emptyTrie, None)"
  by (simp add: OpenStorageTrie_def)

text \<open>Each of the four lazy openers returns a trie, never nil, and changes nothing of the
  receiver but the trie field and the memoized error.\<close>

lemma getBorrowingTrie_result:
  "\<exists>tr e. getBorrowingTrie db s = (s\<lparr>dbErr := e, borrowingTrie := Some tr\<rparr>, Some tr)"
proof (cases "borrowingTrie s")
  case None
  from OpenStorageTrie_cases [of db "lendingBook s" "BorrowingRoot (data s)"]
  show ?thesis
  proof (elim disjE exE)
    fix t assume "OpenStorageTrie db (lendingBook s) (BorrowingRoot (data s)) = (Some t, None)"
    with None have "getBorrowingTrie db s = (s\<lparr>dbErr := dbErr s, borrowingTrie := Some t\<rparr>, Some t)"
      by (simp add: getBorrowingTrie_def Let_def)
    then show ?thesis by blast
  next
    fix e assume "OpenStorageTrie db (lendingBook s) (BorrowingRoot (data s)) = (None, Some e)"
    with None have "getBorrowingTrie db s =
        (s\<lparr>dbErr := (if dbErr s = None then Some (CantCreateBidsTrie e) else dbErr s),
           borrowingTrie := Some emptyTrie\<rparr>, Some emptyTrie)"
      by (simp add: getBorrowingTrie_def Let_def OpenStorageTrie_EmptyHash setError_def)
    then show ?thesis by blast
  qed
next
  case (Some t)
  then have "getBorrowingTrie db s = (s\<lparr>dbErr := dbErr s, borrowingTrie := Some t\<rparr>, Some t)"
    by (simp add: getBorrowingTrie_def Let_def)
  then show ?thesis by blast
qed

lemma getBorrowingTrie_open:
  "borrowingTrie s = Some t \<Longrightarrow> getBorrowingTrie db s = (s, Some t)"
  by (simp add: getBorrowingTrie_def Let_def)

lemma getInvestingTrie_result:
  "\<exists>tr e. getInvestingTrie db s = (s\<lparr>dbErr := e, investingTrie := Some tr\<rparr>, Some tr)"
proof (cases "investingTrie s")
  case None
  from OpenStorageTrie_cases [of db "lendingBook s" "InvestingRoot (data s)"]
  show ?thesis
  proof (elim disjE exE)
    fix t assume "OpenStorageTrie db (lendingBook s) (InvestingRoot (data s)) = (Some t, None)"
    with None have "getInvestingTrie db s = (s\<lparr>dbErr := dbErr s, investingTrie := Some t\<rparr>, Some t)"
      by (simp add: getInvestingTrie_def Let_def)
    then show ?thesis by blast
  next
    fix e assume "OpenStorageTrie db (lendingBook s) (InvestingRoot (data s)) = (None, Some e)"
    with None have "getInvestingTrie db s =
        (s\<lparr>dbErr := (if dbErr s = None then Some (CantCreateLendingsTrie e) else dbErr s),
           investingTrie := Some emptyTrie\<rparr>, Some emptyTrie)"
      by (simp add: getInvestingTrie_def Let_def OpenStorageTrie_EmptyHash setError_def)
    then show ?thesis by blast
  qed
next
  case (Some t)
  then have "getInvestingTrie db s = (s\<lparr>dbErr := dbErr s, investingTrie := Some t\<rparr>, Some t)"
    by (simp add: getInvestingTrie_def Let_def)
  then show ?thesis by blast
qed

lemma getInvestingTrie_open:
  "investingTrie s = Some t \<Longrightarrow> getInvestingTrie db s = (s, Some t)"
  by (simp add: getInvestingTrie_def Let_def)

lemma getLiquidationTimeTrie_result:
  "\<exists>tr e. getLiquidationTimeTrie db s = (s\<lparr>dbErr := e, liquidationTimeTrie := Some tr\<rparr>, Some tr)"
proof (cases "liquidationTimeTrie s")
  case None
  from OpenStorageTrie_cases [of db "lendingBook s" "LiquidationTimeRoot (data s)"]
  show ?thesis
  proof (elim disjE exE)
    fix t assume "OpenStorageTrie db (lendingBook s) (LiquidationTimeRoot (data s)) = (Some t, None)"
    with None have "getLiquidationTimeTrie db s = (s\<lparr>dbErr := dbErr s, liquidationTimeTrie := Some t\<rparr>, Some t)"
      by (simp add: getLiquidationTimeTrie_def Let_def)
    then show ?thesis by blast
  next
    fix e assume "OpenStorageTrie db (lendingBook s) (LiquidationTimeRoot (data s)) = (None, Some e)"
    with None have "getLiquidationTimeTrie db s =
        (s\<lparr>dbErr := (if dbErr s = None then Some (CantCreateBidsTrie e) else dbErr s),
           liquidationTimeTrie := Some emptyTrie\<rparr>, Some emptyTrie)"
      by (simp add: getLiquidationTimeTrie_def Let_def OpenStorageTrie_EmptyHash setError_def)
    then show ?thesis by blast
  qed
next
  case (Some t)
  then have "getLiquidationTimeTrie db s = (s\<lparr>dbErr := dbErr s, liquidationTimeTrie := Some t\<rparr>, Some t)"
    by (simp add: getLiquidationTimeTrie_def Let_def)
  then show ?thesis by blast
qed

lemma getLiquidationTimeTrie_open:
  "liquidationTimeTrie s = Some t \<Longrightarrow> getLiquidationTimeTrie db s = (s, Some t)"
  by (simp add: getLiquidationTimeTrie_def Let_def)

lemma getLendingItemTrie_result:
  "\<exists>tr e. getLendingItemTrie db s = (s\<lparr>dbErr := e, lendingTrie := Some tr\<rparr>, Some tr)"
proof (cases "lendingTrie s")
  case None
  from OpenStorageTrie_cases [of db "lendingBook s" "LendingItemRoot (data s)"]
  show ?thesis
  proof (elim disjE exE)
    fix t assume "OpenStorageTrie db (lendingBook s) (LendingItemRoot (data s)) = (Some t, None)"
    with None have "getLendingItemTrie db s = (s\<lparr>dbErr := dbErr s, lendingTrie := Some t\<rparr>, Some t)"
      by (simp add: getLendingItemTrie_def Let_def)
    then show ?thesis by blast
  next
    fix e assume "OpenStorageTrie db (lendingBook s) (LendingItemRoot (data s)) = (None, Some e)"
    with None have "getLendingItemTrie db s =
        (s\<lparr>dbErr := (if dbErr s = None then Some (CantCreateLendingsTrie e) else dbErr s),
           lendingTrie := Some emptyTrie\<rparr>, Some emptyTrie)"
      by (simp add: getLendingItemTrie_def Let_def OpenStorageTrie_EmptyHash setError_def)
    then show ?thesis by blast
  qed
next
  case (Some t)
  then have "getLendingItemTrie db s = (s\<lparr>dbErr := dbErr s, lendingTrie := Some t\<rparr>, Some t)"
    by (simp add: getLendingItemTrie_def Let_def)
  then show ?thesis by blast
qed

lemma getLendingItemTrie_open:
  "lendingTrie s = Some t \<Longrightarrow> getLendingItemTrie db s = (s, Some t)"
  by (simp add: getLendingItemTrie_def Let_def)

section \<open>The getters\<close>

lemma getBorrowingOrderList_cached:
  "map_of (borrowingStates s) k = Some obj \<Longrightarrow> getBorrowingOrderList db p s k = Inr (s, Some obj)"
  by (simp add: getBorrowingOrderList_def)

lemma getBorrowingOrderList_no_bytes:
  assumes "map_of (borrowingStates s) k = None"
    and "getBorrowingTrie db s = (s1, Some tr)"
    and "fst (TryGet tr (hashBytes k)) = []"
  shows "getBorrowingOrderList db p s k = Inr (setError s1 (snd (TryGet tr (hashBytes k))), None)
       \<and> (setError s1 (snd (TryGet tr (hashBytes k))))\<lparr>dbErr := dbErr s, borrowingTrie := borrowingTrie s\<rparr> = s"
proof -
  from getBorrowingTrie_result [of db s] assms(2)
  obtain e where s1: "s1 = s\<lparr>dbErr := e, borrowingTrie := Some tr\<rparr>"
    by auto
  show ?thesis
    using assms s1
    by (cases "TryGet tr (hashBytes k)") (auto simp: getBorrowingOrderList_def setError_def)
qed

lemma getBorrowingOrderList_undecodable:
  assumes "map_of (borrowingStates s) k = None"
    and "getBorrowingTrie db s = (s1, Some tr)"
    and "fst (TryGet tr (hashBytes k)) \<noteq> []"
    and "DecodeItemList db (fst (TryGet tr (hashBytes k))) = Inl e"
  shows "getBorrowingOrderList db p s k =
           Inr (s1\<lparr>effects := effects s @ [LogError ''Failed to decode state order list object'']\<rparr>, None)
       \<and> s1\<lparr>dbErr := dbErr s, borrowingTrie := borrowingTrie s\<rparr> = s"
proof -
  from getBorrowingTrie_result [of db s] assms(2)
  obtain e' where s1: "s1 = s\<lparr>dbErr := e', borrowingTrie := Some tr\<rparr>"
    by auto
  show ?thesis
    using assms s1
    by (cases "TryGet tr (hashBytes k)") (auto simp: getBorrowingOrderList_def)
qed

lemma getBorrowingOrderList_loaded:
  assumes "map_of (borrowingStates s) k = None"
    and "getBorrowingTrie db s = (s1, Some tr)"
    and "fst (TryGet tr (hashBytes k)) \<noteq> []"
    and "DecodeItemList db (fst (TryGet tr (hashBytes k))) = Inr d"
  shows "\<exists>s' obj. getBorrowingOrderList db p s k = Inr (s', Some obj)
           \<and> il_data obj = d \<and> price obj = k
           \<and> map_of (borrowingStates s') = (map_of (borrowingStates s))(k \<mapsto> obj)
           \<and> s'\<lparr>dbErr := dbErr s, borrowingTrie := borrowingTrie s, borrowingStates := borrowingStates s\<rparr> = s"
proof -
  from getBorrowingTrie_result [of db s] assms(2)
  obtain e where s1: "s1 = s\<lparr>dbErr := e, borrowingTrie := Some tr\<rparr>"
    by auto
  show ?thesis
    using assms s1
    by (cases "TryGet tr (hashBytes k)")
       (auto simp: getBorrowingOrderList_def newItemListState_def update_conv' Let_def split: sum.splits)
qed

lemma getInvestingOrderList_cached:
  "map_of (investingStates s) k = Some obj \<Longrightarrow> getInvestingOrderList db p s k = Inr (s, Some obj)"
  by (simp add: getInvestingOrderList_def)

lemma getInvestingOrderList_no_bytes:
  assumes "map_of (investingStates s) k = None"
    and "getInvestingTrie db s = (s1, Some tr)"
    and "fst (TryGet tr (hashBytes k)) = []"
  shows "getInvestingOrderList db p s k = Inr (setError s1 (snd (TryGet tr (hashBytes k))), None)
       \<and> (setError s1 (snd (TryGet tr (hashBytes k))))\<lparr>dbErr := dbErr s, investingTrie := investingTrie s\<rparr> = s"
proof -
  from getInvestingTrie_result [of db s] assms(2)
  obtain e where s1: "s1 = s\<lparr>dbErr := e, investingTrie := Some tr\<rparr>"
    by auto
  show ?thesis
    using assms s1
    by (cases "TryGet tr (hashBytes k)") (auto simp: getInvestingOrderList_def setError_def)
qed

lemma getInvestingOrderList_undecodable:
  assumes "map_of (investingStates s) k = None"
    and "getInvestingTrie db s = (s1, Some tr)"
    and "fst (TryGet tr (hashBytes k)) \<noteq> []"
    and "DecodeItemList db (fst (TryGet tr (hashBytes k))) = Inl e"
  shows "getInvestingOrderList db p s k =
           Inr (s1\<lparr>effects := effects s @ [LogError ''Failed to decode state order list object'']\<rparr>, None)
       \<and> s1\<lparr>dbErr := dbErr s, investingTrie := investingTrie s\<rparr> = s"
proof -
  from getInvestingTrie_result [of db s] assms(2)
  obtain e' where s1: "s1 = s\<lparr>dbErr := e', investingTrie := Some tr\<rparr>"
    by auto
  show ?thesis
    using assms s1
    by (cases "TryGet tr (hashBytes k)") (auto simp: getInvestingOrderList_def)
qed

lemma getInvestingOrderList_loaded:
  assumes "map_of (investingStates s) k = None"
    and "getInvestingTrie db s = (s1, Some tr)"
    and "fst (TryGet tr (hashBytes k)) \<noteq> []"
    and "DecodeItemList db (fst (TryGet tr (hashBytes k))) = Inr d"
  shows "\<exists>s' obj. getInvestingOrderList db p s k = Inr (s', Some obj)
           \<and> il_data obj = d \<and> price obj = k
           \<and> map_of (investingStates s') = (map_of (investingStates s))(k \<mapsto> obj)
           \<and> s'\<lparr>dbErr := dbErr s, investingTrie := investingTrie s, investingStates := investingStates s\<rparr> = s"
proof -
  from getInvestingTrie_result [of db s] assms(2)
  obtain e where s1: "s1 = s\<lparr>dbErr := e, investingTrie := Some tr\<rparr>"
    by auto
  show ?thesis
    using assms s1
    by (cases "TryGet tr (hashBytes k)")
       (auto simp: getInvestingOrderList_def newItemListState_def update_conv' Let_def split: sum.splits)
qed

lemma getLiquidationTimeOrderList_cached:
  "map_of (liquidationTimeStates s) k = Some obj \<Longrightarrow> getLiquidationTimeOrderList db p s k = Inr (s, Some obj)"
  by (simp add: getLiquidationTimeOrderList_def)

lemma getLiquidationTimeOrderList_no_bytes:
  assumes "map_of (liquidationTimeStates s) k = None"
    and "getLiquidationTimeTrie db s = (s1, Some tr)"
    and "fst (TryGet tr (hashBytes k)) = []"
  shows "getLiquidationTimeOrderList db p s k = Inr (setError s1 (snd (TryGet tr (hashBytes k))), None)
       \<and> (setError s1 (snd (TryGet tr (hashBytes k))))\<lparr>dbErr := dbErr s, liquidationTimeTrie := liquidationTimeTrie s\<rparr> = s"
proof -
  from getLiquidationTimeTrie_result [of db s] assms(2)
  obtain e where s1: "s1 = s\<lparr>dbErr := e, liquidationTimeTrie := Some tr\<rparr>"
    by auto
  show ?thesis
    using assms s1
    by (cases "TryGet tr (hashBytes k)") (auto simp: getLiquidationTimeOrderList_def setError_def)
qed

lemma getLiquidationTimeOrderList_undecodable:
  assumes "map_of (liquidationTimeStates s) k = None"
    and "getLiquidationTimeTrie db s = (s1, Some tr)"
    and "fst (TryGet tr (hashBytes k)) \<noteq> []"
    and "DecodeItemList db (fst (TryGet tr (hashBytes k))) = Inl e"
  shows "getLiquidationTimeOrderList db p s k =
           Inr (s1\<lparr>effects := effects s @ [LogError ''Failed to decode state liquidation time'']\<rparr>, None)
       \<and> s1\<lparr>dbErr := dbErr s, liquidationTimeTrie := liquidationTimeTrie s\<rparr> = s"
proof -
  from getLiquidationTimeTrie_result [of db s] assms(2)
  obtain e' where s1: "s1 = s\<lparr>dbErr := e', liquidationTimeTrie := Some tr\<rparr>"
    by auto
  show ?thesis
    using assms s1
    by (cases "TryGet tr (hashBytes k)") (auto simp: getLiquidationTimeOrderList_def)
qed

lemma getLiquidationTimeOrderList_loaded:
  assumes "map_of (liquidationTimeStates s) k = None"
    and "getLiquidationTimeTrie db s = (s1, Some tr)"
    and "fst (TryGet tr (hashBytes k)) \<noteq> []"
    and "DecodeItemList db (fst (TryGet tr (hashBytes k))) = Inr d"
  shows "\<exists>s' obj. getLiquidationTimeOrderList db p s k = Inr (s', Some obj)
           \<and> lt_data obj = d \<and> lt_time obj = k
           \<and> map_of (liquidationTimeStates s') = (map_of (liquidationTimeStates s))(k \<mapsto> obj)
           \<and> s'\<lparr>dbErr := dbErr s, liquidationTimeTrie := liquidationTimeTrie s, liquidationTimeStates := liquidationTimeStates s\<rparr> = s"
proof -
  from getLiquidationTimeTrie_result [of db s] assms(2)
  obtain e where s1: "s1 = s\<lparr>dbErr := e, liquidationTimeTrie := Some tr\<rparr>"
    by auto
  show ?thesis
    using assms s1
    by (cases "TryGet tr (hashBytes k)")
       (auto simp: getLiquidationTimeOrderList_def newLiquidationTimeState_def update_conv' Let_def split: sum.splits)
qed

lemma getLendingItem_cached:
  "map_of (lendingItemStates s) k = Some obj \<Longrightarrow> getLendingItem db p s k = Inr (s, Some obj)"
  by (simp add: getLendingItem_def)

lemma getLendingItem_no_bytes:
  assumes "map_of (lendingItemStates s) k = None"
    and "getLendingItemTrie db s = (s1, Some tr)"
    and "fst (TryGet tr (hashBytes k)) = []"
  shows "getLendingItem db p s k = Inr (setError s1 (snd (TryGet tr (hashBytes k))), None)
       \<and> (setError s1 (snd (TryGet tr (hashBytes k))))\<lparr>dbErr := dbErr s, lendingTrie := lendingTrie s\<rparr> = s"
proof -
  from getLendingItemTrie_result [of db s] assms(2)
  obtain e where s1: "s1 = s\<lparr>dbErr := e, lendingTrie := Some tr\<rparr>"
    by auto
  show ?thesis
    using assms s1
    by (cases "TryGet tr (hashBytes k)") (auto simp: getLendingItem_def setError_def)
qed

lemma getLendingItem_undecodable:
  assumes "map_of (lendingItemStates s) k = None"
    and "getLendingItemTrie db s = (s1, Some tr)"
    and "fst (TryGet tr (hashBytes k)) \<noteq> []"
    and "DecodeLendingItem db (fst (TryGet tr (hashBytes k))) = Inl e"
  shows "getLendingItem db p s k =
           Inr (s1\<lparr>effects := effects s @ [LogError ''Failed to decode state lending item'']\<rparr>, None)
       \<and> s1\<lparr>dbErr := dbErr s, lendingTrie := lendingTrie s\<rparr> = s"
proof -
  from getLendingItemTrie_result [of db s] assms(2)
  obtain e' where s1: "s1 = s\<lparr>dbErr := e', lendingTrie := Some tr\<rparr>"
    by auto
  show ?thesis
    using assms s1
    by (cases "TryGet tr (hashBytes k)") (auto simp: getLendingItem_def)
qed

lemma getLendingItem_loaded:
  assumes "map_of (lendingItemStates s) k = None"
    and "getLendingItemTrie db s = (s1, Some tr)"
    and "fst (TryGet tr (hashBytes k)) \<noteq> []"
    and "DecodeLendingItem db (fst (TryGet tr (hashBytes k))) = Inr d"
  shows "\<exists>s' obj. getLendingItem db p s k = Inr (s', Some obj)
           \<and> li_data obj = d \<and> li_orderId obj = k
           \<and> map_of (lendingItemStates s') = (map_of (lendingItemStates s))(k \<mapsto> obj)
           \<and> s'\<lparr>dbErr := dbErr s, lendingTrie := lendingTrie s, lendingItemStates := lendingItemStates s\<rparr> = s"
proof -
  from getLendingItemTrie_result [of db s] assms(2)
  obtain e where s1: "s1 = s\<lparr>dbErr := e, lendingTrie := Some tr\<rparr>"
    by auto
  show ?thesis
    using assms s1
    by (cases "TryGet tr (hashBytes k)")
       (auto simp: getLendingItem_def newLendinItemState_def update_conv' Let_def split: sum.splits)
qed


text \<open>No getter panics: the opener always hands it a trie.\<close>

lemma getBorrowingOrderList_returns:
  "\<exists>s' r. getBorrowingOrderList db p s k = Inr (s', r)"
proof -
  obtain tr e where g: "getBorrowingTrie db s = (s\<lparr>dbErr := e, borrowingTrie := Some tr\<rparr>, Some tr)"
    using getBorrowingTrie_result by blast
  show ?thesis
  proof (cases "map_of (borrowingStates s) k")
    case None
    with g show ?thesis
      by (cases "TryGet tr (hashBytes k)")
         (simp add: getBorrowingOrderList_def Let_def split: sum.splits)
  next
    case (Some obj)
    then show ?thesis
      by (simp add: getBorrowingOrderList_def)
  qed
qed

lemma getInvestingOrderList_returns:
  "\<exists>s' r. getInvestingOrderList db p s k = Inr (s', r)"
proof -
  obtain tr e where g: "getInvestingTrie db s = (s\<lparr>dbErr := e, investingTrie := Some tr\<rparr>, Some tr)"
    using getInvestingTrie_result by blast
  show ?thesis
  proof (cases "map_of (investingStates s) k")
    case None
    with g show ?thesis
      by (cases "TryGet tr (hashBytes k)")
         (simp add: getInvestingOrderList_def Let_def split: sum.splits)
  next
    case (Some obj)
    then show ?thesis
      by (simp add: getInvestingOrderList_def)
  qed
qed

lemma getLiquidationTimeOrderList_returns:
  "\<exists>s' r. getLiquidationTimeOrderList db p s k = Inr (s', r)"
proof -
  obtain tr e where g: "getLiquidationTimeTrie db s = (s\<lparr>dbErr := e, liquidationTimeTrie := Some tr\<rparr>, Some tr)"
    using getLiquidationTimeTrie_result by blast
  show ?thesis
  proof (cases "map_of (liquidationTimeStates s) k")
    case None
    with g show ?thesis
      by (cases "TryGet tr (hashBytes k)")
         (simp add: getLiquidationTimeOrderList_def Let_def split: sum.splits)
  next
    case (Some obj)
    then show ?thesis
      by (simp add: getLiquidationTimeOrderList_def)
  qed
qed

lemma getLendingItem_returns:
  "\<exists>s' r. getLendingItem db p s k = Inr (s', r)"
proof -
  obtain tr e where g: "getLendingItemTrie db s = (s\<lparr>dbErr := e, lendingTrie := Some tr\<rparr>, Some tr)"
    using getLendingItemTrie_result by blast
  show ?thesis
  proof (cases "map_of (lendingItemStates s) k")
    case None
    with g show ?thesis
      by (cases "TryGet tr (hashBytes k)")
         (simp add: getLendingItem_def Let_def split: sum.splits)
  next
    case (Some obj)
    then show ?thesis
      by (simp add: getLendingItem_def)
  qed
qed
text \<open>C7. For each of the four getters: a live cached object under the key is returned
  and the receiver is unchanged. Otherwise the getter reads the lazily opened trie; the
  opener always yields a trie, so that no call panics, whatever the key and the receiver.
  When the lookup yields no bytes it returns nil after handing the lookup's error to
  \<open>setError\<close>; when the stored bytes fail to decode it returns nil and adds one line to
  the log, memoizing nothing; in both cases nothing but the opened trie handle and
  \<open>dbErr\<close> differs from before. When the bytes decode, the decoded object is inserted
  into the live cache under the key and returned.\<close>
theorem getters_cached_absent_or_loaded:
  "(map_of (borrowingStates s) kc = Some objB \<longrightarrow> getBorrowingOrderList db p s kc = Inr (s, Some objB))
   \<and> (map_of (borrowingStates s) kn = None \<and> getBorrowingTrie db s = (sB, Some trB)
        \<and> fst (TryGet trB (hashBytes kn)) = [] \<longrightarrow>
       getBorrowingOrderList db p s kn = Inr (setError sB (snd (TryGet trB (hashBytes kn))), None)
       \<and> (setError sB (snd (TryGet trB (hashBytes kn))))
            \<lparr>dbErr := dbErr s, borrowingTrie := borrowingTrie s\<rparr> = s)
   \<and> (map_of (borrowingStates s) kd = None \<and> getBorrowingTrie db s = (sB, Some trB)
        \<and> fst (TryGet trB (hashBytes kd)) \<noteq> []
        \<and> DecodeItemList db (fst (TryGet trB (hashBytes kd))) = Inl eB \<longrightarrow>
       getBorrowingOrderList db p s kd =
         Inr (sB\<lparr>effects := effects s @ [LogError ''Failed to decode state order list object'']\<rparr>, None)
       \<and> sB\<lparr>dbErr := dbErr s, borrowingTrie := borrowingTrie s\<rparr> = s)
   \<and> (map_of (borrowingStates s) kl = None \<and> getBorrowingTrie db s = (sB, Some trB)
        \<and> fst (TryGet trB (hashBytes kl)) \<noteq> []
        \<and> DecodeItemList db (fst (TryGet trB (hashBytes kl))) = Inr dB \<longrightarrow>
       (\<exists>s' obj. getBorrowingOrderList db p s kl = Inr (s', Some obj)
          \<and> il_data obj = dB \<and> price obj = kl
          \<and> map_of (borrowingStates s') = (map_of (borrowingStates s))(kl \<mapsto> obj)
          \<and> s'\<lparr>dbErr := dbErr s, borrowingTrie := borrowingTrie s, borrowingStates := borrowingStates s\<rparr> = s))
   \<and> (map_of (investingStates s) kc = Some objI \<longrightarrow> getInvestingOrderList db p s kc = Inr (s, Some objI))
   \<and> (map_of (investingStates s) kn = None \<and> getInvestingTrie db s = (sI, Some trI)
        \<and> fst (TryGet trI (hashBytes kn)) = [] \<longrightarrow>
       getInvestingOrderList db p s kn = Inr (setError sI (snd (TryGet trI (hashBytes kn))), None)
       \<and> (setError sI (snd (TryGet trI (hashBytes kn))))
            \<lparr>dbErr := dbErr s, investingTrie := investingTrie s\<rparr> = s)
   \<and> (map_of (investingStates s) kd = None \<and> getInvestingTrie db s = (sI, Some trI)
        \<and> fst (TryGet trI (hashBytes kd)) \<noteq> []
        \<and> DecodeItemList db (fst (TryGet trI (hashBytes kd))) = Inl eI \<longrightarrow>
       getInvestingOrderList db p s kd =
         Inr (sI\<lparr>effects := effects s @ [LogError ''Failed to decode state order list object'']\<rparr>, None)
       \<and> sI\<lparr>dbErr := dbErr s, investingTrie := investingTrie s\<rparr> = s)
   \<and> (map_of (investingStates s) kl = None \<and> getInvestingTrie db s = (sI, Some trI)
        \<and> fst (TryGet trI (hashBytes kl)) \<noteq> []
        \<and> DecodeItemList db (fst (TryGet trI (hashBytes kl))) = Inr dI \<longrightarrow>
       (\<exists>s' obj. getInvestingOrderList db p s kl = Inr (s', Some obj)
          \<and> il_data obj = dI \<and> price obj = kl
          \<and> map_of (investingStates s') = (map_of (investingStates s))(kl \<mapsto> obj)
          \<and> s'\<lparr>dbErr := dbErr s, investingTrie := investingTrie s, investingStates := investingStates s\<rparr> = s))
   \<and> (map_of (liquidationTimeStates s) kc = Some objT \<longrightarrow> getLiquidationTimeOrderList db p s kc = Inr (s, Some objT))
   \<and> (map_of (liquidationTimeStates s) kn = None \<and> getLiquidationTimeTrie db s = (sT, Some trT)
        \<and> fst (TryGet trT (hashBytes kn)) = [] \<longrightarrow>
       getLiquidationTimeOrderList db p s kn = Inr (setError sT (snd (TryGet trT (hashBytes kn))), None)
       \<and> (setError sT (snd (TryGet trT (hashBytes kn))))
            \<lparr>dbErr := dbErr s, liquidationTimeTrie := liquidationTimeTrie s\<rparr> = s)
   \<and> (map_of (liquidationTimeStates s) kd = None \<and> getLiquidationTimeTrie db s = (sT, Some trT)
        \<and> fst (TryGet trT (hashBytes kd)) \<noteq> []
        \<and> DecodeItemList db (fst (TryGet trT (hashBytes kd))) = Inl eT \<longrightarrow>
       getLiquidationTimeOrderList db p s kd =
         Inr (sT\<lparr>effects := effects s @ [LogError ''Failed to decode state liquidation time'']\<rparr>, None)
       \<and> sT\<lparr>dbErr := dbErr s, liquidationTimeTrie := liquidationTimeTrie s\<rparr> = s)
   \<and> (map_of (liquidationTimeStates s) kl = None \<and> getLiquidationTimeTrie db s = (sT, Some trT)
        \<and> fst (TryGet trT (hashBytes kl)) \<noteq> []
        \<and> DecodeItemList db (fst (TryGet trT (hashBytes kl))) = Inr dT \<longrightarrow>
       (\<exists>s' obj. getLiquidationTimeOrderList db p s kl = Inr (s', Some obj)
          \<and> lt_data obj = dT \<and> lt_time obj = kl
          \<and> map_of (liquidationTimeStates s') = (map_of (liquidationTimeStates s))(kl \<mapsto> obj)
          \<and> s'\<lparr>dbErr := dbErr s, liquidationTimeTrie := liquidationTimeTrie s, liquidationTimeStates := liquidationTimeStates s\<rparr> = s))
   \<and> (map_of (lendingItemStates s) kc = Some objL \<longrightarrow> getLendingItem db p s kc = Inr (s, Some objL))
   \<and> (map_of (lendingItemStates s) kn = None \<and> getLendingItemTrie db s = (sL, Some trL)
        \<and> fst (TryGet trL (hashBytes kn)) = [] \<longrightarrow>
       getLendingItem db p s kn = Inr (setError sL (snd (TryGet trL (hashBytes kn))), None)
       \<and> (setError sL (snd (TryGet trL (hashBytes kn))))
            \<lparr>dbErr := dbErr s, lendingTrie := lendingTrie s\<rparr> = s)
   \<and> (map_of (lendingItemStates s) kd = None \<and> getLendingItemTrie db s = (sL, Some trL)
        \<and> fst (TryGet trL (hashBytes kd)) \<noteq> []
        \<and> DecodeLendingItem db (fst (TryGet trL (hashBytes kd))) = Inl eL \<longrightarrow>
       getLendingItem db p s kd =
         Inr (sL\<lparr>effects := effects s @ [LogError ''Failed to decode state lending item'']\<rparr>, None)
       \<and> sL\<lparr>dbErr := dbErr s, lendingTrie := lendingTrie s\<rparr> = s)
   \<and> (map_of (lendingItemStates s) kl = None \<and> getLendingItemTrie db s = (sL, Some trL)
        \<and> fst (TryGet trL (hashBytes kl)) \<noteq> []
        \<and> DecodeLendingItem db (fst (TryGet trL (hashBytes kl))) = Inr dL \<longrightarrow>
       (\<exists>s' obj. getLendingItem db p s kl = Inr (s', Some obj)
          \<and> li_data obj = dL \<and> li_orderId obj = kl
          \<and> map_of (lendingItemStates s') = (map_of (lendingItemStates s))(kl \<mapsto> obj)
          \<and> s'\<lparr>dbErr := dbErr s, lendingTrie := lendingTrie s, lendingItemStates := lendingItemStates s\<rparr> = s))
   \<and> (\<exists>t e. getBorrowingTrie db s = (s\<lparr>dbErr := e, borrowingTrie := Some t\<rparr>, Some t))
   \<and> (\<exists>s' r. getBorrowingOrderList db p s k = Inr (s', r))
   \<and> (\<exists>t e. getInvestingTrie db s = (s\<lparr>dbErr := e, investingTrie := Some t\<rparr>, Some t))
   \<and> (\<exists>s' r. getInvestingOrderList db p s k = Inr (s', r))
   \<and> (\<exists>t e. getLiquidationTimeTrie db s = (s\<lparr>dbErr := e, liquidationTimeTrie := Some t\<rparr>, Some t))
   \<and> (\<exists>s' r. getLiquidationTimeOrderList db p s k = Inr (s', r))
   \<and> (\<exists>t e. getLendingItemTrie db s = (s\<lparr>dbErr := e, lendingTrie := Some t\<rparr>, Some t))
   \<and> (\<exists>s' r. getLendingItem db p s k = Inr (s', r))"
  apply (intro conjI impI)
  subgoal by (erule getBorrowingOrderList_cached)
  subgoal using getBorrowingOrderList_no_bytes by blast
  subgoal using getBorrowingOrderList_no_bytes by blast
  subgoal using getBorrowingOrderList_undecodable by blast
  subgoal using getBorrowingOrderList_undecodable by blast
  subgoal by (elim conjE) (rule getBorrowingOrderList_loaded; assumption)
  subgoal by (erule getInvestingOrderList_cached)
  subgoal using getInvestingOrderList_no_bytes by blast
  subgoal using getInvestingOrderList_no_bytes by blast
  subgoal using getInvestingOrderList_undecodable by blast
  subgoal using getInvestingOrderList_undecodable by blast
  subgoal by (elim conjE) (rule getInvestingOrderList_loaded; assumption)
  subgoal by (erule getLiquidationTimeOrderList_cached)
  subgoal using getLiquidationTimeOrderList_no_bytes by blast
  subgoal using getLiquidationTimeOrderList_no_bytes by blast
  subgoal using getLiquidationTimeOrderList_undecodable by blast
  subgoal using getLiquidationTimeOrderList_undecodable by blast
  subgoal by (elim conjE) (rule getLiquidationTimeOrderList_loaded; assumption)
  subgoal by (erule getLendingItem_cached)
  subgoal using getLendingItem_no_bytes by blast
  subgoal using getLendingItem_no_bytes by blast
  subgoal using getLendingItem_undecodable by blast
  subgoal using getLendingItem_undecodable by blast
  subgoal by (elim conjE) (rule getLendingItem_loaded; assumption)
  subgoal by (rule getBorrowingTrie_result)
  subgoal by (rule getBorrowingOrderList_returns)
  subgoal by (rule getInvestingTrie_result)
  subgoal by (rule getInvestingOrderList_returns)
  subgoal by (rule getLiquidationTimeTrie_result)
  subgoal by (rule getLiquidationTimeOrderList_returns)
  subgoal by (rule getLendingItemTrie_result)
  subgoal by (rule getLendingItem_returns)
  done

text \<open>The example order book: key 1 is cached, nothing is stored under key 4, key 3 holds
  bytes that do not decode, key 2 holds bytes that decode. On the new order book whose
  roots the store does not hold, each getter opens an empty trie, memoizes the opener's
  error and returns nil.\<close>
theorem getters_cached_absent_or_loaded_witness:
  "getBorrowingOrderList exDb 0 exState 1 = Inr (exState, Some exBorrowingObj)
   \<and> getBorrowingOrderList exDb 0 exState 4 = Inr (exState, None)
   \<and> getBorrowingOrderList exDb 0 exState 3 =
       Inr (exState\<lparr>effects := [LogError ''Failed to decode state order list object'']\<rparr>, None)
   \<and> (\<exists>s' obj. getBorrowingOrderList exDb 0 exState 2 = Inr (s', Some obj) \<and> il_data obj = exItemList)
   \<and> getInvestingOrderList exDb 0 exState 1 = Inr (exState, Some exInvestingObj)
   \<and> getInvestingOrderList exDb 0 exState 4 = Inr (exState, None)
   \<and> getInvestingOrderList exDb 0 exState 3 =
       Inr (exState\<lparr>effects := [LogError ''Failed to decode state order list object'']\<rparr>, None)
   \<and> (\<exists>s' obj. getInvestingOrderList exDb 0 exState 2 = Inr (s', Some obj) \<and> il_data obj = exItemList)
   \<and> getLiquidationTimeOrderList exDb 0 exState 1 = Inr (exState, Some exLiquidationObj)
   \<and> getLiquidationTimeOrderList exDb 0 exState 4 = Inr (exState, None)
   \<and> getLiquidationTimeOrderList exDb 0 exState 3 =
       Inr (exState\<lparr>effects := [LogError ''Failed to decode state liquidation time'']\<rparr>, None)
   \<and> (\<exists>s' obj. getLiquidationTimeOrderList exDb 0 exState 2 = Inr (s', Some obj) \<and> lt_data obj = exItemList)
   \<and> getLendingItem exDb 0 exState 1 = Inr (exState, Some exLendingObj)
   \<and> getLendingItem exDb 0 exState 4 = Inr (exState, None)
   \<and> getLendingItem exDb 0 exState 3 =
       Inr (exState\<lparr>effects := [LogError ''Failed to decode state lending item'']\<rparr>, None)
   \<and> (\<exists>s' obj. getLendingItem exDb 0 exState 2 = Inr (s', Some obj) \<and> li_data obj = exLendingItem)
   \<and> getBorrowingOrderList exDb 0 exUnopened 4 =
       Inr (exUnopened\<lparr>dbErr := Some (CantCreateBidsTrie (TrieFault 0)), borrowingTrie := Some emptyTrie\<rparr>, None)
   \<and> getInvestingOrderList exDb 0 exUnopened 4 =
       Inr (exUnopened\<lparr>dbErr := Some (CantCreateLendingsTrie (TrieFault 0)), investingTrie := Some emptyTrie\<rparr>, None)
   \<and> getLiquidationTimeOrderList exDb 0 exUnopened 4 =
       Inr (exUnopened\<lparr>dbErr := Some (CantCreateBidsTrie (TrieFault 0)), liquidationTimeTrie := Some emptyTrie\<rparr>, None)
   \<and> getLendingItem exDb 0 exUnopened 4 =
       Inr (exUnopened\<lparr>dbErr := Some (CantCreateLendingsTrie (TrieFault 0)), lendingTrie := Some emptyTrie\<rparr>, None)"
proof -
  have g: "TryGet exTrie (hashBytes 4) = ([], None)" "TryGet exTrie (hashBytes 3) = ([9], None)"
      "TryGet exTrie (hashBytes 2) = ([1], None)"
    by (simp_all add: TryGet_def exTrie_def hashBytes_inj)
  have d: "DecodeItemList exDb [9] = Inl (CodecError 0)" "DecodeLendingItem exDb [9] = Inl (CodecError 0)"
      "DecodeItemList exDb [1] = Inr exItemList" "DecodeLendingItem exDb [1] = Inr exLendingItem"
    by (simp_all add: exDb_def)
  have n: "dbErr exState = None" "effects exState = []"
    by (simp_all add: exState_def)
  have cB: "map_of (borrowingStates exState) 1 = Some exBorrowingObj" "map_of (borrowingStates exState) 4 = None"
      "map_of (borrowingStates exState) 3 = None" "map_of (borrowingStates exState) 2 = None"
      "getBorrowingTrie exDb exState = (exState, Some exTrie)"
    by (simp_all add: exState_def getBorrowingTrie_def)
  have cI: "map_of (investingStates exState) 1 = Some exInvestingObj" "map_of (investingStates exState) 4 = None"
      "map_of (investingStates exState) 3 = None" "map_of (investingStates exState) 2 = None"
      "getInvestingTrie exDb exState = (exState, Some exTrie)"
    by (simp_all add: exState_def getInvestingTrie_def)
  have cT: "map_of (liquidationTimeStates exState) 1 = Some exLiquidationObj" "map_of (liquidationTimeStates exState) 4 = None"
      "map_of (liquidationTimeStates exState) 3 = None" "map_of (liquidationTimeStates exState) 2 = None"
      "getLiquidationTimeTrie exDb exState = (exState, Some exTrie)"
    by (simp_all add: exState_def getLiquidationTimeTrie_def)
  have cL: "map_of (lendingItemStates exState) 1 = Some exLendingObj" "map_of (lendingItemStates exState) 4 = None"
      "map_of (lendingItemStates exState) 3 = None" "map_of (lendingItemStates exState) 2 = None"
      "getLendingItemTrie exDb exState = (exState, Some exTrie)"
    by (simp_all add: exState_def getLendingItemTrie_def)
  have uBo: "getBorrowingTrie exDb exUnopened =
      (exUnopened\<lparr>dbErr := Some (CantCreateBidsTrie (TrieFault 0)), borrowingTrie := Some emptyTrie\<rparr>, Some emptyTrie)"
      "map_of (borrowingStates exUnopened) 4 = None"
    by (simp_all add: exUnopened_def newStateExchanges_def getBorrowingTrie_def OpenStorageTrie_def
        exDb_def EmptyHash_def setError_def Let_def)
  have uIn: "getInvestingTrie exDb exUnopened =
      (exUnopened\<lparr>dbErr := Some (CantCreateLendingsTrie (TrieFault 0)), investingTrie := Some emptyTrie\<rparr>, Some emptyTrie)"
      "map_of (investingStates exUnopened) 4 = None"
    by (simp_all add: exUnopened_def newStateExchanges_def getInvestingTrie_def OpenStorageTrie_def
        exDb_def EmptyHash_def setError_def Let_def)
  have uLi: "getLiquidationTimeTrie exDb exUnopened =
      (exUnopened\<lparr>dbErr := Some (CantCreateBidsTrie (TrieFault 0)), liquidationTimeTrie := Some emptyTrie\<rparr>, Some emptyTrie)"
      "map_of (liquidationTimeStates exUnopened) 4 = None"
    by (simp_all add: exUnopened_def newStateExchanges_def getLiquidationTimeTrie_def OpenStorageTrie_def
        exDb_def EmptyHash_def setError_def Let_def)
  have uLe: "getLendingItemTrie exDb exUnopened =
      (exUnopened\<lparr>dbErr := Some (CantCreateLendingsTrie (TrieFault 0)), lendingTrie := Some emptyTrie\<rparr>, Some emptyTrie)"
      "map_of (lendingItemStates exUnopened) 4 = None"
    by (simp_all add: exUnopened_def newStateExchanges_def getLendingItemTrie_def OpenStorageTrie_def
        exDb_def EmptyHash_def setError_def Let_def)
  have e: "TryGet emptyTrie (hashBytes 4) = ([], None)"
    by (simp add: TryGet_def emptyTrie_def)
  from getters_cached_absent_or_loaded [where s = exUnopened and db = exDb and p = 0 and kn = 4
      and sB = "exUnopened\<lparr>dbErr := Some (CantCreateBidsTrie (TrieFault 0)), borrowingTrie := Some emptyTrie\<rparr>" and trB = emptyTrie and sI = "exUnopened\<lparr>dbErr := Some (CantCreateLendingsTrie (TrieFault 0)), investingTrie := Some emptyTrie\<rparr>" and trI = emptyTrie and sT = "exUnopened\<lparr>dbErr := Some (CantCreateBidsTrie (TrieFault 0)), liquidationTimeTrie := Some emptyTrie\<rparr>" and trT = emptyTrie and sL = "exUnopened\<lparr>dbErr := Some (CantCreateLendingsTrie (TrieFault 0)), lendingTrie := Some emptyTrie\<rparr>" and trL = emptyTrie]
    uBo uIn uLi uLe e
  have unopened: "getBorrowingOrderList exDb 0 exUnopened 4 =
           Inr (exUnopened\<lparr>dbErr := Some (CantCreateBidsTrie (TrieFault 0)), borrowingTrie := Some emptyTrie\<rparr>, None)
       \<and> getInvestingOrderList exDb 0 exUnopened 4 =
           Inr (exUnopened\<lparr>dbErr := Some (CantCreateLendingsTrie (TrieFault 0)), investingTrie := Some emptyTrie\<rparr>, None)
       \<and> getLiquidationTimeOrderList exDb 0 exUnopened 4 =
           Inr (exUnopened\<lparr>dbErr := Some (CantCreateBidsTrie (TrieFault 0)), liquidationTimeTrie := Some emptyTrie\<rparr>, None)
       \<and> getLendingItem exDb 0 exUnopened 4 =
           Inr (exUnopened\<lparr>dbErr := Some (CantCreateLendingsTrie (TrieFault 0)), lendingTrie := Some emptyTrie\<rparr>, None)"
    by (simp add: setError_def)
  note getters_cached_absent_or_loaded [where s = exState and db = exDb and p = 0 and kc = 1
      and kn = 4 and kd = 3 and kl = 2 and objB = exBorrowingObj and sB = exState and trB = exTrie and dB = exItemList and eB = "CodecError 0" and objI = exInvestingObj and sI = exState and trI = exTrie and dI = exItemList and eI = "CodecError 0" and objT = exLiquidationObj and sT = exState and trT = exTrie and dT = exItemList and eT = "CodecError 0" and objL = exLendingObj and sL = exState and trL = exTrie and dL = exLendingItem and eL = "CodecError 0"]
  with cB cI cT cL g d n unopened show ?thesis
    by (simp add: setError_def) blast
qed

section \<open>Creating a lending item\<close>

lemma unat_BigToHash_SetUint64: "unat (BigToHash_SetUint64 n) = unat n"
proof -
  have "unat n < 2 ^ LENGTH(64)"
    by (rule unsigned_less)
  also have "\<dots> < (2::nat) ^ 256"
    by simp
  finally have "take_bit 256 (unat n) = unat n"
    by (simp only: take_bit_nat_eq_self)
  moreover have "unat (ucast n :: hash) = take_bit LENGTH(256) (unat n)"
    by (rule unsigned_ucast_eq)
  ultimately show ?thesis
    by (simp add: BigToHash_SetUint64_def)
qed

text \<open>C10. \<open>createLendingItem(orderId, order)\<close> returns the object built from its arguments
  and stores it in the live cache and in the dirty set under the key that is
  \<open>order.OrderID\<close> as a 256-bit number, not under \<open>orderId\<close>: a lookup of the derived key
  hits the cache and returns the created object, and when \<open>orderId\<close> differs from the
  derived key, the cache and the dirty set hold under \<open>orderId\<close> what they held before.\<close>
theorem createLendingItem_keyed_by_OrderID:
  "(case createLendingItem db p s orderId order of
      (s', newobj) \<Rightarrow>
        newobj = newLendinItemState (lendingBook s) orderId order (Some (p, MarkLendingItemDirty_m))
        \<and> unat (BigToHash_SetUint64 (OrderID order)) = unat (OrderID order)
        \<and> map_of (lendingItemStates s') =
            (map_of (lendingItemStates s))(BigToHash_SetUint64 (OrderID order) \<mapsto> newobj)
        \<and> lendingItemStatesDirty s' =
            insert (BigToHash_SetUint64 (OrderID order)) (lendingItemStatesDirty s)
        \<and> getLendingItem db p s' (BigToHash_SetUint64 (OrderID order)) = Inr (s', Some newobj)
        \<and> (orderId \<noteq> BigToHash_SetUint64 (OrderID order) \<longrightarrow>
             map_of (lendingItemStates s') orderId = map_of (lendingItemStates s) orderId
             \<and> (orderId \<in> lendingItemStatesDirty s' \<longleftrightarrow> orderId \<in> lendingItemStatesDirty s)))"
proof -
  define key where "key = BigToHash_SetUint64 (OrderID order)"
  define newobj where
    "newobj = newLendinItemState (lendingBook s) orderId order (Some (p, MarkLendingItemDirty_m))"
  define s' where
    "s' = fireOnDirty (s\<lparr>lendingItemStates := AList.update key newobj (lendingItemStates s),
                          lendingItemStatesDirty := insert key (lendingItemStatesDirty s)\<rparr>)
            (lendingBook s)"
  have r: "createLendingItem db p s orderId order = (s', newobj)"
    by (simp add: setError_fields fireOnDirty_fields createLendingItem_def Let_def s'_def newobj_def key_def)
  have c: "map_of (lendingItemStates s') = (map_of (lendingItemStates s))(key \<mapsto> newobj)"
    by (simp add: setError_fields fireOnDirty_fields s'_def update_conv')
  have d: "lendingItemStatesDirty s' = insert key (lendingItemStatesDirty s)"
    by (simp add: setError_fields fireOnDirty_fields s'_def)
  have g: "getLendingItem db p s' key = Inr (s', Some newobj)"
    by (rule getLendingItem_cached) (simp add: setError_fields fireOnDirty_fields c)
  have o: "orderId \<noteq> key \<longrightarrow>
      map_of (lendingItemStates s') orderId = map_of (lendingItemStates s) orderId
      \<and> (orderId \<in> lendingItemStatesDirty s' \<longleftrightarrow> orderId \<in> lendingItemStatesDirty s)"
    by (simp add: setError_fields fireOnDirty_fields c d)
  from c d g o show ?thesis
    unfolding r key_def [symmetric] newobj_def [symmetric]
    by (simp add: setError_fields fireOnDirty_fields unat_BigToHash_SetUint64 key_def)
qed

text \<open>The example: the order has id 5 and is created under \<open>orderId = 7\<close>.\<close>
theorem createLendingItem_keyed_by_OrderID_witness:
  "map_of (lendingItemStates (fst (createLendingItem exDb 0 exState 7 exLendingItem))) 5
     = Some (snd (createLendingItem exDb 0 exState 7 exLendingItem))
   \<and> map_of (lendingItemStates (fst (createLendingItem exDb 0 exState 7 exLendingItem))) 7 = None
   \<and> 7 \<notin> lendingItemStatesDirty (fst (createLendingItem exDb 0 exState 7 exLendingItem))"
proof -
  have k: "BigToHash_SetUint64 (OrderID exLendingItem) = 5"
    by (simp add: BigToHash_SetUint64_def exLendingItem_def)
  have ne: "(7::hash) \<noteq> 5" by simp
  have before: "map_of (lendingItemStates exState) 7 = None" "7 \<notin> lendingItemStatesDirty exState"
    by (simp_all add: exState_def)
  from createLendingItem_keyed_by_OrderID [where db = exDb and p = 0 and s = exState and orderId = 7
      and order = exLendingItem] k ne before
  show ?thesis
    by (cases "createLendingItem exDb 0 exState 7 exLendingItem") simp
qed

section \<open>The dirty flush and the commits\<close>

lemma forEach_frame:
  assumes "\<And>x s s'. body x s = Inr s' \<Longrightarrow> f s' = f s"
    and "forEach body xs s = Inr s'"
  shows "f s' = f s"
  using assms(2)
proof (induction xs arbitrary: s)
  case Nil
  then show ?case by simp
next
  case (Cons x xs)
  then obtain s1 where b: "body x s = Inr s1" and r: "forEach body xs s1 = Inr s'"
    by (auto split: sum.splits)
  from Cons.IH [OF r] assms(1) [OF b] show ?case by simp
qed

lemma updateLendingTimeTrie_body_frame:
  "updateLendingTimeTrie_body db x s = Inr s' \<Longrightarrow> data s' = data s \<and> effects s' = effects s"
  by (auto simp: setError_fields fireOnDirty_fields updateLendingTimeTrie_body_def Let_def split: prod.splits if_splits option.splits)

lemma updateInvestingTrie_body_frame:
  "updateInvestingTrie_body db x s = Inr s' \<Longrightarrow> data s' = data s \<and> effects s' = effects s"
  by (auto simp: setError_fields fireOnDirty_fields updateInvestingTrie_body_def Let_def split: prod.splits if_splits option.splits)

lemma updateBorrowingTrie_body_frame:
  "updateBorrowingTrie_body db x s = Inr s' \<Longrightarrow> data s' = data s \<and> effects s' = effects s"
  by (auto simp: setError_fields fireOnDirty_fields updateBorrowingTrie_body_def Let_def split: prod.splits if_splits option.splits)

lemma updateLiquidationTimeTrie_body_frame:
  "updateLiquidationTimeTrie_body db x s = Inr s' \<Longrightarrow> data s' = data s \<and> effects s' = effects s"
  by (auto simp: setError_fields fireOnDirty_fields updateLiquidationTimeTrie_body_def Let_def split: prod.splits if_splits option.splits)

lemma updateLendingTimeTrie_frame:
  assumes "updateLendingTimeTrie db s = Inr s'"
  shows "data s' = data s \<and> effects s' = effects s"
proof -
  obtain tr e where g: "getLendingItemTrie db s = (s\<lparr>dbErr := e, lendingTrie := Some tr\<rparr>, Some tr)"
    using getLendingItemTrie_result by blast
  with assms have f: "forEach (updateLendingTimeTrie_body db) (lendingItemStates s)
      (s\<lparr>dbErr := e, lendingTrie := Some tr\<rparr>) = Inr s'"
    by (simp add: updateLendingTimeTrie_def)
  have "data s' = data (s\<lparr>dbErr := e, lendingTrie := Some tr\<rparr>)"
    by (rule forEach_frame [OF _ f]) (simp add: updateLendingTimeTrie_body_frame)
  moreover have "effects s' = effects (s\<lparr>dbErr := e, lendingTrie := Some tr\<rparr>)"
    by (rule forEach_frame [OF _ f]) (simp add: updateLendingTimeTrie_body_frame)
  ultimately show ?thesis by simp
qed

lemma CommitLendingItemTrie_fails_closed:
  assumes "updateLendingTimeTrie db s = Inr s1" and "dbErr s1 = Some e"
  shows "CommitLendingItemTrie db s = Inr (s1, Some e) \<and> effects s1 = effects s
           \<and> LendingItemRoot (data s1) = LendingItemRoot (data s)"
  using assms updateLendingTimeTrie_frame [OF assms(1)] by (simp add: CommitLendingItemTrie_def)

lemma updateInvestingTrie_frame:
  assumes "updateInvestingTrie db s = Inr s'"
  shows "data s' = data s \<and> effects s' = effects s"
proof -
  obtain tr e where g: "getInvestingTrie db s = (s\<lparr>dbErr := e, investingTrie := Some tr\<rparr>, Some tr)"
    using getInvestingTrie_result by blast
  with assms have f: "forEach (updateInvestingTrie_body db) (investingStates s)
      (s\<lparr>dbErr := e, investingTrie := Some tr\<rparr>) = Inr s'"
    by (simp add: updateInvestingTrie_def)
  have "data s' = data (s\<lparr>dbErr := e, investingTrie := Some tr\<rparr>)"
    by (rule forEach_frame [OF _ f]) (simp add: updateInvestingTrie_body_frame)
  moreover have "effects s' = effects (s\<lparr>dbErr := e, investingTrie := Some tr\<rparr>)"
    by (rule forEach_frame [OF _ f]) (simp add: updateInvestingTrie_body_frame)
  ultimately show ?thesis by simp
qed

lemma CommitInvestingTrie_fails_closed:
  assumes "updateInvestingTrie db s = Inr s1" and "dbErr s1 = Some e"
  shows "CommitInvestingTrie db s = Inr (s1, Some e) \<and> effects s1 = effects s
           \<and> InvestingRoot (data s1) = InvestingRoot (data s)"
  using assms updateInvestingTrie_frame [OF assms(1)] by (simp add: CommitInvestingTrie_def)

lemma updateBorrowingTrie_frame:
  assumes "updateBorrowingTrie db s = Inr s'"
  shows "data s' = data s \<and> effects s' = effects s"
proof -
  obtain tr e where g: "getBorrowingTrie db s = (s\<lparr>dbErr := e, borrowingTrie := Some tr\<rparr>, Some tr)"
    using getBorrowingTrie_result by blast
  with assms have f: "forEach (updateBorrowingTrie_body db) (borrowingStates s)
      (s\<lparr>dbErr := e, borrowingTrie := Some tr\<rparr>) = Inr s'"
    by (simp add: updateBorrowingTrie_def)
  have "data s' = data (s\<lparr>dbErr := e, borrowingTrie := Some tr\<rparr>)"
    by (rule forEach_frame [OF _ f]) (simp add: updateBorrowingTrie_body_frame)
  moreover have "effects s' = effects (s\<lparr>dbErr := e, borrowingTrie := Some tr\<rparr>)"
    by (rule forEach_frame [OF _ f]) (simp add: updateBorrowingTrie_body_frame)
  ultimately show ?thesis by simp
qed

lemma CommitBorrowingTrie_fails_closed:
  assumes "updateBorrowingTrie db s = Inr s1" and "dbErr s1 = Some e"
  shows "CommitBorrowingTrie db s = Inr (s1, Some e) \<and> effects s1 = effects s
           \<and> BorrowingRoot (data s1) = BorrowingRoot (data s)"
  using assms updateBorrowingTrie_frame [OF assms(1)] by (simp add: CommitBorrowingTrie_def)

lemma updateLiquidationTimeTrie_frame:
  assumes "updateLiquidationTimeTrie db s = Inr s'"
  shows "data s' = data s \<and> effects s' = effects s"
proof -
  obtain tr e where g: "getLiquidationTimeTrie db s = (s\<lparr>dbErr := e, liquidationTimeTrie := Some tr\<rparr>, Some tr)"
    using getLiquidationTimeTrie_result by blast
  with assms have f: "forEach (updateLiquidationTimeTrie_body db) (liquidationTimeStates s)
      (s\<lparr>dbErr := e, liquidationTimeTrie := Some tr\<rparr>) = Inr s'"
    by (simp add: updateLiquidationTimeTrie_def)
  have "data s' = data (s\<lparr>dbErr := e, liquidationTimeTrie := Some tr\<rparr>)"
    by (rule forEach_frame [OF _ f]) (simp add: updateLiquidationTimeTrie_body_frame)
  moreover have "effects s' = effects (s\<lparr>dbErr := e, liquidationTimeTrie := Some tr\<rparr>)"
    by (rule forEach_frame [OF _ f]) (simp add: updateLiquidationTimeTrie_body_frame)
  ultimately show ?thesis by simp
qed

lemma CommitLiquidationTimeTrie_fails_closed:
  assumes "updateLiquidationTimeTrie db s = Inr s1" and "dbErr s1 = Some e"
  shows "CommitLiquidationTimeTrie db s = Inr (s1, Some e) \<and> effects s1 = effects s
           \<and> LiquidationTimeRoot (data s1) = LiquidationTimeRoot (data s)"
  using assms updateLiquidationTimeTrie_frame [OF assms(1)] by (simp add: CommitLiquidationTimeTrie_def)

lemma dbErr_foldl_setError:
  "dbErr (foldl setError s errs) =
     (case dbErr s of
        Some e \<Rightarrow> Some e
      | None \<Rightarrow> (case filter (\<lambda>x. x \<noteq> None) errs of [] \<Rightarrow> None | x # xs \<Rightarrow> x))"
proof (induction errs arbitrary: s)
  case Nil
  then show ?case by (simp split: option.splits)
next
  case (Cons a errs)
  then show ?case by (cases a; cases "dbErr s") (simp_all add: setError_def)
qed

text \<open>C3. For each of the four commits: when the dirty flush ends with an error memoized in
  \<open>dbErr\<close>, the commit returns that error, the trie's \<open>Commit\<close> is not called (the flush
  and the commit together add nothing to the calls the object has made) and the root field
  keeps its value. Over any sequence of calls of \<open>setError\<close> the memoized error is the one
  held before, or else the first non-nil error passed.\<close>
theorem commits_fail_closed_on_memoized_error:
  "(updateLendingTimeTrie db s = Inr sL \<and> dbErr sL = Some eL \<longrightarrow>
      CommitLendingItemTrie db s = Inr (sL, Some eL) \<and> effects sL = effects s
      \<and> LendingItemRoot (data sL) = LendingItemRoot (data s))
   \<and> (updateInvestingTrie db s = Inr sI \<and> dbErr sI = Some eI \<longrightarrow>
      CommitInvestingTrie db s = Inr (sI, Some eI) \<and> effects sI = effects s
      \<and> InvestingRoot (data sI) = InvestingRoot (data s))
   \<and> (updateBorrowingTrie db s = Inr sB \<and> dbErr sB = Some eB \<longrightarrow>
      CommitBorrowingTrie db s = Inr (sB, Some eB) \<and> effects sB = effects s
      \<and> BorrowingRoot (data sB) = BorrowingRoot (data s))
   \<and> (updateLiquidationTimeTrie db s = Inr sT \<and> dbErr sT = Some eT \<longrightarrow>
      CommitLiquidationTimeTrie db s = Inr (sT, Some eT) \<and> effects sT = effects s
      \<and> LiquidationTimeRoot (data sT) = LiquidationTimeRoot (data s))
   \<and> dbErr (foldl setError s errs) =
       (case dbErr s of
          Some e \<Rightarrow> Some e
        | None \<Rightarrow> (case filter (\<lambda>x. x \<noteq> None) errs of [] \<Rightarrow> None | x # xs \<Rightarrow> x))"
  apply (intro conjI impI)
  subgoal using CommitLendingItemTrie_fails_closed by blast
  subgoal using CommitLendingItemTrie_fails_closed by blast
  subgoal using CommitLendingItemTrie_fails_closed by blast
  subgoal using CommitInvestingTrie_fails_closed by blast
  subgoal using CommitInvestingTrie_fails_closed by blast
  subgoal using CommitInvestingTrie_fails_closed by blast
  subgoal using CommitBorrowingTrie_fails_closed by blast
  subgoal using CommitBorrowingTrie_fails_closed by blast
  subgoal using CommitBorrowingTrie_fails_closed by blast
  subgoal using CommitLiquidationTimeTrie_fails_closed by blast
  subgoal using CommitLiquidationTimeTrie_fails_closed by blast
  subgoal using CommitLiquidationTimeTrie_fails_closed by blast
  subgoal by (rule dbErr_foldl_setError)
  done

text \<open>The example: every trie refuses writes and key 1 is dirty in every collection, so
  each flush memoizes the refusal and each commit returns it.\<close>
theorem commits_fail_closed_on_memoized_error_witness:
  "CommitLendingItemTrie exDb exFaulty =
     Inr (exFaulty\<lparr>dbErr := Some (TrieFault 7), lendingItemStatesDirty := {}\<rparr>, Some (TrieFault 7))
   \<and> CommitInvestingTrie exDb exFaulty =
     Inr (exFaulty\<lparr>dbErr := Some (TrieFault 7), investingStatesDirty := {}\<rparr>, Some (TrieFault 7))
   \<and> CommitBorrowingTrie exDb exFaulty =
     Inr (exFaulty\<lparr>dbErr := Some (TrieFault 7), borrowingStatesDirty := {}\<rparr>, Some (TrieFault 7))
   \<and> CommitLiquidationTimeTrie exDb exFaulty =
     Inr (exFaulty\<lparr>dbErr := Some (TrieFault 7), liquidationTimestatesDirty := {}\<rparr>,
          Some (TrieFault 7))
   \<and> dbErr (foldl setError exFaulty [None, Some (TrieFault 3), Some (TrieFault 4)])
       = Some (TrieFault 3)"
proof -
  have fL: "updateLendingTimeTrie exDb exFaulty =
      Inr (exFaulty\<lparr>dbErr := Some (TrieFault 7), lendingItemStatesDirty := {}\<rparr>)"
    by (simp add: updateLendingTimeTrie_def getLendingItemTrie_def updateLendingTimeTrie_body_def
        exFaulty_def exState_def exFaultyTrie_def exDb_def exLendingObj_def exLendingItem_def
        newLendinItemState_def TryUpdate_def TryDelete_def setError_def bytesOrNil_def)
  have fI: "updateInvestingTrie exDb exFaulty =
      Inr (exFaulty\<lparr>dbErr := Some (TrieFault 7), investingStatesDirty := {}\<rparr>)"
    by (simp add: updateInvestingTrie_def getInvestingTrie_def updateInvestingTrie_body_def
        exFaulty_def exState_def exFaultyTrie_def exDb_def exInvestingObj_def exItemList_def
        newItemListState_def TryUpdate_def TryDelete_def setError_def bytesOrNil_def)
  have fB: "updateBorrowingTrie exDb exFaulty =
      Inr (exFaulty\<lparr>dbErr := Some (TrieFault 7), borrowingStatesDirty := {}\<rparr>)"
    by (simp add: updateBorrowingTrie_def getBorrowingTrie_def updateBorrowingTrie_body_def
        exFaulty_def exState_def exFaultyTrie_def exDb_def exBorrowingObj_def exItemList_def
        newItemListState_def TryUpdate_def TryDelete_def setError_def bytesOrNil_def)
  have fT: "updateLiquidationTimeTrie exDb exFaulty =
      Inr (exFaulty\<lparr>dbErr := Some (TrieFault 7), liquidationTimestatesDirty := {}\<rparr>)"
    by (simp add: updateLiquidationTimeTrie_def getLiquidationTimeTrie_def
        updateLiquidationTimeTrie_body_def
        exFaulty_def exState_def exFaultyTrie_def exDb_def exLiquidationObj_def exItemList_def
        newLiquidationTimeState_def TryUpdate_def TryDelete_def setError_def bytesOrNil_def)
  have n: "dbErr exFaulty = None"
    by (simp add: exFaulty_def exState_def)
  from commits_fail_closed_on_memoized_error [where db = exDb and s = exFaulty
      and sL = "exFaulty\<lparr>dbErr := Some (TrieFault 7), lendingItemStatesDirty := {}\<rparr>"
      and sI = "exFaulty\<lparr>dbErr := Some (TrieFault 7), investingStatesDirty := {}\<rparr>"
      and sB = "exFaulty\<lparr>dbErr := Some (TrieFault 7), borrowingStatesDirty := {}\<rparr>"
      and sT = "exFaulty\<lparr>dbErr := Some (TrieFault 7), liquidationTimestatesDirty := {}\<rparr>"
      and eL = "TrieFault 7" and eI = "TrieFault 7" and eB = "TrieFault 7" and eT = "TrieFault 7"
      and errs = "[None, Some (TrieFault 3), Some (TrieFault 4)]"]
    fL fI fB fT n
  show ?thesis by simp
qed

section \<open>Writes to a trie\<close>

lemma TryDelete_leaves:
  "map_of (leaves (fst (TryDelete t k))) =
     (if keyFault t k = None then (map_of (leaves t))(k := None) else map_of (leaves t))"
  by (simp add: TryDelete_def delete_conv' split: option.splits)

lemma TryUpdate_then_TryGet:
  "keyFault t k = None \<Longrightarrow> TryGet (fst (TryUpdate t k v)) k = (v, None)"
  by (simp add: TryUpdate_def TryGet_def update_conv')

section \<open>Removing an order list\<close>

lemma removeInvestingOrderList_frame:
  assumes "investingTrie s = Some tr"
  shows "\<exists>s'. removeInvestingOrderList db s (Some ol) = Inr s'
           \<and> s'\<lparr>investingTrie := investingTrie s, dbErr := dbErr s\<rparr> = s
           \<and> investingTrie s' = Some (fst (TryDelete tr (hashBytes (price ol))))
           \<and> dbErr s' = (case dbErr s of Some e \<Rightarrow> Some e
                          | None \<Rightarrow> snd (TryDelete tr (hashBytes (price ol))))"
  using assms
  by (cases "TryDelete tr (hashBytes (price ol))")
     (auto simp: removeInvestingOrderList_def setError_def split: option.splits)

lemma removeBorrowingOrderList_frame:
  assumes "borrowingTrie s = Some tr"
  shows "\<exists>s'. removeBorrowingOrderList db s (Some ol) = Inr s'
           \<and> s'\<lparr>borrowingTrie := borrowingTrie s, dbErr := dbErr s\<rparr> = s
           \<and> borrowingTrie s' = Some (fst (TryDelete tr (hashBytes (price ol))))
           \<and> dbErr s' = (case dbErr s of Some e \<Rightarrow> Some e
                          | None \<Rightarrow> snd (TryDelete tr (hashBytes (price ol))))"
  using assms
  by (cases "TryDelete tr (hashBytes (price ol))")
     (auto simp: removeBorrowingOrderList_def setError_def split: option.splits)

text \<open>C9, as stated, fails: over a trie that refuses the deletion, the call memoizes the
  refusal in \<open>dbErr\<close>, a field of the \<^verbatim>\<open>lendingExchangeState\<close> that was nil before.\<close>
theorem remove_changes_dbErr_counterexample:
  "removeInvestingOrderList exDb exFaulty (Some exInvestingObj)
     = Inr (exFaulty\<lparr>dbErr := Some (TrieFault 7)\<rparr>)
   \<and> dbErr exFaulty = None"
  by (simp add: removeInvestingOrderList_def exFaulty_def exState_def exFaultyTrie_def
      TryDelete_def setError_def)

text \<open>C9, amended. With the trie open, \<open>removeInvestingOrderList\<close> and
  \<open>removeBorrowingOrderList\<close> return normally; the only fields of the receiver that can
  differ afterwards are that trie and \<open>dbErr\<close>, so the live caches, the dirty sets, the
  root record, the other tries and the callback are as before. The trie has lost at most
  the leaf under the list's price (exactly that leaf when the deletion succeeds), and
  \<open>dbErr\<close> keeps an error it held, or else holds the error of the deletion, if any.\<close>
theorem remove_order_list_frame:
  "(investingTrie s = Some trI \<longrightarrow>
      (\<exists>s'. removeInvestingOrderList db s (Some ol) = Inr s'
         \<and> s'\<lparr>investingTrie := investingTrie s, dbErr := dbErr s\<rparr> = s
         \<and> investingTrie s' = Some (fst (TryDelete trI (hashBytes (price ol))))
         \<and> dbErr s' = (case dbErr s of Some e \<Rightarrow> Some e
                        | None \<Rightarrow> snd (TryDelete trI (hashBytes (price ol))))))
   \<and> (borrowingTrie s = Some trB \<longrightarrow>
      (\<exists>s'. removeBorrowingOrderList db s (Some ol) = Inr s'
         \<and> s'\<lparr>borrowingTrie := borrowingTrie s, dbErr := dbErr s\<rparr> = s
         \<and> borrowingTrie s' = Some (fst (TryDelete trB (hashBytes (price ol))))
         \<and> dbErr s' = (case dbErr s of Some e \<Rightarrow> Some e
                        | None \<Rightarrow> snd (TryDelete trB (hashBytes (price ol))))))
   \<and> map_of (leaves (fst (TryDelete t k))) =
       (if keyFault t k = None then (map_of (leaves t))(k := None) else map_of (leaves t))"
  apply (intro conjI impI)
  subgoal by (erule removeInvestingOrderList_frame)
  subgoal by (erule removeBorrowingOrderList_frame)
  subgoal by (rule TryDelete_leaves)
  done

text \<open>The example: the list priced 2 is removed from the trie that holds leaves 2 and 3.\<close>
theorem remove_order_list_frame_witness:
  "(\<exists>s'. removeInvestingOrderList exDb exState (Some (exInvestingObj\<lparr>price := 2\<rparr>)) = Inr s'
       \<and> s'\<lparr>investingTrie := investingTrie exState, dbErr := dbErr exState\<rparr> = exState
       \<and> investingTrie s' = Some (exTrie\<lparr>leaves := [(hashBytes 3, [9])]\<rparr>)
       \<and> dbErr s' = None)
   \<and> (\<exists>s'. removeBorrowingOrderList exDb exState (Some (exBorrowingObj\<lparr>price := 2\<rparr>)) = Inr s'
       \<and> s'\<lparr>borrowingTrie := borrowingTrie exState, dbErr := dbErr exState\<rparr> = exState
       \<and> borrowingTrie s' = Some (exTrie\<lparr>leaves := [(hashBytes 3, [9])]\<rparr>)
       \<and> dbErr s' = None)"
proof -
  have t: "investingTrie exState = Some exTrie" "borrowingTrie exState = Some exTrie"
    and n: "dbErr exState = None"
    by (simp_all add: exState_def)
  have d: "TryDelete exTrie (hashBytes 2) = (exTrie\<lparr>leaves := [(hashBytes 3, [9])]\<rparr>, None)"
    by (simp add: TryDelete_def exTrie_def AList.delete_eq hashBytes_inj)
  from remove_order_list_frame [where s = exState and db = exDb and trI = exTrie and trB = exTrie
      and ol = "exInvestingObj\<lparr>price := 2\<rparr>"]
  have i: "\<exists>s'. removeInvestingOrderList exDb exState (Some (exInvestingObj\<lparr>price := 2\<rparr>)) = Inr s'
         \<and> s'\<lparr>investingTrie := investingTrie exState, dbErr := dbErr exState\<rparr> = exState
         \<and> investingTrie s' = Some (exTrie\<lparr>leaves := [(hashBytes 3, [9])]\<rparr>)
         \<and> dbErr s' = None"
    using t n d by simp
  from remove_order_list_frame [where s = exState and db = exDb and trI = exTrie and trB = exTrie
      and ol = "exBorrowingObj\<lparr>price := 2\<rparr>"]
  have b: "\<exists>s'. removeBorrowingOrderList exDb exState (Some (exBorrowingObj\<lparr>price := 2\<rparr>)) = Inr s'
         \<and> s'\<lparr>borrowingTrie := borrowingTrie exState, dbErr := dbErr exState\<rparr> = exState
         \<and> borrowingTrie s' = Some (exTrie\<lparr>leaves := [(hashBytes 3, [9])]\<rparr>)
         \<and> dbErr s' = None"
    using t n d by simp
  from i b show ?thesis by (rule conjI)
qed

section \<open>The four create operations\<close>

lemma createInvestingOrderList_writes:
  assumes "investingTrie s = Some tr"
    and "EncodeItemListState db (newItemListState INVESTING (lendingBook s) pr itemList_zero
           (Some (p, MarkInvestingDirty_m))) = Inr enc"
  shows "\<exists>s'. createInvestingOrderList db p s pr =
             Inr (s', newItemListState INVESTING (lendingBook s) pr itemList_zero
                        (Some (p, MarkInvestingDirty_m)))
           \<and> map_of (investingStates s') =
               (map_of (investingStates s))(pr \<mapsto> newItemListState INVESTING (lendingBook s) pr
                  itemList_zero (Some (p, MarkInvestingDirty_m)))
           \<and> investingStatesDirty s' = insert pr (investingStatesDirty s)
           \<and> investingTrie s' = Some (fst (TryUpdate tr (hashBytes pr) enc))"
  using assms
  by (cases "TryUpdate tr (hashBytes pr) enc")
     (simp add: setError_fields fireOnDirty_fields createInvestingOrderList_def Let_def update_conv')

lemma createInvestingOrderList_panics:
  assumes "EncodeItemListState db (newItemListState INVESTING (lendingBook s) pr itemList_zero
           (Some (p, MarkInvestingDirty_m))) = Inl err"
  shows "createInvestingOrderList db p s pr = Inl (CantEncodeOrderList pr err)"
  using assms by (simp add: createInvestingOrderList_def Let_def)

lemma createBorrowingOrderList_writes:
  assumes "borrowingTrie s = Some tr"
    and "EncodeItemListState db (newItemListState BORROWING (lendingBook s) pr itemList_zero
           (Some (p, MarkBorrowingDirty_m))) = Inr enc"
  shows "\<exists>s'. createBorrowingOrderList db p s pr =
             Inr (s', newItemListState BORROWING (lendingBook s) pr itemList_zero
                        (Some (p, MarkBorrowingDirty_m)))
           \<and> map_of (borrowingStates s') =
               (map_of (borrowingStates s))(pr \<mapsto> newItemListState BORROWING (lendingBook s) pr
                  itemList_zero (Some (p, MarkBorrowingDirty_m)))
           \<and> borrowingStatesDirty s' = insert pr (borrowingStatesDirty s)
           \<and> borrowingTrie s' = Some (fst (TryUpdate tr (hashBytes pr) enc))"
  using assms
  by (cases "TryUpdate tr (hashBytes pr) enc")
     (simp add: setError_fields fireOnDirty_fields createBorrowingOrderList_def Let_def update_conv')

lemma createBorrowingOrderList_panics:
  assumes "EncodeItemListState db (newItemListState BORROWING (lendingBook s) pr itemList_zero
           (Some (p, MarkBorrowingDirty_m))) = Inl err"
  shows "createBorrowingOrderList db p s pr = Inl (CantEncodeOrderList pr err)"
  using assms by (simp add: createBorrowingOrderList_def Let_def)

lemma createLendingItem_no_write:
  "map_of (lendingItemStates (fst (createLendingItem db p s orderId order))) =
     (map_of (lendingItemStates s))(BigToHash_SetUint64 (OrderID order) \<mapsto>
        newLendinItemState (lendingBook s) orderId order (Some (p, MarkLendingItemDirty_m)))
   \<and> lendingItemStatesDirty (fst (createLendingItem db p s orderId order)) =
       insert (BigToHash_SetUint64 (OrderID order)) (lendingItemStatesDirty s)
   \<and> lendingTrie (fst (createLendingItem db p s orderId order)) = lendingTrie s
   \<and> snd (createLendingItem db p s orderId order) =
       newLendinItemState (lendingBook s) orderId order (Some (p, MarkLendingItemDirty_m))"
  by (simp add: setError_fields fireOnDirty_fields createLendingItem_def Let_def update_conv')

lemma createLiquidationTime_no_write:
  "map_of (liquidationTimeStates (fst (createLiquidationTime db p s time))) =
     (map_of (liquidationTimeStates s))(time \<mapsto> snd (createLiquidationTime db p s time))
   \<and> lt_data (snd (createLiquidationTime db p s time)) = itemList_zero
   \<and> liquidationTimeTrie (fst (createLiquidationTime db p s time)) = liquidationTimeTrie s"
  by (simp add: createLiquidationTime_def Let_def update_conv' newLiquidationTimeState_def)

text \<open>C4, as stated, fails: \<open>createLendingItem\<close> and \<open>createLiquidationTime\<close> write
  nothing into a trie. In the example the lending-item trie is the same before and after
  and holds no bytes under the key of the created item.\<close>
theorem create_without_trie_write_counterexample:
  "lendingTrie (fst (createLendingItem exDb 0 exState 7 exLendingItem)) = Some exTrie
   \<and> lendingTrie exState = Some exTrie
   \<and> TryGet exTrie (hashBytes (BigToHash_SetUint64 (OrderID exLendingItem))) = ([], None)
   \<and> liquidationTimeTrie (fst (createLiquidationTime exDb 0 exState 7)) = Some exTrie
   \<and> liquidationTimeTrie exState = Some exTrie
   \<and> TryGet exTrie (hashBytes 7) = ([], None)"
  by (simp add: setError_fields fireOnDirty_fields createLendingItem_def createLiquidationTime_def Let_def exState_def exTrie_def
      TryGet_def hashBytes_inj BigToHash_SetUint64_def exLendingItem_def)

text \<open>C4, amended. With the collection's trie open and the new object encodable,
  \<open>createInvestingOrderList\<close> and \<open>createBorrowingOrderList\<close> return the new, empty order
  list bound to the receiver, having put it in that collection's live cache and dirty set
  under the price and handed its encoding to that collection's trie under the price (a
  trie that accepts the write then holds these bytes there); when the encoding fails they
  panic. \<open>createLendingItem\<close> puts the supplied order in the lending-item cache and dirty
  set under the key derived from its order id, and \<open>createLiquidationTime\<close> puts a new,
  empty list in the liquidation-time cache under the time; neither writes to its trie.\<close>
theorem create_operations_cache_and_write:
  "(investingTrie s = Some trI
      \<and> EncodeItemListState db (newItemListState INVESTING (lendingBook s) pr itemList_zero
           (Some (p, MarkInvestingDirty_m))) = Inr encI \<longrightarrow>
      (\<exists>s'. createInvestingOrderList db p s pr =
             Inr (s', newItemListState INVESTING (lendingBook s) pr itemList_zero
                        (Some (p, MarkInvestingDirty_m)))
         \<and> map_of (investingStates s') =
             (map_of (investingStates s))(pr \<mapsto> newItemListState INVESTING (lendingBook s) pr
                itemList_zero (Some (p, MarkInvestingDirty_m)))
         \<and> investingStatesDirty s' = insert pr (investingStatesDirty s)
         \<and> investingTrie s' = Some (fst (TryUpdate trI (hashBytes pr) encI))))
   \<and> (EncodeItemListState db (newItemListState INVESTING (lendingBook s) pf itemList_zero
           (Some (p, MarkInvestingDirty_m))) = Inl errI \<longrightarrow>
      createInvestingOrderList db p s pf = Inl (CantEncodeOrderList pf errI))
   \<and> (borrowingTrie s = Some trB
      \<and> EncodeItemListState db (newItemListState BORROWING (lendingBook s) pr itemList_zero
           (Some (p, MarkBorrowingDirty_m))) = Inr encB \<longrightarrow>
      (\<exists>s'. createBorrowingOrderList db p s pr =
             Inr (s', newItemListState BORROWING (lendingBook s) pr itemList_zero
                        (Some (p, MarkBorrowingDirty_m)))
         \<and> map_of (borrowingStates s') =
             (map_of (borrowingStates s))(pr \<mapsto> newItemListState BORROWING (lendingBook s) pr
                itemList_zero (Some (p, MarkBorrowingDirty_m)))
         \<and> borrowingStatesDirty s' = insert pr (borrowingStatesDirty s)
         \<and> borrowingTrie s' = Some (fst (TryUpdate trB (hashBytes pr) encB))))
   \<and> (EncodeItemListState db (newItemListState BORROWING (lendingBook s) pf itemList_zero
           (Some (p, MarkBorrowingDirty_m))) = Inl errB \<longrightarrow>
      createBorrowingOrderList db p s pf = Inl (CantEncodeOrderList pf errB))
   \<and> (keyFault t k = None \<longrightarrow> TryGet (fst (TryUpdate t k v)) k = (v, None))
   \<and> (map_of (lendingItemStates (fst (createLendingItem db p s orderId order))) =
        (map_of (lendingItemStates s))(BigToHash_SetUint64 (OrderID order) \<mapsto>
           newLendinItemState (lendingBook s) orderId order (Some (p, MarkLendingItemDirty_m)))
      \<and> lendingItemStatesDirty (fst (createLendingItem db p s orderId order)) =
          insert (BigToHash_SetUint64 (OrderID order)) (lendingItemStatesDirty s)
      \<and> lendingTrie (fst (createLendingItem db p s orderId order)) = lendingTrie s
      \<and> snd (createLendingItem db p s orderId order) =
          newLendinItemState (lendingBook s) orderId order (Some (p, MarkLendingItemDirty_m)))
   \<and> (map_of (liquidationTimeStates (fst (createLiquidationTime db p s time))) =
        (map_of (liquidationTimeStates s))(time \<mapsto> snd (createLiquidationTime db p s time))
      \<and> lt_data (snd (createLiquidationTime db p s time)) = itemList_zero
      \<and> liquidationTimeTrie (fst (createLiquidationTime db p s time)) = liquidationTimeTrie s)"
  apply (intro conjI impI)
  subgoal by (elim conjE) (rule createInvestingOrderList_writes; assumption)
  subgoal by (erule createInvestingOrderList_panics)
  subgoal by (elim conjE) (rule createBorrowingOrderList_writes; assumption)
  subgoal by (erule createBorrowingOrderList_panics)
  subgoal by (erule TryUpdate_then_TryGet)
  subgoal using createLendingItem_no_write by blast
  subgoal using createLendingItem_no_write by blast
  subgoal using createLendingItem_no_write by blast
  subgoal using createLendingItem_no_write by blast
  subgoal using createLiquidationTime_no_write by blast
  subgoal using createLiquidationTime_no_write by blast
  subgoal using createLiquidationTime_no_write by blast
  done

text \<open>The example: a list priced 4 is created in each book and its encoding \<open>[0]\<close> lands in
  the trie; the encoder rejects a list priced 9 and the creation panics.\<close>
theorem create_operations_cache_and_write_witness:
  "(\<exists>s'. createInvestingOrderList exDb 0 exState 4 =
           Inr (s', newItemListState INVESTING 10 4 itemList_zero (Some (0, MarkInvestingDirty_m)))
       \<and> investingStatesDirty s' = {4}
       \<and> investingTrie s' =
           Some (exTrie\<lparr>leaves := [(hashBytes 2, [1]), (hashBytes 3, [9]), (hashBytes 4, [0])]\<rparr>))
   \<and> createInvestingOrderList exDb 0 exState 9 = Inl (CantEncodeOrderList 9 (CodecError 1))
   \<and> (\<exists>s'. createBorrowingOrderList exDb 0 exState 4 =
           Inr (s', newItemListState BORROWING 10 4 itemList_zero (Some (0, MarkBorrowingDirty_m)))
       \<and> borrowingStatesDirty s' = {4}
       \<and> borrowingTrie s' =
           Some (exTrie\<lparr>leaves := [(hashBytes 2, [1]), (hashBytes 3, [9]), (hashBytes 4, [0])]\<rparr>))
   \<and> createBorrowingOrderList exDb 0 exState 9 = Inl (CantEncodeOrderList 9 (CodecError 1))
   \<and> TryGet (fst (TryUpdate exTrie (hashBytes 4) [0])) (hashBytes 4) = ([0], None)"
proof -
  have t: "investingTrie exState = Some exTrie" "borrowingTrie exState = Some exTrie"
      "lendingBook exState = 10" "investingStatesDirty exState = {}"
      "borrowingStatesDirty exState = {}"
    by (simp_all add: exState_def)
  have e: "EncodeItemListState exDb (newItemListState INVESTING 10 4 itemList_zero
             (Some (0, MarkInvestingDirty_m))) = Inr [0]"
      "EncodeItemListState exDb (newItemListState BORROWING 10 4 itemList_zero
             (Some (0, MarkBorrowingDirty_m))) = Inr [0]"
      "EncodeItemListState exDb (newItemListState INVESTING 10 9 itemList_zero
             (Some (0, MarkInvestingDirty_m))) = Inl (CodecError 1)"
      "EncodeItemListState exDb (newItemListState BORROWING 10 9 itemList_zero
             (Some (0, MarkBorrowingDirty_m))) = Inl (CodecError 1)"
    by (simp_all add: exDb_def newItemListState_def itemList_zero_def)
  have u: "fst (TryUpdate exTrie (hashBytes 4) [0]) =
      exTrie\<lparr>leaves := [(hashBytes 2, [1]), (hashBytes 3, [9]), (hashBytes 4, [0])]\<rparr>"
    and f: "keyFault exTrie (hashBytes 4) = None"
    by (simp_all add: TryUpdate_def exTrie_def hashBytes_inj)
  from create_operations_cache_and_write [where db = exDb and p = 0 and s = exState and pr = 4
      and pf = 9 and trI = exTrie and trB = exTrie and encI = "[0]" and encB = "[0]"
      and errI = "CodecError 1" and errB = "CodecError 1" and t = exTrie
      and k = "hashBytes 4" and v = "[0]"]
    t e f
  show ?thesis
    by (simp add: u) blast
qed

section \<open>The best rates\<close>

lemma leftmost_Some:
  "leftmost ks = Some m \<Longrightarrow> m \<in> set ks \<and> (\<forall>k \<in> set ks. m \<le> k)"
proof (induction ks arbitrary: m)
  case Nil
  then show ?case by simp
next
  case (Cons a ks)
  show ?case
  proof (cases "leftmost ks")
    case None
    then have "ks = []" by (cases ks) (auto split: option.splits)
    with Cons.prems show ?thesis by simp
  next
    case (Some m')
    from Cons.IH [OF Some] Cons.prems Some show ?thesis
      by (auto split: if_splits)
  qed
qed

lemma rightmost_Some:
  "rightmost ks = Some m \<Longrightarrow> m \<in> set ks \<and> (\<forall>k \<in> set ks. k \<le> m)"
proof (induction ks arbitrary: m)
  case Nil
  then show ?case by simp
next
  case (Cons a ks)
  show ?case
  proof (cases "rightmost ks")
    case None
    then have "ks = []" by (cases ks) (auto split: option.splits)
    with Cons.prems show ?thesis by simp
  next
    case (Some m')
    from Cons.IH [OF Some] Cons.prems Some show ?thesis
      by (auto split: if_splits)
  qed
qed

lemma leftmost_least:
  assumes "k \<in> set ks" and "\<forall>k' \<in> set ks. k \<le> k'"
  shows "leftmost ks = Some k"
proof (cases "leftmost ks")
  case None
  with assms(1) show ?thesis by (cases ks) (auto split: option.splits)
next
  case (Some m)
  from leftmost_Some [OF Some] assms have "m \<le> k" "k \<le> m" by auto
  with Some show ?thesis by simp
qed

lemma rightmost_greatest:
  assumes "k \<in> set ks" and "\<forall>k' \<in> set ks. k' \<le> k"
  shows "rightmost ks = Some k"
proof (cases "rightmost ks")
  case None
  with assms(1) show ?thesis by (cases ks) (auto split: option.splits)
next
  case (Some m)
  from rightmost_Some [OF Some] assms have "m \<le> k" "k \<le> m" by auto
  with Some show ?thesis by simp
qed

lemma map_of_Some_fst: "map_of xs k = Some v \<Longrightarrow> k \<in> set (map fst xs)"
  by (metis map_of_eq_None_iff option.distinct(1) set_map)

lemma getBestInvestingRate_none:
  assumes "getInvestingTrie db s = (s1, Some tr)" and "trieFault tr \<noteq> None \<or> leaves tr = []"
  shows "\<exists>s'. getBestInvestingRate db s = Inr (s', EmptyHash)"
  using assms
  by (auto simp: getBestInvestingRate_def TryGetBestLeftKeyAndValue_def split: option.splits)

lemma getBestBorrowingRate_none:
  assumes "getBorrowingTrie db s = (s1, Some tr)" and "trieFault tr \<noteq> None \<or> leaves tr = []"
  shows "\<exists>s'. getBestBorrowingRate db s = Inr (s', EmptyHash)"
  using assms
  by (auto simp: getBestBorrowingRate_def TryGetBestRightKeyAndValue_def split: option.splits)

lemma getBestInvestingRate_least:
  assumes "getInvestingTrie db s = (s1, Some tr)" and "trieFault tr = None"
    and "map_of (leaves tr) (hashBytes r) = Some v"
    and "\<forall>k \<in> fst ` set (leaves tr). hashBytes r \<le> k"
  shows "\<exists>s'. getBestInvestingRate db s =
           Inr (s', if v \<noteq> [] \<and> \<not> isl (DecodeItemList db v) then r else EmptyHash)"
proof -
  have "leftmost (map fst (leaves tr)) = Some (hashBytes r)"
    using assms(3,4) by (intro leftmost_least) (auto dest: map_of_Some_fst)
  then have "TryGetBestLeftKeyAndValue tr = (hashBytes r, v, None)"
    using assms(2,3) by (simp add: TryGetBestLeftKeyAndValue_def)
  moreover have "length (hashBytes r) \<noteq> 0"
    by (simp add: length_hashBytes)
  ultimately show ?thesis
    using assms(1)
    by (cases "DecodeItemList db v")
       (auto simp: getBestInvestingRate_def BytesToHash_hashBytes)
qed

lemma getBestBorrowingRate_greatest:
  assumes "getBorrowingTrie db s = (s1, Some tr)" and "trieFault tr = None"
    and "map_of (leaves tr) (hashBytes r) = Some v"
    and "\<forall>k \<in> fst ` set (leaves tr). k \<le> hashBytes r"
  shows "\<exists>s'. getBestBorrowingRate db s =
           Inr (s', if v \<noteq> [] \<and> \<not> isl (DecodeItemList db v) then r else EmptyHash)"
proof -
  have "rightmost (map fst (leaves tr)) = Some (hashBytes r)"
    using assms(3,4) by (intro rightmost_greatest) (auto dest: map_of_Some_fst)
  then have "TryGetBestRightKeyAndValue tr = (hashBytes r, v, None)"
    using assms(2,3) by (simp add: TryGetBestRightKeyAndValue_def)
  moreover have "length (hashBytes r) \<noteq> 0"
    by (simp add: length_hashBytes)
  ultimately show ?thesis
    using assms(1)
    by (cases "DecodeItemList db v")
       (auto simp: getBestBorrowingRate_def BytesToHash_hashBytes)
qed

lemma exTrie_order:
  "hashBytes 2 \<le> hashBytes 3" "\<not> hashBytes 3 \<le> hashBytes 2"
  by (simp_all add: hashBytes_def upt_rec)

text \<open>C5, as stated, fails: the largest key of the example borrowing trie is rate 3, whose
  stored bytes do not decode, and \<open>getBestBorrowingRate\<close> answers the empty hash.\<close>
theorem best_rate_undecodable_counterexample:
  "getBestBorrowingRate exDb exState =
     Inr (exState\<lparr>effects := [LogError ''Failed to decode state get best bid trie'']\<rparr>, EmptyHash)
   \<and> borrowingTrie exState = Some exTrie
   \<and> map fst (leaves exTrie) = [hashBytes 2, hashBytes 3]
   \<and> hashBytes 2 \<le> hashBytes 3
   \<and> TryGetBestRightKeyAndValue exTrie = (hashBytes 3, [9], None)
   \<and> BytesToHash (hashBytes 3) \<noteq> EmptyHash"
proof -
  have r: "TryGetBestRightKeyAndValue exTrie = (hashBytes 3, [9], None)"
    by (simp add: TryGetBestRightKeyAndValue_def exTrie_def exTrie_order hashBytes_inj)
  have g: "getBorrowingTrie exDb exState = (exState, Some exTrie)"
    by (simp add: getBorrowingTrie_def exState_def)
  have d: "DecodeItemList exDb [9] = Inl (CodecError 0)"
    by (simp add: exDb_def)
  have e: "effects exState = []"
    by (simp add: exState_def)
  have "getBestBorrowingRate exDb exState =
     Inr (exState\<lparr>effects := [LogError ''Failed to decode state get best bid trie'']\<rparr>, EmptyHash)"
    by (simp add: getBestBorrowingRate_def g r d e length_hashBytes)
  moreover have "borrowingTrie exState = Some exTrie"
    by (simp add: exState_def)
  moreover have "map fst (leaves exTrie) = [hashBytes 2, hashBytes 3]"
    by (simp add: exTrie_def)
  moreover have "BytesToHash (hashBytes 3) \<noteq> EmptyHash"
    by (simp add: BytesToHash_hashBytes EmptyHash_def)
  ultimately show ?thesis
    using r exTrie_order(1) by simp
qed

text \<open>C5, amended. \<open>getBestInvestingRate\<close> and \<open>getBestBorrowingRate\<close> never panic. When
  the extremal query fails or the trie has no leaf they answer the empty hash. When rate
  \<open>r\<close> is the byte-lexicographically smallest key of the investing trie (largest key of
  the borrowing trie), the answer is \<open>r\<close> provided the bytes stored under it are non-empty
  and decode as an item list, and the empty hash otherwise. A rate is recovered from its
  32 big-endian bytes, and the byte-lexicographic order on these keys is the numeric order
  on the rates.\<close>
theorem best_rates_extremal_when_decodable:
  "(getInvestingTrie db s = (sI, Some trI) \<and> (trieFault trI \<noteq> None \<or> leaves trI = []) \<longrightarrow>
      (\<exists>s'. getBestInvestingRate db s = Inr (s', EmptyHash)))
   \<and> (getInvestingTrie db s = (sI, Some trI) \<and> trieFault trI = None
        \<and> map_of (leaves trI) (hashBytes rI) = Some vI
        \<and> (\<forall>k \<in> fst ` set (leaves trI). hashBytes rI \<le> k) \<longrightarrow>
      (\<exists>s'. getBestInvestingRate db s =
         Inr (s', if vI \<noteq> [] \<and> \<not> isl (DecodeItemList db vI) then rI else EmptyHash)))
   \<and> (getBorrowingTrie db s = (sB, Some trB) \<and> (trieFault trB \<noteq> None \<or> leaves trB = []) \<longrightarrow>
      (\<exists>s'. getBestBorrowingRate db s = Inr (s', EmptyHash)))
   \<and> (getBorrowingTrie db s = (sB, Some trB) \<and> trieFault trB = None
        \<and> map_of (leaves trB) (hashBytes rB) = Some vB
        \<and> (\<forall>k \<in> fst ` set (leaves trB). k \<le> hashBytes rB) \<longrightarrow>
      (\<exists>s'. getBestBorrowingRate db s =
         Inr (s', if vB \<noteq> [] \<and> \<not> isl (DecodeItemList db vB) then rB else EmptyHash)))
   \<and> (\<exists>s1 t. getInvestingTrie db s = (s1, Some t))
   \<and> (\<exists>s1 t. getBorrowingTrie db s = (s1, Some t))
   \<and> BytesToHash (hashBytes r) = r
   \<and> (hashBytes a \<le> hashBytes b \<longleftrightarrow> a \<le> b)"
  apply (intro conjI impI)
  subgoal by (elim conjE) (rule getBestInvestingRate_none; assumption)
  subgoal by (elim conjE) (rule getBestInvestingRate_least; assumption)
  subgoal by (elim conjE) (rule getBestBorrowingRate_none; assumption)
  subgoal by (elim conjE) (rule getBestBorrowingRate_greatest; assumption)
  subgoal using getInvestingTrie_result by blast
  subgoal using getBorrowingTrie_result by blast
  subgoal by (rule BytesToHash_hashBytes)
  subgoal by (rule hashBytes_le_iff)
  done

text \<open>The example: over the trie with leaves 2 and 3 the best investing rate is 2, whose
  bytes decode; the best borrowing rate over the trie that holds only leaf 2 is 2; a trie
  whose queries fail gives the empty hash.\<close>
theorem best_rates_extremal_when_decodable_witness:
  "(\<exists>s'. getBestInvestingRate exDb exState = Inr (s', 2))
   \<and> (\<exists>s'. getBestBorrowingRate exDb
              (exState\<lparr>borrowingTrie := Some (exTrie\<lparr>leaves := [(hashBytes 2, [1])]\<rparr>)\<rparr>)
            = Inr (s', 2))
   \<and> (\<exists>s'. getBestInvestingRate exDb
              (exState\<lparr>investingTrie := Some (exTrie\<lparr>trieFault := Some (TrieFault 1)\<rparr>)\<rparr>)
            = Inr (s', EmptyHash))
   \<and> (\<exists>s'. getBestBorrowingRate exDb
              (exState\<lparr>borrowingTrie := Some (exTrie\<lparr>trieFault := Some (TrieFault 1)\<rparr>)\<rparr>)
            = Inr (s', EmptyHash))"
proof -
  let ?sB = "exState\<lparr>borrowingTrie := Some (exTrie\<lparr>leaves := [(hashBytes 2, [1])]\<rparr>)\<rparr>"
  let ?fI = "exState\<lparr>investingTrie := Some (exTrie\<lparr>trieFault := Some (TrieFault 1)\<rparr>)\<rparr>"
  let ?fB = "exState\<lparr>borrowingTrie := Some (exTrie\<lparr>trieFault := Some (TrieFault 1)\<rparr>)\<rparr>"
  have d: "\<not> isl (DecodeItemList exDb [1])"
    by (simp add: exDb_def)
  have gI: "getInvestingTrie exDb exState = (exState, Some exTrie)"
    by (simp add: getInvestingTrie_def exState_def)
  have lI: "trieFault exTrie = None" "map_of (leaves exTrie) (hashBytes 2) = Some [1]"
      "\<forall>k \<in> fst ` set (leaves exTrie). hashBytes 2 \<le> k"
    by (simp_all add: exTrie_def exTrie_order)
  from best_rates_extremal_when_decodable [where db = exDb and s = exState and sI = exState
      and trI = exTrie and rI = 2 and vI = "[1]"] gI lI d
  have a: "\<exists>s'. getBestInvestingRate exDb exState = Inr (s', 2)"
    by simp
  have gB: "getBorrowingTrie exDb ?sB = (?sB, Some (exTrie\<lparr>leaves := [(hashBytes 2, [1])]\<rparr>))"
    by (simp add: getBorrowingTrie_def)
  have lB: "trieFault (exTrie\<lparr>leaves := [(hashBytes 2, [1])]\<rparr>) = None"
      "map_of (leaves (exTrie\<lparr>leaves := [(hashBytes 2, [1])]\<rparr>)) (hashBytes 2) = Some [1]"
      "\<forall>k \<in> fst ` set (leaves (exTrie\<lparr>leaves := [(hashBytes 2, [1])]\<rparr>)). k \<le> hashBytes 2"
    by (simp_all add: exTrie_def)
  from best_rates_extremal_when_decodable [where db = exDb and s = ?sB and sB = ?sB
      and trB = "exTrie\<lparr>leaves := [(hashBytes 2, [1])]\<rparr>" and rB = 2 and vB = "[1]"] gB lB d
  have b: "\<exists>s'. getBestBorrowingRate exDb ?sB = Inr (s', 2)"
    by simp
  have fI: "getInvestingTrie exDb ?fI = (?fI, Some (exTrie\<lparr>trieFault := Some (TrieFault 1)\<rparr>))"
    by (simp add: getInvestingTrie_def)
  from best_rates_extremal_when_decodable [where db = exDb and s = ?fI and sI = ?fI
      and trI = "exTrie\<lparr>trieFault := Some (TrieFault 1)\<rparr>"] fI
  have c: "\<exists>s'. getBestInvestingRate exDb ?fI = Inr (s', EmptyHash)"
    by simp
  have fB: "getBorrowingTrie exDb ?fB = (?fB, Some (exTrie\<lparr>trieFault := Some (TrieFault 1)\<rparr>))"
    by (simp add: getBorrowingTrie_def)
  from best_rates_extremal_when_decodable [where db = exDb and s = ?fB and sB = ?fB
      and trB = "exTrie\<lparr>trieFault := Some (TrieFault 1)\<rparr>"] fB
  have e: "\<exists>s'. getBestBorrowingRate exDb ?fB = Inr (s', EmptyHash)"
    by simp
  from a b c e show ?thesis by (intro conjI)
qed

section \<open>Which dirty set a loaded object marks\<close>

text \<open>C1, evaluated where it fails. The investing getter binds the object it loads to
  \<open>MarkBorrowingDirty\<close>: after the list at rate 2 is loaded and mutated, rate 2 is in the
  borrowing dirty set and not in the investing one, so \<open>updateInvestingRoot\<close> writes no
  leaf (the trie still holds the old bytes \<open>[1]\<close>, the mutated object encodes to \<open>[5]\<close>)
  and the marker stays. The liquidation-time getter binds to \<open>MarkInvestingDirty\<close>: a
  mutation of the list it loads lands in the investing dirty set and not in the
  liquidation-time one.\<close>
theorem getInvestingOrderList_marks_wrong_dirty_set:
  "getInvestingOrderList exDb 0 exState 2 =
     Inr (exState\<lparr>investingStates := [(1, exInvestingObj), (2, exLoadedInvestingObj)]\<rparr>,
          Some exLoadedInvestingObj)
   \<and> il_onDirty exLoadedInvestingObj = Some (0, MarkBorrowingDirty_m)
   \<and> mutateInvesting
        (exHeap (exState\<lparr>investingStates := [(1, exInvestingObj), (2, exLoadedInvestingObj)]\<rparr>))
        0 2 exNewPayload 0 = Some exAfterInvestingMutation
   \<and> investingStatesDirty exAfterInvestingMutation = {}
   \<and> borrowingStatesDirty exAfterInvestingMutation = {2}
   \<and> updateInvestingRoot exDb exAfterInvestingMutation =
       Inr (exAfterInvestingMutation
              \<lparr>data := (data exAfterInvestingMutation)\<lparr>InvestingRoot := Trie_Hash exDb exTrie\<rparr>\<rparr>,
            None)
   \<and> investingTrie exAfterInvestingMutation = Some exTrie
   \<and> TryGet exTrie (hashBytes 2) = ([1], None)
   \<and> EncodeItemListState exDb (exLoadedInvestingObj\<lparr>il_data := exNewPayload, il_onDirty := None\<rparr>)
       = Inr [5]
   \<and> getLiquidationTimeOrderList exDb 0 exState 2 =
       Inr (exState\<lparr>liquidationTimeStates := [(1, exLiquidationObj), (2, exLoadedLiquidationObj)]\<rparr>,
            Some exLoadedLiquidationObj)
   \<and> map_option investingStatesDirty
        (mutateLiquidationTime
           (exHeap (exState\<lparr>liquidationTimeStates :=
                              [(1, exLiquidationObj), (2, exLoadedLiquidationObj)]\<rparr>))
           0 2 exNewPayload 0) = Some {2}
   \<and> map_option liquidationTimestatesDirty
        (mutateLiquidationTime
           (exHeap (exState\<lparr>liquidationTimeStates :=
                              [(1, exLiquidationObj), (2, exLoadedLiquidationObj)]\<rparr>))
           0 2 exNewPayload 0) = Some {}"
proof -
  have g: "TryGet exTrie (hashBytes 2) = ([1], None)"
    by (simp add: TryGet_def exTrie_def)
  have d: "DecodeItemList exDb [1] = Inr exItemList"
    by (simp add: exDb_def)
  have t: "getInvestingTrie exDb exState = (exState, Some exTrie)"
      "getLiquidationTimeTrie exDb exState = (exState, Some exTrie)"
    by (simp_all add: getInvestingTrie_def getLiquidationTimeTrie_def exState_def)
  have c: "map_of (investingStates exState) 2 = None" "map_of (liquidationTimeStates exState) 2 = None"
      "lendingBook exState = 10"
      "investingStates exState = [(1, exInvestingObj)]"
      "liquidationTimeStates exState = [(1, exLiquidationObj)]"
    by (simp_all add: exState_def)
  have 1: "getInvestingOrderList exDb 0 exState 2 =
     Inr (exState\<lparr>investingStates := [(1, exInvestingObj), (2, exLoadedInvestingObj)]\<rparr>,
          Some exLoadedInvestingObj)"
    by (simp add: getInvestingOrderList_def t g d c exLoadedInvestingObj_def Let_def)
  have 2: "il_onDirty exLoadedInvestingObj = Some (0, MarkBorrowingDirty_m)"
    by (simp add: exLoadedInvestingObj_def newItemListState_def)
  have 3: "mutateInvesting
        (exHeap (exState\<lparr>investingStates := [(1, exInvestingObj), (2, exLoadedInvestingObj)]\<rparr>))
        0 2 exNewPayload 0 = Some exAfterInvestingMutation"
    by (simp add: mutateInvesting_def exHeap_def invoke_def callMark_def MarkBorrowingDirty_def
        fireOnDirty_def Hash_def 2 exAfterInvestingMutation_def exState_def
        exLoadedInvestingObj_def newItemListState_def)
  have 4: "investingStatesDirty exAfterInvestingMutation = {}"
      "borrowingStatesDirty exAfterInvestingMutation = {2}"
      "investingTrie exAfterInvestingMutation = Some exTrie"
    by (simp_all add: exAfterInvestingMutation_def exState_def)
  have 5: "updateInvestingRoot exDb exAfterInvestingMutation =
       Inr (exAfterInvestingMutation
              \<lparr>data := (data exAfterInvestingMutation)\<lparr>InvestingRoot := Trie_Hash exDb exTrie\<rparr>\<rparr>,
            None)"
    by (simp add: updateInvestingRoot_def updateInvestingTrie_def getInvestingTrie_def
        updateInvestingTrie_body_def exAfterInvestingMutation_def exState_def)
  have 6: "EncodeItemListState exDb (exLoadedInvestingObj\<lparr>il_data := exNewPayload, il_onDirty := None\<rparr>)
       = Inr [5]"
    by (simp add: exDb_def exLoadedInvestingObj_def newItemListState_def exNewPayload_def)
  have 7: "getLiquidationTimeOrderList exDb 0 exState 2 =
       Inr (exState\<lparr>liquidationTimeStates := [(1, exLiquidationObj), (2, exLoadedLiquidationObj)]\<rparr>,
            Some exLoadedLiquidationObj)"
    by (simp add: getLiquidationTimeOrderList_def t g d c exLoadedLiquidationObj_def Let_def)
  have 8: "map_option investingStatesDirty
        (mutateLiquidationTime
           (exHeap (exState\<lparr>liquidationTimeStates :=
                              [(1, exLiquidationObj), (2, exLoadedLiquidationObj)]\<rparr>))
           0 2 exNewPayload 0) = Some {2}"
     "map_option liquidationTimestatesDirty
        (mutateLiquidationTime
           (exHeap (exState\<lparr>liquidationTimeStates :=
                              [(1, exLiquidationObj), (2, exLoadedLiquidationObj)]\<rparr>))
           0 2 exNewPayload 0) = Some {}"
    by (simp_all add: mutateLiquidationTime_def exHeap_def invoke_def callMark_def
        MarkInvestingDirty_def fireOnDirty_def Hash_def exState_def
        exLoadedLiquidationObj_def newLiquidationTimeState_def)
  from 1 2 3 4 5 6 7 8 g show ?thesis by simp
qed

section \<open>A copy and its original\<close>

text \<open>C2, evaluated where it fails. The original is at address 0, its deep copy at address
  1. The copy's borrowing list under rate 1 is bound to the method value of the original,
  so mutating it in the copy adds rate 1 to the dirty set of the original and fires the
  original's owner callback, while the copy's own dirty set and callback stay as they
  were.\<close>
theorem deepCopy_mutation_marks_original:
  "map_of (borrowingStates (deepCopy 0 exState (Some 2))) 1
     = Some (exBorrowingObj\<lparr>il_onDirty := Some (0, MarkBorrowingDirty_m)\<rparr>)
   \<and> borrowingStatesDirty exState = {}
   \<and> map_option borrowingStatesDirty
        (mutateBorrowing ((exHeap exState)(1 \<mapsto> deepCopy 0 exState (Some 2))) 1 1 exNewPayload 0)
       = Some {1}
   \<and> map_option effects
        (mutateBorrowing ((exHeap exState)(1 \<mapsto> deepCopy 0 exState (Some 2))) 1 1 exNewPayload 0)
       = Some [OnDirty 1 10]
   \<and> map_option borrowingStatesDirty
        (mutateBorrowing ((exHeap exState)(1 \<mapsto> deepCopy 0 exState (Some 2))) 1 1 exNewPayload 1)
       = Some {}
   \<and> map_option onDirty
        (mutateBorrowing ((exHeap exState)(1 \<mapsto> deepCopy 0 exState (Some 2))) 1 1 exNewPayload 1)
       = Some (Some 2)"
  by (simp add: deepCopy_def newStateExchanges_def itemListState_deepCopy_def
      mutateBorrowing_def exHeap_def invoke_def callMark_def MarkBorrowingDirty_def
      fireOnDirty_def Hash_def exState_def exBorrowingObj_def newItemListState_def Let_def)

section \<open>The owner-level callback\<close>

text \<open>C6, evaluated where it fails. \<open>createLiquidationTime\<close> as the first mutating
  operation leaves the owner callback uncalled and in place, also when repeated; a later
  \<open>SetNonce\<close> is what calls it. \<open>createLendingItem\<close> as the first operation does call it.\<close>
theorem createLiquidationTime_skips_onDirty:
  "onDirty exState = Some 1 \<and> effects exState = []
   \<and> onDirty (fst (createLiquidationTime exDb 0 exState 7)) = Some 1
   \<and> effects (fst (createLiquidationTime exDb 0 exState 7)) = []
   \<and> effects (fst (createLiquidationTime exDb 0 (fst (createLiquidationTime exDb 0 exState 7)) 8)) = []
   \<and> effects (SetNonce (fst (createLiquidationTime exDb 0 exState 7)) 3) = [OnDirty 1 10]
   \<and> effects (fst (createLendingItem exDb 0 exState 7 exLendingItem)) = [OnDirty 1 10]"
  by (simp add: createLiquidationTime_def createLendingItem_def SetNonce_def setNonce_def
      fireOnDirty_def Hash_def exState_def Let_def)

section \<open>What a dirty flush does\<close>

lemma forEach_noop:
  "(\<And>x. x \<in> set xs \<Longrightarrow> body x s = Inr s) \<Longrightarrow> forEach body xs s = Inr s"
  by (induction xs) simp_all

lemma TryUpdate_other:
  "b \<noteq> k \<Longrightarrow> map_of (leaves (fst (TryUpdate t k v))) b = map_of (leaves t) b"
  by (simp add: TryUpdate_def update_conv' split: option.splits)

lemma TryDelete_other:
  "b \<noteq> k \<Longrightarrow> map_of (leaves (fst (TryDelete t k))) b = map_of (leaves t) b"
  by (simp add: TryDelete_def delete_conv' split: option.splits)

lemma updateBorrowingTrie_body_clean:
  "k \<notin> borrowingStatesDirty s \<Longrightarrow> updateBorrowingTrie_body db (k, obj) s = Inr s"
  by (simp add: updateBorrowingTrie_body_def)

lemma updateBorrowingTrie_body_step:
  assumes "updateBorrowingTrie_body db (k, obj) s = Inr s1" and "borrowingTrie s = Some t"
  shows "borrowingStatesDirty s1 = borrowingStatesDirty s - {k}"
    and "k \<in> fst ` set (borrowingStates s) \<Longrightarrow>
           map fst (borrowingStates s1) = map fst (borrowingStates s)"
    and "\<exists>t1. borrowingTrie s1 = Some t1
           \<and> (\<forall>b. (k \<in> borrowingStatesDirty s \<longrightarrow> b \<noteq> hashBytes k) \<longrightarrow>
                  map_of (leaves t1) b = map_of (leaves t) b)"
proof -
  show "borrowingStatesDirty s1 = borrowingStatesDirty s - {k}"
    using assms
    by (auto simp: setError_fields fireOnDirty_fields updateBorrowingTrie_body_def Let_def split: if_splits prod.splits)
  show "map fst (borrowingStates s1) = map fst (borrowingStates s)"
    if "k \<in> fst ` set (borrowingStates s)"
  proof -
    from that have "\<And>v. map fst (AList.update k v (borrowingStates s)) = map fst (borrowingStates s)"
      by (simp add: setError_fields fireOnDirty_fields update_keys)
    with assms show ?thesis
      by (auto simp: setError_fields fireOnDirty_fields updateBorrowingTrie_body_def Let_def split: if_splits prod.splits)
  qed
  show "\<exists>t1. borrowingTrie s1 = Some t1
           \<and> (\<forall>b. (k \<in> borrowingStatesDirty s \<longrightarrow> b \<noteq> hashBytes k) \<longrightarrow>
                  map_of (leaves t1) b = map_of (leaves t) b)"
  proof (cases "k \<in> borrowingStatesDirty s")
    case False
    with assms show ?thesis by (simp add: setError_fields fireOnDirty_fields updateBorrowingTrie_body_def)
  next
    case True
    show ?thesis
    proof (cases "itemListState_empty db obj")
      case e: True
      with True assms have "borrowingTrie s1 = Some (fst (TryDelete t (hashBytes k)))"
        by (auto simp: setError_fields fireOnDirty_fields updateBorrowingTrie_body_def Let_def split: prod.splits)
      with True show ?thesis by (simp add: setError_fields fireOnDirty_fields TryDelete_other)
    next
      case e: False
      with True assms have "borrowingTrie s1 = Some (fst (TryUpdate t (hashBytes k)
          (bytesOrNil (EncodeItemListState db (itemListState_updateRoot db obj)))))"
        by (auto simp: setError_fields fireOnDirty_fields updateBorrowingTrie_body_def Let_def split: prod.splits)
      with True show ?thesis by (simp add: setError_fields fireOnDirty_fields TryUpdate_other)
    qed
  qed
qed

lemma forEach_updateBorrowingTrie_body:
  assumes "forEach (updateBorrowingTrie_body db) xs s = Inr s'"
    and "borrowingTrie s = Some t"
    and "fst ` set xs \<subseteq> fst ` set (borrowingStates s)"
  shows "borrowingStatesDirty s' = borrowingStatesDirty s - fst ` set xs
       \<and> map fst (borrowingStates s') = map fst (borrowingStates s)
       \<and> (\<exists>t'. borrowingTrie s' = Some t'
            \<and> (\<forall>b. b \<notin> hashBytes ` (borrowingStatesDirty s \<inter> fst ` set xs) \<longrightarrow>
                   map_of (leaves t') b = map_of (leaves t) b))"
  using assms
proof (induction xs arbitrary: s t)
  case Nil
  then show ?case by simp
next
  case (Cons x xs)
  obtain k obj where x: "x = (k, obj)" by (cases x)
  from Cons.prems(1) x obtain s1 where
    b: "updateBorrowingTrie_body db (k, obj) s = Inr s1"
    and r: "forEach (updateBorrowingTrie_body db) xs s1 = Inr s'"
    by (auto split: sum.splits)
  from Cons.prems(3) x have kin: "k \<in> fst ` set (borrowingStates s)"
    by auto
  note st = updateBorrowingTrie_body_step [OF b Cons.prems(2)]
  from st(3) obtain t1 where t1: "borrowingTrie s1 = Some t1"
    and l1: "\<forall>b. (k \<in> borrowingStatesDirty s \<longrightarrow> b \<noteq> hashBytes k) \<longrightarrow>
                  map_of (leaves t1) b = map_of (leaves t) b"
    by blast
  have keys: "map fst (borrowingStates s1) = map fst (borrowingStates s)"
    using st(2) kin by simp
  then have sub: "fst ` set xs \<subseteq> fst ` set (borrowingStates s1)"
    using Cons.prems(3) by (metis insert_subset list.simps(15) image_insert set_map)
  from Cons.IH [OF r t1 sub] obtain t' where
    d: "borrowingStatesDirty s' = borrowingStatesDirty s1 - fst ` set xs"
    and ks: "map fst (borrowingStates s') = map fst (borrowingStates s1)"
    and t': "borrowingTrie s' = Some t'"
    and l': "\<forall>b. b \<notin> hashBytes ` (borrowingStatesDirty s1 \<inter> fst ` set xs) \<longrightarrow>
                   map_of (leaves t') b = map_of (leaves t1) b"
    by blast
  have "borrowingStatesDirty s' = borrowingStatesDirty s - fst ` set (x # xs)"
    using d st(1) x by auto
  moreover have "map fst (borrowingStates s') = map fst (borrowingStates s)"
    using ks keys by simp
  moreover have "map_of (leaves t') b = map_of (leaves t) b"
    if nb: "b \<notin> hashBytes ` (borrowingStatesDirty s \<inter> fst ` set (x # xs))" for b
  proof -
    from nb st(1) have "b \<notin> hashBytes ` (borrowingStatesDirty s1 \<inter> fst ` set xs)"
      by auto
    with l' have "map_of (leaves t') b = map_of (leaves t1) b" by blast
    moreover from nb x have "k \<in> borrowingStatesDirty s \<longrightarrow> b \<noteq> hashBytes k"
      by auto
    with l1 have "map_of (leaves t1) b = map_of (leaves t) b" by blast
    ultimately show ?thesis by simp
  qed
  ultimately show ?case using t' by blast
qed

lemma updateBorrowingTrie_flush:
  assumes "updateBorrowingTrie db s = Inr s'" and "getBorrowingTrie db s = (s0, Some t)"
  shows "borrowingStatesDirty s' = borrowingStatesDirty s - fst ` set (borrowingStates s)
       \<and> map fst (borrowingStates s') = map fst (borrowingStates s)
       \<and> (\<exists>t'. borrowingTrie s' = Some t'
            \<and> (\<forall>b. b \<notin> hashBytes ` (borrowingStatesDirty s \<inter> fst ` set (borrowingStates s)) \<longrightarrow>
                   map_of (leaves t') b = map_of (leaves t) b))"
proof -
  from getBorrowingTrie_result [of db s] assms(2)
  obtain e where s0: "s0 = s\<lparr>dbErr := e, borrowingTrie := Some t\<rparr>"
    by auto
  from assms have f: "forEach (updateBorrowingTrie_body db) (borrowingStates s0) s0 = Inr s'"
    by (simp add: updateBorrowingTrie_def)
  have "borrowingTrie s0 = Some t" "fst ` set (borrowingStates s0) \<subseteq> fst ` set (borrowingStates s0)"
    using s0 by simp_all
  from forEach_updateBorrowingTrie_body [OF f this] s0 show ?thesis
    by simp
qed

lemma updateBorrowingTrie_noop:
  assumes "borrowingTrie s = Some t"
    and "\<forall>x \<in> set (borrowingStates s). fst x \<notin> borrowingStatesDirty s"
  shows "updateBorrowingTrie db s = Inr s"
proof -
  have "forEach (updateBorrowingTrie_body db) (borrowingStates s) s = Inr s"
  proof (rule forEach_noop)
    fix x assume "x \<in> set (borrowingStates s)"
    with assms(2) have "fst x \<notin> borrowingStatesDirty s"
      by blast
    then show "updateBorrowingTrie_body db x s = Inr s"
      by (cases x) (simp add: updateBorrowingTrie_body_clean)
  qed
  with assms(1) show ?thesis
    by (simp add: updateBorrowingTrie_def getBorrowingTrie_open)
qed

lemma updateBorrowingTrie_clean:
  assumes "updateBorrowingTrie db s = Inr s'"
  shows "(\<exists>t'. borrowingTrie s' = Some t')
       \<and> (\<forall>x \<in> set (borrowingStates s'). fst x \<notin> borrowingStatesDirty s')"
proof -
  obtain t e where g: "getBorrowingTrie db s = (s\<lparr>dbErr := e, borrowingTrie := Some t\<rparr>, Some t)"
    using getBorrowingTrie_result by blast
  from updateBorrowingTrie_flush [OF assms g] obtain t' where
    d: "borrowingStatesDirty s' = borrowingStatesDirty s - fst ` set (borrowingStates s)"
    and k: "map fst (borrowingStates s') = map fst (borrowingStates s)"
    and t': "borrowingTrie s' = Some t'"
    by blast
  have "fst ` set (borrowingStates s') = fst ` set (borrowingStates s)"
    using k by (metis set_map)
  with d t' show ?thesis by auto
qed

lemma updateBorrowingTrie_idem:
  assumes "updateBorrowingTrie db s = Inr s'"
  shows "updateBorrowingTrie db s' = Inr s'"
  using updateBorrowingTrie_clean [OF assms] updateBorrowingTrie_noop by blast

lemma updateBorrowingRoot_idem:
  assumes "updateBorrowingRoot db s = Inr s'"
  shows "updateBorrowingRoot db s' = Inr s'"
proof -
  from assms obtain s1 t where u: "updateBorrowingTrie db s = Inr s1"
    and t: "borrowingTrie s1 = Some t"
    and s': "s' = s1\<lparr>data := (data s1)\<lparr>BorrowingRoot := Trie_Hash db t\<rparr>\<rparr>"
    by (auto simp: updateBorrowingRoot_def split: sum.splits option.splits)
  from updateBorrowingTrie_clean [OF u] s'
  have "\<forall>x \<in> set (borrowingStates s'). fst x \<notin> borrowingStatesDirty s'"
    by simp
  moreover have t': "borrowingTrie s' = Some t"
    using t s' by simp
  ultimately have "updateBorrowingTrie db s' = Inr s'"
    by (rule updateBorrowingTrie_noop [rotated])
  with t' s' show ?thesis
    by (simp add: updateBorrowingRoot_def)
qed

lemma updateInvestingTrie_body_clean:
  "k \<notin> investingStatesDirty s \<Longrightarrow> updateInvestingTrie_body db (k, obj) s = Inr s"
  by (simp add: updateInvestingTrie_body_def)

lemma updateInvestingTrie_body_step:
  assumes "updateInvestingTrie_body db (k, obj) s = Inr s1" and "investingTrie s = Some t"
  shows "investingStatesDirty s1 = investingStatesDirty s - {k}"
    and "k \<in> fst ` set (investingStates s) \<Longrightarrow>
           map fst (investingStates s1) = map fst (investingStates s)"
    and "\<exists>t1. investingTrie s1 = Some t1
           \<and> (\<forall>b. (k \<in> investingStatesDirty s \<longrightarrow> b \<noteq> hashBytes k) \<longrightarrow>
                  map_of (leaves t1) b = map_of (leaves t) b)"
proof -
  show "investingStatesDirty s1 = investingStatesDirty s - {k}"
    using assms
    by (auto simp: setError_fields fireOnDirty_fields updateInvestingTrie_body_def Let_def split: if_splits prod.splits)
  show "map fst (investingStates s1) = map fst (investingStates s)"
    if "k \<in> fst ` set (investingStates s)"
  proof -
    from that have "\<And>v. map fst (AList.update k v (investingStates s)) = map fst (investingStates s)"
      by (simp add: setError_fields fireOnDirty_fields update_keys)
    with assms show ?thesis
      by (auto simp: setError_fields fireOnDirty_fields updateInvestingTrie_body_def Let_def split: if_splits prod.splits)
  qed
  show "\<exists>t1. investingTrie s1 = Some t1
           \<and> (\<forall>b. (k \<in> investingStatesDirty s \<longrightarrow> b \<noteq> hashBytes k) \<longrightarrow>
                  map_of (leaves t1) b = map_of (leaves t) b)"
  proof (cases "k \<in> investingStatesDirty s")
    case False
    with assms show ?thesis by (simp add: setError_fields fireOnDirty_fields updateInvestingTrie_body_def)
  next
    case True
    show ?thesis
    proof (cases "itemListState_empty db obj")
      case e: True
      with True assms have "investingTrie s1 = Some (fst (TryDelete t (hashBytes k)))"
        by (auto simp: setError_fields fireOnDirty_fields updateInvestingTrie_body_def Let_def split: prod.splits)
      with True show ?thesis by (simp add: setError_fields fireOnDirty_fields TryDelete_other)
    next
      case e: False
      with True assms have "investingTrie s1 = Some (fst (TryUpdate t (hashBytes k)
          (bytesOrNil (EncodeItemListState db (itemListState_updateRoot db obj)))))"
        by (auto simp: setError_fields fireOnDirty_fields updateInvestingTrie_body_def Let_def split: prod.splits)
      with True show ?thesis by (simp add: setError_fields fireOnDirty_fields TryUpdate_other)
    qed
  qed
qed

lemma forEach_updateInvestingTrie_body:
  assumes "forEach (updateInvestingTrie_body db) xs s = Inr s'"
    and "investingTrie s = Some t"
    and "fst ` set xs \<subseteq> fst ` set (investingStates s)"
  shows "investingStatesDirty s' = investingStatesDirty s - fst ` set xs
       \<and> map fst (investingStates s') = map fst (investingStates s)
       \<and> (\<exists>t'. investingTrie s' = Some t'
            \<and> (\<forall>b. b \<notin> hashBytes ` (investingStatesDirty s \<inter> fst ` set xs) \<longrightarrow>
                   map_of (leaves t') b = map_of (leaves t) b))"
  using assms
proof (induction xs arbitrary: s t)
  case Nil
  then show ?case by simp
next
  case (Cons x xs)
  obtain k obj where x: "x = (k, obj)" by (cases x)
  from Cons.prems(1) x obtain s1 where
    b: "updateInvestingTrie_body db (k, obj) s = Inr s1"
    and r: "forEach (updateInvestingTrie_body db) xs s1 = Inr s'"
    by (auto split: sum.splits)
  from Cons.prems(3) x have kin: "k \<in> fst ` set (investingStates s)"
    by auto
  note st = updateInvestingTrie_body_step [OF b Cons.prems(2)]
  from st(3) obtain t1 where t1: "investingTrie s1 = Some t1"
    and l1: "\<forall>b. (k \<in> investingStatesDirty s \<longrightarrow> b \<noteq> hashBytes k) \<longrightarrow>
                  map_of (leaves t1) b = map_of (leaves t) b"
    by blast
  have keys: "map fst (investingStates s1) = map fst (investingStates s)"
    using st(2) kin by simp
  then have sub: "fst ` set xs \<subseteq> fst ` set (investingStates s1)"
    using Cons.prems(3) by (metis insert_subset list.simps(15) image_insert set_map)
  from Cons.IH [OF r t1 sub] obtain t' where
    d: "investingStatesDirty s' = investingStatesDirty s1 - fst ` set xs"
    and ks: "map fst (investingStates s') = map fst (investingStates s1)"
    and t': "investingTrie s' = Some t'"
    and l': "\<forall>b. b \<notin> hashBytes ` (investingStatesDirty s1 \<inter> fst ` set xs) \<longrightarrow>
                   map_of (leaves t') b = map_of (leaves t1) b"
    by blast
  have "investingStatesDirty s' = investingStatesDirty s - fst ` set (x # xs)"
    using d st(1) x by auto
  moreover have "map fst (investingStates s') = map fst (investingStates s)"
    using ks keys by simp
  moreover have "map_of (leaves t') b = map_of (leaves t) b"
    if nb: "b \<notin> hashBytes ` (investingStatesDirty s \<inter> fst ` set (x # xs))" for b
  proof -
    from nb st(1) have "b \<notin> hashBytes ` (investingStatesDirty s1 \<inter> fst ` set xs)"
      by auto
    with l' have "map_of (leaves t') b = map_of (leaves t1) b" by blast
    moreover from nb x have "k \<in> investingStatesDirty s \<longrightarrow> b \<noteq> hashBytes k"
      by auto
    with l1 have "map_of (leaves t1) b = map_of (leaves t) b" by blast
    ultimately show ?thesis by simp
  qed
  ultimately show ?case using t' by blast
qed

lemma updateInvestingTrie_flush:
  assumes "updateInvestingTrie db s = Inr s'" and "getInvestingTrie db s = (s0, Some t)"
  shows "investingStatesDirty s' = investingStatesDirty s - fst ` set (investingStates s)
       \<and> map fst (investingStates s') = map fst (investingStates s)
       \<and> (\<exists>t'. investingTrie s' = Some t'
            \<and> (\<forall>b. b \<notin> hashBytes ` (investingStatesDirty s \<inter> fst ` set (investingStates s)) \<longrightarrow>
                   map_of (leaves t') b = map_of (leaves t) b))"
proof -
  from getInvestingTrie_result [of db s] assms(2)
  obtain e where s0: "s0 = s\<lparr>dbErr := e, investingTrie := Some t\<rparr>"
    by auto
  from assms have f: "forEach (updateInvestingTrie_body db) (investingStates s0) s0 = Inr s'"
    by (simp add: updateInvestingTrie_def)
  have "investingTrie s0 = Some t" "fst ` set (investingStates s0) \<subseteq> fst ` set (investingStates s0)"
    using s0 by simp_all
  from forEach_updateInvestingTrie_body [OF f this] s0 show ?thesis
    by simp
qed

lemma updateInvestingTrie_noop:
  assumes "investingTrie s = Some t"
    and "\<forall>x \<in> set (investingStates s). fst x \<notin> investingStatesDirty s"
  shows "updateInvestingTrie db s = Inr s"
proof -
  have "forEach (updateInvestingTrie_body db) (investingStates s) s = Inr s"
  proof (rule forEach_noop)
    fix x assume "x \<in> set (investingStates s)"
    with assms(2) have "fst x \<notin> investingStatesDirty s"
      by blast
    then show "updateInvestingTrie_body db x s = Inr s"
      by (cases x) (simp add: updateInvestingTrie_body_clean)
  qed
  with assms(1) show ?thesis
    by (simp add: updateInvestingTrie_def getInvestingTrie_open)
qed

lemma updateInvestingTrie_clean:
  assumes "updateInvestingTrie db s = Inr s'"
  shows "(\<exists>t'. investingTrie s' = Some t')
       \<and> (\<forall>x \<in> set (investingStates s'). fst x \<notin> investingStatesDirty s')"
proof -
  obtain t e where g: "getInvestingTrie db s = (s\<lparr>dbErr := e, investingTrie := Some t\<rparr>, Some t)"
    using getInvestingTrie_result by blast
  from updateInvestingTrie_flush [OF assms g] obtain t' where
    d: "investingStatesDirty s' = investingStatesDirty s - fst ` set (investingStates s)"
    and k: "map fst (investingStates s') = map fst (investingStates s)"
    and t': "investingTrie s' = Some t'"
    by blast
  have "fst ` set (investingStates s') = fst ` set (investingStates s)"
    using k by (metis set_map)
  with d t' show ?thesis by auto
qed

lemma updateInvestingTrie_idem:
  assumes "updateInvestingTrie db s = Inr s'"
  shows "updateInvestingTrie db s' = Inr s'"
  using updateInvestingTrie_clean [OF assms] updateInvestingTrie_noop by blast

lemma updateInvestingRoot_idem:
  assumes "updateInvestingRoot db s = Inr (s', e)"
  shows "updateInvestingRoot db s' = Inr (s', e)"
proof -
  from assms obtain s1 where u: "updateInvestingTrie db s = Inr s1"
    by (auto simp: updateInvestingRoot_def split: sum.splits)
  from updateInvestingTrie_clean [OF u] obtain t where t: "investingTrie s1 = Some t"
    and c: "\<forall>x \<in> set (investingStates s1). fst x \<notin> investingStatesDirty s1"
    by blast
  show ?thesis
  proof (cases "dbErr s1")
    case (Some err)
    with assms u have "s' = s1" "e = Some err"
      by (simp_all add: updateInvestingRoot_def)
    with Some updateInvestingTrie_idem [OF u] show ?thesis
      by (simp add: updateInvestingRoot_def)
  next
    case None
    with assms u t have s': "s' = s1\<lparr>data := (data s1)\<lparr>InvestingRoot := Trie_Hash db t\<rparr>\<rparr>"
      and e: "e = None"
      by (simp_all add: updateInvestingRoot_def)
    from c s' have "\<forall>x \<in> set (investingStates s'). fst x \<notin> investingStatesDirty s'"
      by simp
    moreover have t': "investingTrie s' = Some t"
      using t s' by simp
    ultimately have "updateInvestingTrie db s' = Inr s'"
      by (rule updateInvestingTrie_noop [rotated])
    with t' s' e None show ?thesis
      by (simp add: updateInvestingRoot_def)
  qed
qed

lemma updateLiquidationTimeTrie_body_clean:
  "k \<notin> liquidationTimestatesDirty s \<Longrightarrow> updateLiquidationTimeTrie_body db (k, obj) s = Inr s"
  by (simp add: updateLiquidationTimeTrie_body_def)

lemma updateLiquidationTimeTrie_body_step:
  assumes "updateLiquidationTimeTrie_body db (k, obj) s = Inr s1" and "liquidationTimeTrie s = Some t"
  shows "liquidationTimestatesDirty s1 = liquidationTimestatesDirty s - {k}"
    and "k \<in> fst ` set (liquidationTimeStates s) \<Longrightarrow>
           map fst (liquidationTimeStates s1) = map fst (liquidationTimeStates s)"
    and "\<exists>t1. liquidationTimeTrie s1 = Some t1
           \<and> (\<forall>b. (k \<in> liquidationTimestatesDirty s \<longrightarrow> b \<noteq> hashBytes k) \<longrightarrow>
                  map_of (leaves t1) b = map_of (leaves t) b)"
proof -
  show "liquidationTimestatesDirty s1 = liquidationTimestatesDirty s - {k}"
    using assms
    by (auto simp: setError_fields fireOnDirty_fields updateLiquidationTimeTrie_body_def Let_def split: if_splits prod.splits)
  show "map fst (liquidationTimeStates s1) = map fst (liquidationTimeStates s)"
    if "k \<in> fst ` set (liquidationTimeStates s)"
  proof -
    from that have "\<And>v. map fst (AList.update k v (liquidationTimeStates s)) = map fst (liquidationTimeStates s)"
      by (simp add: setError_fields fireOnDirty_fields update_keys)
    with assms show ?thesis
      by (auto simp: setError_fields fireOnDirty_fields updateLiquidationTimeTrie_body_def Let_def split: if_splits prod.splits)
  qed
  show "\<exists>t1. liquidationTimeTrie s1 = Some t1
           \<and> (\<forall>b. (k \<in> liquidationTimestatesDirty s \<longrightarrow> b \<noteq> hashBytes k) \<longrightarrow>
                  map_of (leaves t1) b = map_of (leaves t) b)"
  proof (cases "k \<in> liquidationTimestatesDirty s")
    case False
    with assms show ?thesis by (simp add: setError_fields fireOnDirty_fields updateLiquidationTimeTrie_body_def)
  next
    case True
    show ?thesis
    proof (cases "liquidationTimeState_empty db obj")
      case e: True
      with True assms have "liquidationTimeTrie s1 = Some (fst (TryDelete t (hashBytes k)))"
        by (auto simp: setError_fields fireOnDirty_fields updateLiquidationTimeTrie_body_def Let_def split: prod.splits)
      with True show ?thesis by (simp add: setError_fields fireOnDirty_fields TryDelete_other)
    next
      case e: False
      with True assms have "liquidationTimeTrie s1 = Some (fst (TryUpdate t (hashBytes k)
          (bytesOrNil (EncodeLiquidationTimeState db (liquidationTimeState_updateRoot db obj)))))"
        by (auto simp: setError_fields fireOnDirty_fields updateLiquidationTimeTrie_body_def Let_def split: prod.splits)
      with True show ?thesis by (simp add: setError_fields fireOnDirty_fields TryUpdate_other)
    qed
  qed
qed

lemma forEach_updateLiquidationTimeTrie_body:
  assumes "forEach (updateLiquidationTimeTrie_body db) xs s = Inr s'"
    and "liquidationTimeTrie s = Some t"
    and "fst ` set xs \<subseteq> fst ` set (liquidationTimeStates s)"
  shows "liquidationTimestatesDirty s' = liquidationTimestatesDirty s - fst ` set xs
       \<and> map fst (liquidationTimeStates s') = map fst (liquidationTimeStates s)
       \<and> (\<exists>t'. liquidationTimeTrie s' = Some t'
            \<and> (\<forall>b. b \<notin> hashBytes ` (liquidationTimestatesDirty s \<inter> fst ` set xs) \<longrightarrow>
                   map_of (leaves t') b = map_of (leaves t) b))"
  using assms
proof (induction xs arbitrary: s t)
  case Nil
  then show ?case by simp
next
  case (Cons x xs)
  obtain k obj where x: "x = (k, obj)" by (cases x)
  from Cons.prems(1) x obtain s1 where
    b: "updateLiquidationTimeTrie_body db (k, obj) s = Inr s1"
    and r: "forEach (updateLiquidationTimeTrie_body db) xs s1 = Inr s'"
    by (auto split: sum.splits)
  from Cons.prems(3) x have kin: "k \<in> fst ` set (liquidationTimeStates s)"
    by auto
  note st = updateLiquidationTimeTrie_body_step [OF b Cons.prems(2)]
  from st(3) obtain t1 where t1: "liquidationTimeTrie s1 = Some t1"
    and l1: "\<forall>b. (k \<in> liquidationTimestatesDirty s \<longrightarrow> b \<noteq> hashBytes k) \<longrightarrow>
                  map_of (leaves t1) b = map_of (leaves t) b"
    by blast
  have keys: "map fst (liquidationTimeStates s1) = map fst (liquidationTimeStates s)"
    using st(2) kin by simp
  then have sub: "fst ` set xs \<subseteq> fst ` set (liquidationTimeStates s1)"
    using Cons.prems(3) by (metis insert_subset list.simps(15) image_insert set_map)
  from Cons.IH [OF r t1 sub] obtain t' where
    d: "liquidationTimestatesDirty s' = liquidationTimestatesDirty s1 - fst ` set xs"
    and ks: "map fst (liquidationTimeStates s') = map fst (liquidationTimeStates s1)"
    and t': "liquidationTimeTrie s' = Some t'"
    and l': "\<forall>b. b \<notin> hashBytes ` (liquidationTimestatesDirty s1 \<inter> fst ` set xs) \<longrightarrow>
                   map_of (leaves t') b = map_of (leaves t1) b"
    by blast
  have "liquidationTimestatesDirty s' = liquidationTimestatesDirty s - fst ` set (x # xs)"
    using d st(1) x by auto
  moreover have "map fst (liquidationTimeStates s') = map fst (liquidationTimeStates s)"
    using ks keys by simp
  moreover have "map_of (leaves t') b = map_of (leaves t) b"
    if nb: "b \<notin> hashBytes ` (liquidationTimestatesDirty s \<inter> fst ` set (x # xs))" for b
  proof -
    from nb st(1) have "b \<notin> hashBytes ` (liquidationTimestatesDirty s1 \<inter> fst ` set xs)"
      by auto
    with l' have "map_of (leaves t') b = map_of (leaves t1) b" by blast
    moreover from nb x have "k \<in> liquidationTimestatesDirty s \<longrightarrow> b \<noteq> hashBytes k"
      by auto
    with l1 have "map_of (leaves t1) b = map_of (leaves t) b" by blast
    ultimately show ?thesis by simp
  qed
  ultimately show ?case using t' by blast
qed

lemma updateLiquidationTimeTrie_flush:
  assumes "updateLiquidationTimeTrie db s = Inr s'" and "getLiquidationTimeTrie db s = (s0, Some t)"
  shows "liquidationTimestatesDirty s' = liquidationTimestatesDirty s - fst ` set (liquidationTimeStates s)
       \<and> map fst (liquidationTimeStates s') = map fst (liquidationTimeStates s)
       \<and> (\<exists>t'. liquidationTimeTrie s' = Some t'
            \<and> (\<forall>b. b \<notin> hashBytes ` (liquidationTimestatesDirty s \<inter> fst ` set (liquidationTimeStates s)) \<longrightarrow>
                   map_of (leaves t') b = map_of (leaves t) b))"
proof -
  from getLiquidationTimeTrie_result [of db s] assms(2)
  obtain e where s0: "s0 = s\<lparr>dbErr := e, liquidationTimeTrie := Some t\<rparr>"
    by auto
  from assms have f: "forEach (updateLiquidationTimeTrie_body db) (liquidationTimeStates s0) s0 = Inr s'"
    by (simp add: updateLiquidationTimeTrie_def)
  have "liquidationTimeTrie s0 = Some t" "fst ` set (liquidationTimeStates s0) \<subseteq> fst ` set (liquidationTimeStates s0)"
    using s0 by simp_all
  from forEach_updateLiquidationTimeTrie_body [OF f this] s0 show ?thesis
    by simp
qed

lemma updateLiquidationTimeTrie_noop:
  assumes "liquidationTimeTrie s = Some t"
    and "\<forall>x \<in> set (liquidationTimeStates s). fst x \<notin> liquidationTimestatesDirty s"
  shows "updateLiquidationTimeTrie db s = Inr s"
proof -
  have "forEach (updateLiquidationTimeTrie_body db) (liquidationTimeStates s) s = Inr s"
  proof (rule forEach_noop)
    fix x assume "x \<in> set (liquidationTimeStates s)"
    with assms(2) have "fst x \<notin> liquidationTimestatesDirty s"
      by blast
    then show "updateLiquidationTimeTrie_body db x s = Inr s"
      by (cases x) (simp add: updateLiquidationTimeTrie_body_clean)
  qed
  with assms(1) show ?thesis
    by (simp add: updateLiquidationTimeTrie_def getLiquidationTimeTrie_open)
qed

lemma updateLiquidationTimeTrie_clean:
  assumes "updateLiquidationTimeTrie db s = Inr s'"
  shows "(\<exists>t'. liquidationTimeTrie s' = Some t')
       \<and> (\<forall>x \<in> set (liquidationTimeStates s'). fst x \<notin> liquidationTimestatesDirty s')"
proof -
  obtain t e where g: "getLiquidationTimeTrie db s = (s\<lparr>dbErr := e, liquidationTimeTrie := Some t\<rparr>, Some t)"
    using getLiquidationTimeTrie_result by blast
  from updateLiquidationTimeTrie_flush [OF assms g] obtain t' where
    d: "liquidationTimestatesDirty s' = liquidationTimestatesDirty s - fst ` set (liquidationTimeStates s)"
    and k: "map fst (liquidationTimeStates s') = map fst (liquidationTimeStates s)"
    and t': "liquidationTimeTrie s' = Some t'"
    by blast
  have "fst ` set (liquidationTimeStates s') = fst ` set (liquidationTimeStates s)"
    using k by (metis set_map)
  with d t' show ?thesis by auto
qed

lemma updateLiquidationTimeTrie_idem:
  assumes "updateLiquidationTimeTrie db s = Inr s'"
  shows "updateLiquidationTimeTrie db s' = Inr s'"
  using updateLiquidationTimeTrie_clean [OF assms] updateLiquidationTimeTrie_noop by blast

lemma updateLiquidationTimeRoot_idem:
  assumes "updateLiquidationTimeRoot db s = Inr s'"
  shows "updateLiquidationTimeRoot db s' = Inr s'"
proof -
  from assms obtain s1 t where u: "updateLiquidationTimeTrie db s = Inr s1"
    and t: "liquidationTimeTrie s1 = Some t"
    and s': "s' = s1\<lparr>data := (data s1)\<lparr>LiquidationTimeRoot := Trie_Hash db t\<rparr>\<rparr>"
    by (auto simp: updateLiquidationTimeRoot_def split: sum.splits option.splits)
  from updateLiquidationTimeTrie_clean [OF u] s'
  have "\<forall>x \<in> set (liquidationTimeStates s'). fst x \<notin> liquidationTimestatesDirty s'"
    by simp
  moreover have t': "liquidationTimeTrie s' = Some t"
    using t s' by simp
  ultimately have "updateLiquidationTimeTrie db s' = Inr s'"
    by (rule updateLiquidationTimeTrie_noop [rotated])
  with t' s' show ?thesis
    by (simp add: updateLiquidationTimeRoot_def)
qed

lemma updateLendingTimeTrie_body_clean:
  "k \<notin> lendingItemStatesDirty s \<Longrightarrow> updateLendingTimeTrie_body db (k, obj) s = Inr s"
  by (simp add: updateLendingTimeTrie_body_def)

lemma updateLendingTimeTrie_body_step:
  assumes "updateLendingTimeTrie_body db (k, obj) s = Inr s1" and "lendingTrie s = Some t"
  shows "lendingItemStatesDirty s1 = lendingItemStatesDirty s - {k}"
    and "k \<in> fst ` set (lendingItemStates s) \<Longrightarrow>
           map fst (lendingItemStates s1) = map fst (lendingItemStates s)"
    and "\<exists>t1. lendingTrie s1 = Some t1
           \<and> (\<forall>b. (k \<in> lendingItemStatesDirty s \<longrightarrow> b \<noteq> hashBytes k) \<longrightarrow>
                  map_of (leaves t1) b = map_of (leaves t) b)"
proof -
  show "lendingItemStatesDirty s1 = lendingItemStatesDirty s - {k}"
    using assms
    by (auto simp: setError_fields fireOnDirty_fields updateLendingTimeTrie_body_def Let_def split: if_splits prod.splits)
  show "map fst (lendingItemStates s1) = map fst (lendingItemStates s)"
    if "k \<in> fst ` set (lendingItemStates s)"
  proof -
    from that have "\<And>v. map fst (AList.update k v (lendingItemStates s)) = map fst (lendingItemStates s)"
      by (simp add: setError_fields fireOnDirty_fields update_keys)
    with assms show ?thesis
      by (auto simp: setError_fields fireOnDirty_fields updateLendingTimeTrie_body_def Let_def split: if_splits prod.splits)
  qed
  show "\<exists>t1. lendingTrie s1 = Some t1
           \<and> (\<forall>b. (k \<in> lendingItemStatesDirty s \<longrightarrow> b \<noteq> hashBytes k) \<longrightarrow>
                  map_of (leaves t1) b = map_of (leaves t) b)"
  proof (cases "k \<in> lendingItemStatesDirty s")
    case False
    with assms show ?thesis by (simp add: setError_fields fireOnDirty_fields updateLendingTimeTrie_body_def)
  next
    case True
    show ?thesis
    proof (cases "lendingItemState_empty db obj")
      case e: True
      with True assms have "lendingTrie s1 = Some (fst (TryDelete t (hashBytes k)))"
        by (auto simp: setError_fields fireOnDirty_fields updateLendingTimeTrie_body_def Let_def split: prod.splits)
      with True show ?thesis by (simp add: setError_fields fireOnDirty_fields TryDelete_other)
    next
      case e: False
      with True assms have "lendingTrie s1 = Some (fst (TryUpdate t (hashBytes k)
          (bytesOrNil (EncodeLendingItemState db obj))))"
        by (auto simp: setError_fields fireOnDirty_fields updateLendingTimeTrie_body_def Let_def split: prod.splits)
      with True show ?thesis by (simp add: setError_fields fireOnDirty_fields TryUpdate_other)
    qed
  qed
qed

lemma forEach_updateLendingTimeTrie_body:
  assumes "forEach (updateLendingTimeTrie_body db) xs s = Inr s'"
    and "lendingTrie s = Some t"
    and "fst ` set xs \<subseteq> fst ` set (lendingItemStates s)"
  shows "lendingItemStatesDirty s' = lendingItemStatesDirty s - fst ` set xs
       \<and> map fst (lendingItemStates s') = map fst (lendingItemStates s)
       \<and> (\<exists>t'. lendingTrie s' = Some t'
            \<and> (\<forall>b. b \<notin> hashBytes ` (lendingItemStatesDirty s \<inter> fst ` set xs) \<longrightarrow>
                   map_of (leaves t') b = map_of (leaves t) b))"
  using assms
proof (induction xs arbitrary: s t)
  case Nil
  then show ?case by simp
next
  case (Cons x xs)
  obtain k obj where x: "x = (k, obj)" by (cases x)
  from Cons.prems(1) x obtain s1 where
    b: "updateLendingTimeTrie_body db (k, obj) s = Inr s1"
    and r: "forEach (updateLendingTimeTrie_body db) xs s1 = Inr s'"
    by (auto split: sum.splits)
  from Cons.prems(3) x have kin: "k \<in> fst ` set (lendingItemStates s)"
    by auto
  note st = updateLendingTimeTrie_body_step [OF b Cons.prems(2)]
  from st(3) obtain t1 where t1: "lendingTrie s1 = Some t1"
    and l1: "\<forall>b. (k \<in> lendingItemStatesDirty s \<longrightarrow> b \<noteq> hashBytes k) \<longrightarrow>
                  map_of (leaves t1) b = map_of (leaves t) b"
    by blast
  have keys: "map fst (lendingItemStates s1) = map fst (lendingItemStates s)"
    using st(2) kin by simp
  then have sub: "fst ` set xs \<subseteq> fst ` set (lendingItemStates s1)"
    using Cons.prems(3) by (metis insert_subset list.simps(15) image_insert set_map)
  from Cons.IH [OF r t1 sub] obtain t' where
    d: "lendingItemStatesDirty s' = lendingItemStatesDirty s1 - fst ` set xs"
    and ks: "map fst (lendingItemStates s') = map fst (lendingItemStates s1)"
    and t': "lendingTrie s' = Some t'"
    and l': "\<forall>b. b \<notin> hashBytes ` (lendingItemStatesDirty s1 \<inter> fst ` set xs) \<longrightarrow>
                   map_of (leaves t') b = map_of (leaves t1) b"
    by blast
  have "lendingItemStatesDirty s' = lendingItemStatesDirty s - fst ` set (x # xs)"
    using d st(1) x by auto
  moreover have "map fst (lendingItemStates s') = map fst (lendingItemStates s)"
    using ks keys by simp
  moreover have "map_of (leaves t') b = map_of (leaves t) b"
    if nb: "b \<notin> hashBytes ` (lendingItemStatesDirty s \<inter> fst ` set (x # xs))" for b
  proof -
    from nb st(1) have "b \<notin> hashBytes ` (lendingItemStatesDirty s1 \<inter> fst ` set xs)"
      by auto
    with l' have "map_of (leaves t') b = map_of (leaves t1) b" by blast
    moreover from nb x have "k \<in> lendingItemStatesDirty s \<longrightarrow> b \<noteq> hashBytes k"
      by auto
    with l1 have "map_of (leaves t1) b = map_of (leaves t) b" by blast
    ultimately show ?thesis by simp
  qed
  ultimately show ?case using t' by blast
qed

lemma updateLendingTimeTrie_flush:
  assumes "updateLendingTimeTrie db s = Inr s'" and "getLendingItemTrie db s = (s0, Some t)"
  shows "lendingItemStatesDirty s' = lendingItemStatesDirty s - fst ` set (lendingItemStates s)
       \<and> map fst (lendingItemStates s') = map fst (lendingItemStates s)
       \<and> (\<exists>t'. lendingTrie s' = Some t'
            \<and> (\<forall>b. b \<notin> hashBytes ` (lendingItemStatesDirty s \<inter> fst ` set (lendingItemStates s)) \<longrightarrow>
                   map_of (leaves t') b = map_of (leaves t) b))"
proof -
  from getLendingItemTrie_result [of db s] assms(2)
  obtain e where s0: "s0 = s\<lparr>dbErr := e, lendingTrie := Some t\<rparr>"
    by auto
  from assms have f: "forEach (updateLendingTimeTrie_body db) (lendingItemStates s0) s0 = Inr s'"
    by (simp add: updateLendingTimeTrie_def)
  have "lendingTrie s0 = Some t" "fst ` set (lendingItemStates s0) \<subseteq> fst ` set (lendingItemStates s0)"
    using s0 by simp_all
  from forEach_updateLendingTimeTrie_body [OF f this] s0 show ?thesis
    by simp
qed

lemma updateLendingTimeTrie_noop:
  assumes "lendingTrie s = Some t"
    and "\<forall>x \<in> set (lendingItemStates s). fst x \<notin> lendingItemStatesDirty s"
  shows "updateLendingTimeTrie db s = Inr s"
proof -
  have "forEach (updateLendingTimeTrie_body db) (lendingItemStates s) s = Inr s"
  proof (rule forEach_noop)
    fix x assume "x \<in> set (lendingItemStates s)"
    with assms(2) have "fst x \<notin> lendingItemStatesDirty s"
      by blast
    then show "updateLendingTimeTrie_body db x s = Inr s"
      by (cases x) (simp add: updateLendingTimeTrie_body_clean)
  qed
  with assms(1) show ?thesis
    by (simp add: updateLendingTimeTrie_def getLendingItemTrie_open)
qed

lemma updateLendingTimeTrie_clean:
  assumes "updateLendingTimeTrie db s = Inr s'"
  shows "(\<exists>t'. lendingTrie s' = Some t')
       \<and> (\<forall>x \<in> set (lendingItemStates s'). fst x \<notin> lendingItemStatesDirty s')"
proof -
  obtain t e where g: "getLendingItemTrie db s = (s\<lparr>dbErr := e, lendingTrie := Some t\<rparr>, Some t)"
    using getLendingItemTrie_result by blast
  from updateLendingTimeTrie_flush [OF assms g] obtain t' where
    d: "lendingItemStatesDirty s' = lendingItemStatesDirty s - fst ` set (lendingItemStates s)"
    and k: "map fst (lendingItemStates s') = map fst (lendingItemStates s)"
    and t': "lendingTrie s' = Some t'"
    by blast
  have "fst ` set (lendingItemStates s') = fst ` set (lendingItemStates s)"
    using k by (metis set_map)
  with d t' show ?thesis by auto
qed

lemma updateLendingTimeTrie_idem:
  assumes "updateLendingTimeTrie db s = Inr s'"
  shows "updateLendingTimeTrie db s' = Inr s'"
  using updateLendingTimeTrie_clean [OF assms] updateLendingTimeTrie_noop by blast

lemma updateOrderRoot_idem:
  assumes "updateOrderRoot db s = Inr s'"
  shows "updateOrderRoot db s' = Inr s'"
proof -
  from assms obtain s1 t where u: "updateLendingTimeTrie db s = Inr s1"
    and t: "lendingTrie s1 = Some t"
    and s': "s' = s1\<lparr>data := (data s1)\<lparr>LendingItemRoot := Trie_Hash db t\<rparr>\<rparr>"
    by (auto simp: updateOrderRoot_def split: sum.splits option.splits)
  from updateLendingTimeTrie_clean [OF u] s'
  have "\<forall>x \<in> set (lendingItemStates s'). fst x \<notin> lendingItemStatesDirty s'"
    by simp
  moreover have t': "lendingTrie s' = Some t"
    using t s' by simp
  ultimately have "updateLendingTimeTrie db s' = Inr s'"
    by (rule updateLendingTimeTrie_noop [rotated])
  with t' s' show ?thesis
    by (simp add: updateOrderRoot_def)
qed

text \<open>X1. The dirty flush of each collection, when it returns: the markers of all cached keys
  are cleared (a marker whose key has no cached object stays), the cache keeps its keys,
  and the trie differs from the one the flush opened at most under the keys that were
  both dirty and cached.\<close>
theorem flush_clears_markers_and_touches_dirty_leaves:
  "(updateBorrowingTrie db s = Inr sB \<and> getBorrowingTrie db s = (oB, Some tB) \<longrightarrow>
      borrowingStatesDirty sB = borrowingStatesDirty s - fst ` set (borrowingStates s)
      \<and> map fst (borrowingStates sB) = map fst (borrowingStates s)
      \<and> (\<exists>t'. borrowingTrie sB = Some t'
           \<and> (\<forall>b. b \<notin> hashBytes ` (borrowingStatesDirty s \<inter> fst ` set (borrowingStates s)) \<longrightarrow>
                  map_of (leaves t') b = map_of (leaves tB) b)))
   \<and> (updateInvestingTrie db s = Inr sI \<and> getInvestingTrie db s = (oI, Some tI) \<longrightarrow>
      investingStatesDirty sI = investingStatesDirty s - fst ` set (investingStates s)
      \<and> map fst (investingStates sI) = map fst (investingStates s)
      \<and> (\<exists>t'. investingTrie sI = Some t'
           \<and> (\<forall>b. b \<notin> hashBytes ` (investingStatesDirty s \<inter> fst ` set (investingStates s)) \<longrightarrow>
                  map_of (leaves t') b = map_of (leaves tI) b)))
   \<and> (updateLiquidationTimeTrie db s = Inr sT \<and> getLiquidationTimeTrie db s = (oT, Some tT) \<longrightarrow>
      liquidationTimestatesDirty sT = liquidationTimestatesDirty s - fst ` set (liquidationTimeStates s)
      \<and> map fst (liquidationTimeStates sT) = map fst (liquidationTimeStates s)
      \<and> (\<exists>t'. liquidationTimeTrie sT = Some t'
           \<and> (\<forall>b. b \<notin> hashBytes ` (liquidationTimestatesDirty s \<inter> fst ` set (liquidationTimeStates s)) \<longrightarrow>
                  map_of (leaves t') b = map_of (leaves tT) b)))
   \<and> (updateLendingTimeTrie db s = Inr sL \<and> getLendingItemTrie db s = (oL, Some tL) \<longrightarrow>
      lendingItemStatesDirty sL = lendingItemStatesDirty s - fst ` set (lendingItemStates s)
      \<and> map fst (lendingItemStates sL) = map fst (lendingItemStates s)
      \<and> (\<exists>t'. lendingTrie sL = Some t'
           \<and> (\<forall>b. b \<notin> hashBytes ` (lendingItemStatesDirty s \<inter> fst ` set (lendingItemStates s)) \<longrightarrow>
                  map_of (leaves t') b = map_of (leaves tL) b)))"
  apply (intro conjI impI)
  subgoal using updateBorrowingTrie_flush by blast
  subgoal using updateBorrowingTrie_flush by blast
  subgoal using updateBorrowingTrie_flush by blast
  subgoal using updateInvestingTrie_flush by blast
  subgoal using updateInvestingTrie_flush by blast
  subgoal using updateInvestingTrie_flush by blast
  subgoal using updateLiquidationTimeTrie_flush by blast
  subgoal using updateLiquidationTimeTrie_flush by blast
  subgoal using updateLiquidationTimeTrie_flush by blast
  subgoal using updateLendingTimeTrie_flush by blast
  subgoal using updateLendingTimeTrie_flush by blast
  subgoal using updateLendingTimeTrie_flush by blast
  done

text \<open>The example: key 1 is dirty and cached in every collection; the flush clears the
  marker and leaves the bytes under key 2 as they were.\<close>
theorem flush_clears_markers_and_touches_dirty_leaves_witness:
  "(\<exists>s'. updateBorrowingTrie exDb exDirty = Inr s' \<and> borrowingStatesDirty s' = {}
        \<and> (\<exists>t'. borrowingTrie s' = Some t' \<and> map_of (leaves t') (hashBytes 2) = Some [1]))
   \<and> (\<exists>s'. updateInvestingTrie exDb exDirty = Inr s' \<and> investingStatesDirty s' = {}
        \<and> (\<exists>t'. investingTrie s' = Some t' \<and> map_of (leaves t') (hashBytes 2) = Some [1]))
   \<and> (\<exists>s'. updateLiquidationTimeTrie exDb exDirty = Inr s' \<and> liquidationTimestatesDirty s' = {}
        \<and> (\<exists>t'. liquidationTimeTrie s' = Some t' \<and> map_of (leaves t') (hashBytes 2) = Some [1]))
   \<and> (\<exists>s'. updateLendingTimeTrie exDb exDirty = Inr s' \<and> lendingItemStatesDirty s' = {}
        \<and> (\<exists>t'. lendingTrie s' = Some t' \<and> map_of (leaves t') (hashBytes 2) = Some [1]))"
proof -
  have n: "hashBytes 2 \<notin> hashBytes ` ({1} \<inter> {1})"
    by (simp add: hashBytes_inj)
  have l: "map_of (leaves exTrie) (hashBytes 2) = Some [1]"
    by (simp add: exTrie_def)
  have fB: "updateBorrowingTrie exDb exDirty = Inr (exDirty\<lparr>borrowingStatesDirty := {}, borrowingTrie := Some exFlushedTrie\<rparr>)"
    by (simp add: updateBorrowingTrie_def getBorrowingTrie_def updateBorrowingTrie_body_def exDirty_def exState_def exTrie_def
        exFlushedTrie_def exDb_def exBorrowingObj_def exItemList_def newItemListState_def TryUpdate_def setError_def
        bytesOrNil_def hashBytes_inj)
  have gB: "getBorrowingTrie exDb exDirty = (exDirty, Some exTrie)"
      "borrowingStatesDirty exDirty = {1}" "fst ` set (borrowingStates exDirty) = {1}"
    by (simp_all add: getBorrowingTrie_def exDirty_def exState_def)
  have fI: "updateInvestingTrie exDb exDirty = Inr (exDirty\<lparr>investingStatesDirty := {}, investingTrie := Some exFlushedTrie\<rparr>)"
    by (simp add: updateInvestingTrie_def getInvestingTrie_def updateInvestingTrie_body_def exDirty_def exState_def exTrie_def
        exFlushedTrie_def exDb_def exInvestingObj_def exItemList_def newItemListState_def TryUpdate_def setError_def
        bytesOrNil_def hashBytes_inj)
  have gI: "getInvestingTrie exDb exDirty = (exDirty, Some exTrie)"
      "investingStatesDirty exDirty = {1}" "fst ` set (investingStates exDirty) = {1}"
    by (simp_all add: getInvestingTrie_def exDirty_def exState_def)
  have fT: "updateLiquidationTimeTrie exDb exDirty = Inr (exDirty\<lparr>liquidationTimestatesDirty := {}, liquidationTimeTrie := Some exFlushedTrie\<rparr>)"
    by (simp add: updateLiquidationTimeTrie_def getLiquidationTimeTrie_def updateLiquidationTimeTrie_body_def exDirty_def exState_def exTrie_def
        exFlushedTrie_def exDb_def exLiquidationObj_def exItemList_def newLiquidationTimeState_def TryUpdate_def setError_def
        bytesOrNil_def hashBytes_inj)
  have gT: "getLiquidationTimeTrie exDb exDirty = (exDirty, Some exTrie)"
      "liquidationTimestatesDirty exDirty = {1}" "fst ` set (liquidationTimeStates exDirty) = {1}"
    by (simp_all add: getLiquidationTimeTrie_def exDirty_def exState_def)
  have fL: "updateLendingTimeTrie exDb exDirty = Inr (exDirty\<lparr>lendingItemStatesDirty := {}, lendingTrie := Some exFlushedTrie\<rparr>)"
    by (simp add: updateLendingTimeTrie_def getLendingItemTrie_def updateLendingTimeTrie_body_def exDirty_def exState_def exTrie_def
        exFlushedTrie_def exDb_def exLendingObj_def exLendingItem_def newLendinItemState_def TryUpdate_def setError_def
        bytesOrNil_def hashBytes_inj)
  have gL: "getLendingItemTrie exDb exDirty = (exDirty, Some exTrie)"
      "lendingItemStatesDirty exDirty = {1}" "fst ` set (lendingItemStates exDirty) = {1}"
    by (simp_all add: getLendingItemTrie_def exDirty_def exState_def)
  from flush_clears_markers_and_touches_dirty_leaves [where db = exDb and s = exDirty
      and sB = "exDirty\<lparr>borrowingStatesDirty := {}, borrowingTrie := Some exFlushedTrie\<rparr>" and oB = exDirty and tB = exTrie and sI = "exDirty\<lparr>investingStatesDirty := {}, investingTrie := Some exFlushedTrie\<rparr>" and oI = exDirty and tI = exTrie and sT = "exDirty\<lparr>liquidationTimestatesDirty := {}, liquidationTimeTrie := Some exFlushedTrie\<rparr>" and oT = exDirty and tT = exTrie and sL = "exDirty\<lparr>lendingItemStatesDirty := {}, lendingTrie := Some exFlushedTrie\<rparr>" and oL = exDirty and tL = exTrie]
    fB gB fI gI fT gT fL gL n l
  show ?thesis
    by simp
qed

text \<open>X2. A flush that returned is a no-op when repeated with no mutation in between: the
  second \<open>update*Trie\<close> and the second \<open>update*Root\<close> return the state they are given, so
  the same root.\<close>
theorem second_flush_is_noop:
  "(updateBorrowingTrie db s = Inr sB \<longrightarrow> updateBorrowingTrie db sB = Inr sB)
   \<and> (updateBorrowingRoot db s = Inr rB \<longrightarrow> updateBorrowingRoot db rB = Inr rB)
   \<and> (updateInvestingTrie db s = Inr sI \<longrightarrow> updateInvestingTrie db sI = Inr sI)
   \<and> (updateInvestingRoot db s = Inr (rI, e) \<longrightarrow> updateInvestingRoot db rI = Inr (rI, e))
   \<and> (updateLiquidationTimeTrie db s = Inr sT \<longrightarrow> updateLiquidationTimeTrie db sT = Inr sT)
   \<and> (updateLiquidationTimeRoot db s = Inr rT \<longrightarrow> updateLiquidationTimeRoot db rT = Inr rT)
   \<and> (updateLendingTimeTrie db s = Inr sL \<longrightarrow> updateLendingTimeTrie db sL = Inr sL)
   \<and> (updateOrderRoot db s = Inr rL \<longrightarrow> updateOrderRoot db rL = Inr rL)"
  apply (intro conjI impI)
  subgoal by (erule updateBorrowingTrie_idem)
  subgoal by (erule updateBorrowingRoot_idem)
  subgoal by (erule updateInvestingTrie_idem)
  subgoal by (erule updateInvestingRoot_idem)
  subgoal by (erule updateLiquidationTimeTrie_idem)
  subgoal by (erule updateLiquidationTimeRoot_idem)
  subgoal by (erule updateLendingTimeTrie_idem)
  subgoal by (erule updateOrderRoot_idem)
  done

text \<open>The example: each collection of the order book with key 1 dirty is flushed twice.\<close>
theorem second_flush_is_noop_witness:
  "(\<exists>s'. updateBorrowingTrie exDb exDirty = Inr s' \<and> updateBorrowingTrie exDb s' = Inr s')
   \<and> (\<exists>s'. updateBorrowingRoot exDb exDirty = Inr s' \<and> updateBorrowingRoot exDb s' = Inr s')
   \<and> (\<exists>s'. updateInvestingTrie exDb exDirty = Inr s' \<and> updateInvestingTrie exDb s' = Inr s')
   \<and> (\<exists>s'. updateInvestingRoot exDb exDirty = Inr (s', None) \<and> updateInvestingRoot exDb s' = Inr (s', None))
   \<and> (\<exists>s'. updateLiquidationTimeTrie exDb exDirty = Inr s' \<and> updateLiquidationTimeTrie exDb s' = Inr s')
   \<and> (\<exists>s'. updateLiquidationTimeRoot exDb exDirty = Inr s' \<and> updateLiquidationTimeRoot exDb s' = Inr s')
   \<and> (\<exists>s'. updateLendingTimeTrie exDb exDirty = Inr s' \<and> updateLendingTimeTrie exDb s' = Inr s')
   \<and> (\<exists>s'. updateOrderRoot exDb exDirty = Inr s' \<and> updateOrderRoot exDb s' = Inr s')"
proof -
  have fB: "updateBorrowingTrie exDb exDirty = Inr (exDirty\<lparr>borrowingStatesDirty := {}, borrowingTrie := Some exFlushedTrie\<rparr>)"
    by (simp add: updateBorrowingTrie_def getBorrowingTrie_def updateBorrowingTrie_body_def exDirty_def exState_def exTrie_def
        exFlushedTrie_def exDb_def exBorrowingObj_def exItemList_def newItemListState_def TryUpdate_def setError_def
        bytesOrNil_def hashBytes_inj)
  have rB: "updateBorrowingRoot exDb exDirty = Inr (exDirty\<lparr>data := (data exDirty)\<lparr>BorrowingRoot := Trie_Hash exDb exFlushedTrie\<rparr>, borrowingStatesDirty := {}, borrowingTrie := Some exFlushedTrie\<rparr>)"
    by (simp add: updateBorrowingRoot_def fB; simp add: exDirty_def exState_def)
  have fI: "updateInvestingTrie exDb exDirty = Inr (exDirty\<lparr>investingStatesDirty := {}, investingTrie := Some exFlushedTrie\<rparr>)"
    by (simp add: updateInvestingTrie_def getInvestingTrie_def updateInvestingTrie_body_def exDirty_def exState_def exTrie_def
        exFlushedTrie_def exDb_def exInvestingObj_def exItemList_def newItemListState_def TryUpdate_def setError_def
        bytesOrNil_def hashBytes_inj)
  have rI: "updateInvestingRoot exDb exDirty = Inr ((exDirty\<lparr>data := (data exDirty)\<lparr>InvestingRoot := Trie_Hash exDb exFlushedTrie\<rparr>, investingStatesDirty := {}, investingTrie := Some exFlushedTrie\<rparr>), None)"
    by (simp add: updateInvestingRoot_def fI; simp add: exDirty_def exState_def)
  have fT: "updateLiquidationTimeTrie exDb exDirty = Inr (exDirty\<lparr>liquidationTimestatesDirty := {}, liquidationTimeTrie := Some exFlushedTrie\<rparr>)"
    by (simp add: updateLiquidationTimeTrie_def getLiquidationTimeTrie_def updateLiquidationTimeTrie_body_def exDirty_def exState_def exTrie_def
        exFlushedTrie_def exDb_def exLiquidationObj_def exItemList_def newLiquidationTimeState_def TryUpdate_def setError_def
        bytesOrNil_def hashBytes_inj)
  have rT: "updateLiquidationTimeRoot exDb exDirty = Inr (exDirty\<lparr>data := (data exDirty)\<lparr>LiquidationTimeRoot := Trie_Hash exDb exFlushedTrie\<rparr>, liquidationTimestatesDirty := {}, liquidationTimeTrie := Some exFlushedTrie\<rparr>)"
    by (simp add: updateLiquidationTimeRoot_def fT; simp add: exDirty_def exState_def)
  have fL: "updateLendingTimeTrie exDb exDirty = Inr (exDirty\<lparr>lendingItemStatesDirty := {}, lendingTrie := Some exFlushedTrie\<rparr>)"
    by (simp add: updateLendingTimeTrie_def getLendingItemTrie_def updateLendingTimeTrie_body_def exDirty_def exState_def exTrie_def
        exFlushedTrie_def exDb_def exLendingObj_def exLendingItem_def newLendinItemState_def TryUpdate_def setError_def
        bytesOrNil_def hashBytes_inj)
  have rL: "updateOrderRoot exDb exDirty = Inr (exDirty\<lparr>data := (data exDirty)\<lparr>LendingItemRoot := Trie_Hash exDb exFlushedTrie\<rparr>, lendingItemStatesDirty := {}, lendingTrie := Some exFlushedTrie\<rparr>)"
    by (simp add: updateOrderRoot_def fL; simp add: exDirty_def exState_def)
  from second_flush_is_noop [where db = exDb and s = exDirty and e = None
      and sB = "(exDirty\<lparr>borrowingStatesDirty := {}, borrowingTrie := Some exFlushedTrie\<rparr>)" and rB = "(exDirty\<lparr>data := (data exDirty)\<lparr>BorrowingRoot := Trie_Hash exDb exFlushedTrie\<rparr>, borrowingStatesDirty := {}, borrowingTrie := Some exFlushedTrie\<rparr>)" and sI = "(exDirty\<lparr>investingStatesDirty := {}, investingTrie := Some exFlushedTrie\<rparr>)" and rI = "(exDirty\<lparr>data := (data exDirty)\<lparr>InvestingRoot := Trie_Hash exDb exFlushedTrie\<rparr>, investingStatesDirty := {}, investingTrie := Some exFlushedTrie\<rparr>)" and sT = "(exDirty\<lparr>liquidationTimestatesDirty := {}, liquidationTimeTrie := Some exFlushedTrie\<rparr>)" and rT = "(exDirty\<lparr>data := (data exDirty)\<lparr>LiquidationTimeRoot := Trie_Hash exDb exFlushedTrie\<rparr>, liquidationTimestatesDirty := {}, liquidationTimeTrie := Some exFlushedTrie\<rparr>)" and sL = "(exDirty\<lparr>lendingItemStatesDirty := {}, lendingTrie := Some exFlushedTrie\<rparr>)" and rL = "(exDirty\<lparr>data := (data exDirty)\<lparr>LendingItemRoot := Trie_Hash exDb exFlushedTrie\<rparr>, lendingItemStatesDirty := {}, lendingTrie := Some exFlushedTrie\<rparr>)"]
    fB rB fI rI fT rT fL rL
  show ?thesis
    by simp
qed

section \<open>The owner callback, step by step\<close>

lemma fireOnDirty_once:
  "onDirty (fireOnDirty s h) = None
   \<and> effects (fireOnDirty s h) =
       effects s @ (case onDirty s of None \<Rightarrow> [] | Some cb \<Rightarrow> [OnDirty cb h])"
  by (simp add: fireOnDirty_def split: option.splits)

lemma createInvestingOrderList_once:
  assumes "createInvestingOrderList db p s pr = Inr (s', obj)"
  shows "onDirty s' = None
       \<and> effects s' = effects s @ (case onDirty s of None \<Rightarrow> [] | Some cb \<Rightarrow> [OnDirty cb (lendingBook s)])"
  using assms
  by (auto simp: setError_fields fireOnDirty_fields createInvestingOrderList_def Let_def fireOnDirty_once Hash_def
      split: sum.splits option.splits prod.splits)

lemma createBorrowingOrderList_once:
  assumes "createBorrowingOrderList db p s pr = Inr (s', obj)"
  shows "onDirty s' = None
       \<and> effects s' = effects s @ (case onDirty s of None \<Rightarrow> [] | Some cb \<Rightarrow> [OnDirty cb (lendingBook s)])"
  using assms
  by (auto simp: setError_fields fireOnDirty_fields createBorrowingOrderList_def Let_def fireOnDirty_once Hash_def
      split: sum.splits option.splits prod.splits)

text \<open>X3. Every mutating operation that ends with the invoke-then-clear block (\<open>SetNonce\<close>, the
  four \<open>Mark*Dirty\<close>, \<open>createLendingItem\<close> and, when they return, the two order-list
  creators) calls the owner callback with the order-book id exactly when the callback is
  still set, and leaves it cleared; \<open>createLiquidationTime\<close> neither calls nor clears it.
  So the callback is called at most once in the life of the object.\<close>
theorem owner_callback_called_then_cleared:
  "(onDirty (SetNonce s n) = None
      \<and> effects (SetNonce s n) =
          effects s @ (case onDirty s of None \<Rightarrow> [] | Some cb \<Rightarrow> [OnDirty cb (lendingBook s)]))
   \<and> (onDirty (MarkInvestingDirty s h) = None
      \<and> effects (MarkInvestingDirty s h) =
          effects s @ (case onDirty s of None \<Rightarrow> [] | Some cb \<Rightarrow> [OnDirty cb (lendingBook s)]))
   \<and> (onDirty (MarkBorrowingDirty s h) = None
      \<and> effects (MarkBorrowingDirty s h) =
          effects s @ (case onDirty s of None \<Rightarrow> [] | Some cb \<Rightarrow> [OnDirty cb (lendingBook s)]))
   \<and> (onDirty (MarkLendingItemDirty s h) = None
      \<and> effects (MarkLendingItemDirty s h) =
          effects s @ (case onDirty s of None \<Rightarrow> [] | Some cb \<Rightarrow> [OnDirty cb (lendingBook s)]))
   \<and> (onDirty (MarkLiquidationTimeDirty s h) = None
      \<and> effects (MarkLiquidationTimeDirty s h) =
          effects s @ (case onDirty s of None \<Rightarrow> [] | Some cb \<Rightarrow> [OnDirty cb (lendingBook s)]))
   \<and> (onDirty (fst (createLendingItem db p s h order)) = None
      \<and> effects (fst (createLendingItem db p s h order)) =
          effects s @ (case onDirty s of None \<Rightarrow> [] | Some cb \<Rightarrow> [OnDirty cb (lendingBook s)]))
   \<and> (createInvestingOrderList db p s h = Inr (sI, objI) \<longrightarrow>
        onDirty sI = None
        \<and> effects sI =
            effects s @ (case onDirty s of None \<Rightarrow> [] | Some cb \<Rightarrow> [OnDirty cb (lendingBook s)]))
   \<and> (createBorrowingOrderList db p s h = Inr (sB, objB) \<longrightarrow>
        onDirty sB = None
        \<and> effects sB =
            effects s @ (case onDirty s of None \<Rightarrow> [] | Some cb \<Rightarrow> [OnDirty cb (lendingBook s)]))
   \<and> (onDirty (fst (createLiquidationTime db p s h)) = onDirty s
      \<and> effects (fst (createLiquidationTime db p s h)) = effects s)"
  apply (intro conjI impI)
  subgoal by (simp add: SetNonce_def setNonce_def fireOnDirty_once)
  subgoal by (simp add: SetNonce_def setNonce_def fireOnDirty_once Hash_def)
  subgoal by (simp add: MarkInvestingDirty_def Let_def fireOnDirty_once)
  subgoal by (simp add: MarkInvestingDirty_def Let_def fireOnDirty_once Hash_def)
  subgoal by (simp add: MarkBorrowingDirty_def Let_def fireOnDirty_once)
  subgoal by (simp add: MarkBorrowingDirty_def Let_def fireOnDirty_once Hash_def)
  subgoal by (simp add: MarkLendingItemDirty_def Let_def fireOnDirty_once)
  subgoal by (simp add: MarkLendingItemDirty_def Let_def fireOnDirty_once Hash_def)
  subgoal by (simp add: MarkLiquidationTimeDirty_def Let_def fireOnDirty_once)
  subgoal by (simp add: MarkLiquidationTimeDirty_def Let_def fireOnDirty_once Hash_def)
  subgoal by (simp add: createLendingItem_def Let_def fireOnDirty_once)
  subgoal by (simp add: createLendingItem_def Let_def fireOnDirty_once)
  subgoal using createInvestingOrderList_once by blast
  subgoal using createInvestingOrderList_once by blast
  subgoal using createBorrowingOrderList_once by blast
  subgoal using createBorrowingOrderList_once by blast
  subgoal by (simp add: createLiquidationTime_def Let_def)
  subgoal by (simp add: createLiquidationTime_def Let_def)
  done

text \<open>The example: on the order book whose callback is set, creating an order list calls
  it once; a \<open>SetNonce\<close> after that calls nothing.\<close>
theorem owner_callback_called_then_cleared_witness:
  "(\<exists>s' obj. createInvestingOrderList exDb 0 exState 4 = Inr (s', obj)
       \<and> effects s' = [OnDirty 1 10] \<and> effects (SetNonce s' 3) = [OnDirty 1 10])
   \<and> (\<exists>s' obj. createBorrowingOrderList exDb 0 exState 4 = Inr (s', obj)
       \<and> effects s' = [OnDirty 1 10] \<and> effects (SetNonce s' 3) = [OnDirty 1 10])"
proof -
  have e: "onDirty exState = Some 1" "effects exState = []" "lendingBook exState = 10"
    by (simp_all add: exState_def)
  obtain sI objI where cI: "createInvestingOrderList exDb 0 exState 4 = Inr (sI, objI)"
    by (simp add: createInvestingOrderList_def Let_def exState_def exDb_def newItemListState_def
        itemList_zero_def TryUpdate_def exTrie_def)
  obtain sB objB where cB: "createBorrowingOrderList exDb 0 exState 4 = Inr (sB, objB)"
    by (simp add: createBorrowingOrderList_def Let_def exState_def exDb_def newItemListState_def
        itemList_zero_def TryUpdate_def exTrie_def)
  from owner_callback_called_then_cleared [where db = exDb and p = 0 and s = exState and h = 4
      and sI = sI and objI = objI and sB = sB and objB = objB] cI cB e
  have 1: "onDirty sI = None" "effects sI = [OnDirty 1 10]"
      "onDirty sB = None" "effects sB = [OnDirty 1 10]"
    by simp_all
  from owner_callback_called_then_cleared [where s = sI and n = 3] 1
  have 2: "effects (SetNonce sI 3) = [OnDirty 1 10]"
    by simp
  from owner_callback_called_then_cleared [where s = sB and n = 3] 1
  have 3: "effects (SetNonce sB 3) = [OnDirty 1 10]"
    by simp
  from cI cB 1 2 3 show ?thesis by simp
qed

section \<open>What a deep copy holds\<close>

text \<open>X4. The copy made by \<open>deepCopy\<close> has the order-book id, the root record and the four dirty
  sets of the original, the callback it was given and no memoized error; the investing,
  borrowing and lending-item tries are cloned and the liquidation-time trie is left nil;
  every cache has the keys of the original's, and under each key the original's object
  rebound to a dirty-marking method of the original (address \<open>p\<close>).\<close>
theorem deepCopy_fields:
  "lendingBook (deepCopy p s cb) = lendingBook s
   \<and> data (deepCopy p s cb) = data s
   \<and> onDirty (deepCopy p s cb) = cb
   \<and> dbErr (deepCopy p s cb) = None
   \<and> investingStatesDirty (deepCopy p s cb) = investingStatesDirty s
   \<and> borrowingStatesDirty (deepCopy p s cb) = borrowingStatesDirty s
   \<and> lendingItemStatesDirty (deepCopy p s cb) = lendingItemStatesDirty s
   \<and> liquidationTimestatesDirty (deepCopy p s cb) = liquidationTimestatesDirty s
   \<and> investingTrie (deepCopy p s cb) = investingTrie s
   \<and> borrowingTrie (deepCopy p s cb) = borrowingTrie s
   \<and> lendingTrie (deepCopy p s cb) = lendingTrie s
   \<and> liquidationTimeTrie (deepCopy p s cb) = None
   \<and> map_of (investingStates (deepCopy p s cb)) k =
       map_option (\<lambda>obj. obj\<lparr>il_onDirty := Some (p, MarkInvestingDirty_m)\<rparr>)
         (map_of (investingStates s) k)
   \<and> map_of (borrowingStates (deepCopy p s cb)) k =
       map_option (\<lambda>obj. obj\<lparr>il_onDirty := Some (p, MarkBorrowingDirty_m)\<rparr>)
         (map_of (borrowingStates s) k)
   \<and> map_of (lendingItemStates (deepCopy p s cb)) k =
       map_option (\<lambda>obj. obj\<lparr>li_onDirty := Some (p, MarkLendingItemDirty_m)\<rparr>)
         (map_of (lendingItemStates s) k)
   \<and> map_of (liquidationTimeStates (deepCopy p s cb)) k =
       map_option (\<lambda>obj. obj\<lparr>lt_onDirty := Some (p, MarkLiquidationTimeDirty_m)\<rparr>)
         (map_of (liquidationTimeStates s) k)"
proof -
  have m: "map_of (map (\<lambda>kv. (fst kv, f (snd kv))) xs) k = map_option f (map_of xs k)"
    for f :: "'v \<Rightarrow> 'v" and xs :: "(hash \<times> 'v) list"
    by (induction xs) auto
  have c: "map_option CopyTrie t = t" for t
    by (cases t) (simp_all add: CopyTrie_def)
  have i: "itemListState_deepCopy obj x = obj\<lparr>il_onDirty := x\<rparr>" for obj x
    by (simp add: itemListState_deepCopy_def newItemListState_def)
  have l: "lendingItemState_deepCopy obj x = obj\<lparr>li_onDirty := x\<rparr>" for obj x
    by (simp add: lendingItemState_deepCopy_def newLendinItemState_def)
  have t: "liquidationTimeState_deepCopy obj x = obj\<lparr>lt_onDirty := x\<rparr>" for obj x
    by (simp add: liquidationTimeState_deepCopy_def newLiquidationTimeState_def)
  show ?thesis
    by (simp add: deepCopy_def newStateExchanges_def Let_def m c i l t)
qed

section \<open>Emptiness of an order book\<close>

lemma empty_zero_roots:
  "empty s \<longleftrightarrow>
     Nonce (data s) = 0 \<and> InvestingRoot (data s) = EmptyHash \<and> BorrowingRoot (data s) = EmptyHash"
  by (simp add: empty_def common_EmptyHash_def)

lemma getInvestingTrie_of_empty:
  assumes "empty s" and "investingTrie s = None"
  shows "getInvestingTrie db s = (s\<lparr>investingTrie := Some emptyTrie\<rparr>, Some emptyTrie)"
  using assms by (simp add: getInvestingTrie_def empty_zero_roots OpenStorageTrie_EmptyHash Let_def)

lemma getBorrowingTrie_of_empty:
  assumes "empty s" and "borrowingTrie s = None"
  shows "getBorrowingTrie db s = (s\<lparr>borrowingTrie := Some emptyTrie\<rparr>, Some emptyTrie)"
  using assms by (simp add: getBorrowingTrie_def empty_zero_roots OpenStorageTrie_EmptyHash Let_def)

lemma updateInvestingRoot_of_empty:
  assumes "empty s" and "investingTrie s = None" and "investingStatesDirty s = {}"
    and "dbErr s = None"
  shows "updateInvestingRoot db s =
           Inr (s\<lparr>data := (data s)\<lparr>InvestingRoot := Trie_Hash db emptyTrie\<rparr>,
                  investingTrie := Some emptyTrie\<rparr>, None)"
proof -
  let ?s1 = "s\<lparr>investingTrie := Some emptyTrie\<rparr>"
  have "forEach (updateInvestingTrie_body db) (investingStates ?s1) ?s1 = Inr ?s1"
  proof (rule forEach_noop)
    fix x assume "x \<in> set (investingStates ?s1)"
    from assms(3) show "updateInvestingTrie_body db x ?s1 = Inr ?s1"
      by (cases x) (simp add: updateInvestingTrie_body_clean)
  qed
  with getInvestingTrie_of_empty [OF assms(1,2)]
  have "updateInvestingTrie db s = Inr ?s1"
    by (simp add: updateInvestingTrie_def)
  with assms(4) show ?thesis
    by (simp add: updateInvestingRoot_def)
qed

lemma updateBorrowingRoot_of_empty:
  assumes "empty s" and "borrowingTrie s = None" and "borrowingStatesDirty s = {}"
  shows "updateBorrowingRoot db s =
           Inr (s\<lparr>data := (data s)\<lparr>BorrowingRoot := Trie_Hash db emptyTrie\<rparr>,
                  borrowingTrie := Some emptyTrie\<rparr>)"
proof -
  let ?s1 = "s\<lparr>borrowingTrie := Some emptyTrie\<rparr>"
  have "forEach (updateBorrowingTrie_body db) (borrowingStates ?s1) ?s1 = Inr ?s1"
  proof (rule forEach_noop)
    fix x assume "x \<in> set (borrowingStates ?s1)"
    from assms(3) show "updateBorrowingTrie_body db x ?s1 = Inr ?s1"
      by (cases x) (simp add: updateBorrowingTrie_body_clean)
  qed
  with getBorrowingTrie_of_empty [OF assms(1,2)]
  have "updateBorrowingTrie db s = Inr ?s1"
    by (simp add: updateBorrowingTrie_def)
  then show ?thesis
    by (simp add: updateBorrowingRoot_def)
qed

lemma exDb_empty_trie_hash:
  "Trie_Hash exDb emptyTrie = 86" "EmptyRoot exDb = 86"
  by (simp_all add: Trie_Hash_def exDb_def emptyTrie_def)

lemma exFresh_fields:
  "Nonce (data exFresh) = 0" "InvestingRoot (data exFresh) = EmptyHash"
  "BorrowingRoot (data exFresh) = EmptyHash" "investingTrie exFresh = None"
  "borrowingTrie exFresh = None" "investingStatesDirty exFresh = {}"
  "borrowingStatesDirty exFresh = {}" "dbErr exFresh = None"
  by (simp_all add: exFresh_def newStateExchanges_def EmptyHash_def)

text \<open>C8, as stated, fails when the canonical empty-trie hash is read as the hash of an
  empty trie. In the example an empty trie hashes to 86, which is \<^verbatim>\<open>EmptyRoot\<close>. The new
  order book is empty; \<^verbatim>\<open>updateInvestingRoot\<close> and \<^verbatim>\<open>updateBorrowingRoot\<close> open its two
  empty tries and store their hash in the root fields. The order book then has nonce 0,
  two empty tries and both roots equal to the hash of an empty trie, and it does not
  report itself empty.\<close>
theorem empty_false_at_empty_trie_hash_counterexample:
  "Trie_Hash exDb emptyTrie = EmptyRoot exDb
   \<and> empty exFresh
   \<and> updateInvestingRoot exDb exFresh = Inr (exFreshInvestingFlushed, None)
   \<and> updateBorrowingRoot exDb exFreshInvestingFlushed = Inr exFreshFlushed
   \<and> Nonce (data exFreshFlushed) = 0
   \<and> InvestingRoot (data exFreshFlushed) = Trie_Hash exDb emptyTrie
   \<and> BorrowingRoot (data exFreshFlushed) = Trie_Hash exDb emptyTrie
   \<and> investingTrie exFreshFlushed = Some emptyTrie
   \<and> borrowingTrie exFreshFlushed = Some emptyTrie
   \<and> \<not> empty exFreshFlushed
   \<and> \<not> (empty exFreshFlushed \<longleftrightarrow>
          Nonce (data exFreshFlushed) = 0
            \<and> InvestingRoot (data exFreshFlushed) = Trie_Hash exDb emptyTrie
            \<and> BorrowingRoot (data exFreshFlushed) = Trie_Hash exDb emptyTrie)"
proof -
  have e: "empty exFresh"
    by (simp add: empty_zero_roots exFresh_fields)
  have i: "updateInvestingRoot exDb exFresh = Inr (exFreshInvestingFlushed, None)"
    using updateInvestingRoot_of_empty [of exFresh exDb] e
    by (simp add: exFresh_fields exDb_empty_trie_hash exFreshInvestingFlushed_def)
  have b: "updateBorrowingRoot exDb exFreshInvestingFlushed = Inr exFreshFlushed"
    by (simp add: updateBorrowingRoot_def updateBorrowingTrie_def getBorrowingTrie_def
        OpenStorageTrie_EmptyHash Let_def exFreshInvestingFlushed_def exFreshFlushed_def
        exFresh_def newStateExchanges_def exDb_empty_trie_hash EmptyHash_def [symmetric])
  have f: "Nonce (data exFreshFlushed) = 0" "InvestingRoot (data exFreshFlushed) = 86"
      "BorrowingRoot (data exFreshFlushed) = 86" "investingTrie exFreshFlushed = Some emptyTrie"
      "borrowingTrie exFreshFlushed = Some emptyTrie"
    by (simp_all add: exFreshFlushed_def exFresh_def newStateExchanges_def)
  have n: "\<not> empty exFreshFlushed"
    by (simp add: empty_zero_roots f EmptyHash_def)
  from e i b f n show ?thesis
    by (simp add: exDb_empty_trie_hash)
qed

text \<open>C8, amended. A \<^verbatim>\<open>lendingExchangeState\<close> reports itself empty exactly when its nonce is 0
  and its investing and borrowing roots are both the zero hash \<^verbatim>\<open>EmptyHash\<close>; two order
  books that agree on these three values give the same answer, so that the lending-item
  root, the liquidation-time root and every other field play no role. The zero hash is the
  root that opens as an empty trie: the investing and the borrowing trie of an empty order
  book open empty and without error. It need not be the hash of an empty trie: once
  \<^verbatim>\<open>updateInvestingRoot\<close> or \<^verbatim>\<open>updateBorrowingRoot\<close> has stored the hash of the still empty
  trie in the root field, the order book reports itself empty only if that hash is the zero
  hash.\<close>
theorem empty_iff_nonce_and_two_zero_roots:
  "(empty s \<longleftrightarrow>
      Nonce (data s) = 0 \<and> InvestingRoot (data s) = EmptyHash
        \<and> BorrowingRoot (data s) = EmptyHash)
   \<and> (Nonce (data s) = Nonce (data s') \<and> InvestingRoot (data s) = InvestingRoot (data s')
        \<and> BorrowingRoot (data s) = BorrowingRoot (data s') \<longrightarrow> empty s = empty s')
   \<and> empty (s\<lparr>data := (data s)\<lparr>LendingItemRoot := a, LiquidationTimeRoot := b\<rparr>\<rparr>) = empty s
   \<and> (empty s \<and> investingTrie s = None \<longrightarrow>
        getInvestingTrie db s = (s\<lparr>investingTrie := Some emptyTrie\<rparr>, Some emptyTrie))
   \<and> (empty s \<and> borrowingTrie s = None \<longrightarrow>
        getBorrowingTrie db s = (s\<lparr>borrowingTrie := Some emptyTrie\<rparr>, Some emptyTrie))
   \<and> (empty s \<and> investingTrie s = None \<and> investingStatesDirty s = {} \<and> dbErr s = None \<longrightarrow>
        updateInvestingRoot db s =
          Inr (s\<lparr>data := (data s)\<lparr>InvestingRoot := Trie_Hash db emptyTrie\<rparr>,
                 investingTrie := Some emptyTrie\<rparr>, None)
        \<and> (empty (s\<lparr>data := (data s)\<lparr>InvestingRoot := Trie_Hash db emptyTrie\<rparr>,
                     investingTrie := Some emptyTrie\<rparr>)
             \<longleftrightarrow> Trie_Hash db emptyTrie = EmptyHash))
   \<and> (empty s \<and> borrowingTrie s = None \<and> borrowingStatesDirty s = {} \<longrightarrow>
        updateBorrowingRoot db s =
          Inr (s\<lparr>data := (data s)\<lparr>BorrowingRoot := Trie_Hash db emptyTrie\<rparr>,
                 borrowingTrie := Some emptyTrie\<rparr>)
        \<and> (empty (s\<lparr>data := (data s)\<lparr>BorrowingRoot := Trie_Hash db emptyTrie\<rparr>,
                     borrowingTrie := Some emptyTrie\<rparr>)
             \<longleftrightarrow> Trie_Hash db emptyTrie = EmptyHash))"
  apply (intro conjI impI)
  subgoal by (rule empty_zero_roots)
  subgoal by (simp add: empty_zero_roots)
  subgoal by (simp add: empty_zero_roots)
  subgoal by (elim conjE) (rule getInvestingTrie_of_empty; assumption)
  subgoal by (elim conjE) (rule getBorrowingTrie_of_empty; assumption)
  subgoal by (elim conjE) (rule updateInvestingRoot_of_empty; assumption)
  subgoal by (simp add: empty_zero_roots)
  subgoal by (elim conjE) (rule updateBorrowingRoot_of_empty; assumption)
  subgoal by (simp add: empty_zero_roots)
  done

text \<open>The new order book with nonce 0 and zero roots is empty and stays so when the other
  two roots are set; a nonce of 1 makes it non-empty. Its investing and borrowing tries
  open empty. In the example an empty trie hashes to 86, so that after either root update
  the order book is no longer empty.\<close>
theorem empty_iff_nonce_and_two_zero_roots_witness:
  "empty exFresh
   \<and> empty (exFresh\<lparr>data := (data exFresh)\<lparr>LendingItemRoot := 5, LiquidationTimeRoot := 6\<rparr>\<rparr>)
   \<and> \<not> empty (exFresh\<lparr>data := (data exFresh)\<lparr>Nonce := 1\<rparr>\<rparr>)
   \<and> getInvestingTrie exDb exFresh = (exFresh\<lparr>investingTrie := Some emptyTrie\<rparr>, Some emptyTrie)
   \<and> getBorrowingTrie exDb exFresh = (exFresh\<lparr>borrowingTrie := Some emptyTrie\<rparr>, Some emptyTrie)
   \<and> updateInvestingRoot exDb exFresh =
       Inr (exFresh\<lparr>data := (data exFresh)\<lparr>InvestingRoot := 86\<rparr>,
                    investingTrie := Some emptyTrie\<rparr>, None)
   \<and> \<not> empty (exFresh\<lparr>data := (data exFresh)\<lparr>InvestingRoot := 86\<rparr>,
                       investingTrie := Some emptyTrie\<rparr>)
   \<and> updateBorrowingRoot exDb exFresh =
       Inr (exFresh\<lparr>data := (data exFresh)\<lparr>BorrowingRoot := 86\<rparr>,
                    borrowingTrie := Some emptyTrie\<rparr>)
   \<and> \<not> empty (exFresh\<lparr>data := (data exFresh)\<lparr>BorrowingRoot := 86\<rparr>,
                       borrowingTrie := Some emptyTrie\<rparr>)"
proof -
  let ?s' = "exFresh\<lparr>data := (data exFresh)\<lparr>LendingItemRoot := 5, LiquidationTimeRoot := 6\<rparr>\<rparr>"
  let ?n = "exFresh\<lparr>data := (data exFresh)\<lparr>Nonce := 1\<rparr>\<rparr>"
  have h: "Trie_Hash exDb emptyTrie \<noteq> EmptyHash"
    by (simp add: exDb_empty_trie_hash EmptyHash_def)
  from empty_iff_nonce_and_two_zero_roots [where s = exFresh and db = exDb and a = 5 and b = 6]
  have e: "empty exFresh" and o: "empty ?s'"
    by (simp_all add: exFresh_fields)
  from empty_iff_nonce_and_two_zero_roots [where s = ?n]
  have n: "\<not> empty ?n"
    by simp
  from empty_iff_nonce_and_two_zero_roots [where s = exFresh and db = exDb] e h
  have r: "getInvestingTrie exDb exFresh = (exFresh\<lparr>investingTrie := Some emptyTrie\<rparr>, Some emptyTrie)"
      "getBorrowingTrie exDb exFresh = (exFresh\<lparr>borrowingTrie := Some emptyTrie\<rparr>, Some emptyTrie)"
      "updateInvestingRoot exDb exFresh =
         Inr (exFresh\<lparr>data := (data exFresh)\<lparr>InvestingRoot := 86\<rparr>,
                      investingTrie := Some emptyTrie\<rparr>, None)"
      "\<not> empty (exFresh\<lparr>data := (data exFresh)\<lparr>InvestingRoot := 86\<rparr>,
                         investingTrie := Some emptyTrie\<rparr>)"
      "updateBorrowingRoot exDb exFresh =
         Inr (exFresh\<lparr>data := (data exFresh)\<lparr>BorrowingRoot := 86\<rparr>,
                      borrowingTrie := Some emptyTrie\<rparr>)"
      "\<not> empty (exFresh\<lparr>data := (data exFresh)\<lparr>BorrowingRoot := 86\<rparr>,
                         borrowingTrie := Some emptyTrie\<rparr>)"
    by (simp_all add: exFresh_fields exDb_empty_trie_hash)
  from e o n r show ?thesis
    by simp
qed
end
